theory Spec2Isabelle
  imports Main "HOL-Library.Sublist" "HOL-Library.Product_Lexorder"
begin

section \<open>Errors, the random source and the generator monad\<close>

text \<open>
  The exceptions the module can raise. \<open>InvalidOption\<close> is the module's own error and
  carries its message; \<open>AssertionError\<close> carries the text of the failed \<^verbatim>\<open>assert\<close>;
  the others are Python's built-in errors of indexing, dictionary lookup,
  \<^verbatim>\<open>randint\<close> on an empty range, date arithmetic and unbound locals.
\<close>

datatype error =
    InvalidOption string
  | AssertionError string
  | IndexError
  | KeyError string
  | ValueError
  | OverflowError
  | UnboundLocalError string

text \<open>
  The process-wide random source is the sequence of raw draws it is going to deliver.
  Each call of \<^verbatim>\<open>choice\<close> or \<^verbatim>\<open>randint\<close> consumes one draw; a sequence that
  has been used up keeps delivering 0. Quantifying over all sequences covers every
  outcome of every draw, since a generation consumes finitely many of them.
\<close>

type_synonym rng = "nat list"

type_synonym 'a gen = "rng \<Rightarrow> error + ('a \<times> rng)"

fun next_draw :: "rng \<Rightarrow> nat \<times> rng" where
  "next_draw [] = (0, [])"
| "next_draw (r # g) = (r, g)"

definition ret :: "'a \<Rightarrow> 'a gen" where
  "ret x g = Inr (x, g)"

definition raise :: "error \<Rightarrow> 'a gen" where
  "raise e g = Inl e"

definition bind_gen :: "'a gen \<Rightarrow> ('a \<Rightarrow> 'b gen) \<Rightarrow> 'b gen" where
  "bind_gen m f g = (case m g of Inl e \<Rightarrow> Inl e | Inr (x, g') \<Rightarrow> f x g')"

definition bind_err :: "error + 'a \<Rightarrow> ('a \<Rightarrow> error + 'b) \<Rightarrow> error + 'b" where
  "bind_err m f = (case m of Inl e \<Rightarrow> Inl e | Inr x \<Rightarrow> f x)"

definition lift :: "error + 'a \<Rightarrow> 'a gen" where
  "lift m g = (case m of Inl e \<Rightarrow> Inl e | Inr x \<Rightarrow> Inr (x, g))"

definition assert_that :: "bool \<Rightarrow> string \<Rightarrow> unit gen" where
  "assert_that c what = (if c then ret () else raise (AssertionError what))"

text \<open>\<^verbatim>\<open>random.choice(seq)\<close>: IndexError on an empty sequence.\<close>

definition choice :: "'a list \<Rightarrow> 'a gen" where
  "choice xs g =
     (if xs = [] then Inl IndexError
      else (case next_draw g of (r, g') \<Rightarrow> Inr (xs ! (r mod length xs), g')))"

text \<open>\<^verbatim>\<open>random.randint(a, b)\<close>: an integer of \<open>[a, b]\<close>, ValueError when \<open>b < a\<close>.\<close>

definition randint :: "int \<Rightarrow> int \<Rightarrow> int gen" where
  "randint a b g =
     (if b < a then Inl ValueError
      else (case next_draw g of (r, g') \<Rightarrow> Inr (a + int (r mod nat (b - a + 1)), g')))"

section \<open>Dictionaries and the compatibility tables\<close>

text \<open>
  A module-level dict is an association list in insertion order: \<open>keys\<close> is
  \<^verbatim>\<open>list(d.keys())\<close> and \<open>dict_get\<close> is \<^verbatim>\<open>d[k]\<close>, which raises KeyError.
\<close>

definition keys :: "(string \<times> 'a) list \<Rightarrow> string list" where
  "keys d = map fst d"

definition dict_get :: "(string \<times> 'a) list \<Rightarrow> string \<Rightarrow> error + 'a" where
  "dict_get d k = (case map_of d k of None \<Rightarrow> Inl (KeyError k) | Some v \<Rightarrow> Inr v)"

definition DEVICE_TYPE_OS :: "(string \<times> string list) list" where
  "DEVICE_TYPE_OS =
     [(''desktop'', [''win'', ''mac'', ''linux'']),
      (''smartphone'', [''android'']),
      (''tablet'', [''android''])]"

definition DEVICE_TYPE_NAVIGATOR :: "(string \<times> string list) list" where
  "DEVICE_TYPE_NAVIGATOR =
     [(''desktop'', [''chrome'', ''firefox'', ''ie'']),
      (''smartphone'', [''firefox'', ''chrome'']),
      (''tablet'', [''firefox'', ''chrome''])]"

definition OS_PLATFORM :: "(string \<times> string list) list" where
  "OS_PLATFORM =
     [(''win'',
        [''Windows NT 5.1'', ''Windows NT 6.1'', ''Windows NT 6.2'', ''Windows NT 6.3'',
         ''Windows NT 10.0'']),
      (''mac'',
        [''Macintosh; Intel Mac OS X 10.8'', ''Macintosh; Intel Mac OS X 10.9'',
         ''Macintosh; Intel Mac OS X 10.10'', ''Macintosh; Intel Mac OS X 10.11'',
         ''Macintosh; Intel Mac OS X 10.12'', ''Macintosh; Intel Mac OS X 10.13'',
         ''Macintosh; Intel Mac OS X 10.14'', ''Macintosh; Intel Mac OS X 10.15'']),
      (''linux'', [''X11; Linux'', ''X11; Ubuntu; Linux'']),
      (''android'',
        [''Android 4.4'', ''Android 4.4.1'', ''Android 4.4.2'', ''Android 4.4.3'',
         ''Android 4.4.4'', ''Android 5.0'', ''Android 5.0.1'', ''Android 5.0.2'',
         ''Android 5.1'', ''Android 5.1.1'', ''Android 6.0'', ''Android 6.0.1'',
         ''Android 7.0'', ''Android 7.1'', ''Android 7.1.1'', ''Android 7.1.2'',
         ''Android 8.0'', ''Android 8.1'', ''Android 9'', ''Android 10'', ''Android 11''])]"

definition OS_CPU :: "(string \<times> string list) list" where
  "OS_CPU =
     [(''win'', ['''', ''Win64; x64'', ''WOW64'']),
      (''linux'', [''i686'', ''x86_64'', ''i686 on x86_64'']),
      (''mac'', ['''']),
      (''android'', [''armv7l'', ''armv8l''])]"

definition OS_NAVIGATOR :: "(string \<times> string list) list" where
  "OS_NAVIGATOR =
     [(''win'', [''chrome'', ''firefox'', ''ie'']),
      (''mac'', [''firefox'', ''chrome'']),
      (''linux'', [''chrome'', ''firefox'']),
      (''android'', [''firefox'', ''chrome''])]"

definition NAVIGATOR_OS :: "(string \<times> string list) list" where
  "NAVIGATOR_OS =
     [(''chrome'', [''win'', ''linux'', ''mac'', ''android'']),
      (''firefox'', [''win'', ''linux'', ''mac'', ''android'']),
      (''ie'', [''win''])]"

section \<open>The constraint solver\<close>

text \<open>
  A filter argument as the caller passes it: \<^verbatim>\<open>None\<close>, a string, a list or tuple of
  strings, or an object of any other type, of which only its \<^verbatim>\<open>%s\<close> rendering matters
  (it goes into the error message).
\<close>

datatype opt_value = PyNone | PyStr string | PyList "string list" | PyOther string

text \<open>The \<^verbatim>\<open>for item in choices\<close> loop of \<^verbatim>\<open>get_option_choices\<close>.\<close>

fun check_choices :: "string \<Rightarrow> string list \<Rightarrow> string list \<Rightarrow> error + unit" where
  "check_choices opt_name all_choices [] = Inr ()"
| "check_choices opt_name all_choices (item # items) =
     (if item \<notin> set all_choices
      then Inl (InvalidOption
             (''Choices of option '' @ opt_name @ '' contains invalid item: '' @ item))
      else check_choices opt_name all_choices items)"

definition get_option_choices ::
  "string \<Rightarrow> opt_value \<Rightarrow> string list \<Rightarrow> string list \<Rightarrow> error + string list" where
  "get_option_choices opt_name opt_value default_value all_choices =
     bind_err
       (case opt_value of
          PyStr s \<Rightarrow> Inr [s]
        | PyList xs \<Rightarrow> Inr xs
        | PyNone \<Rightarrow> Inr default_value
        | PyOther shown \<Rightarrow>
            Inl (InvalidOption (''Option '' @ opt_name @ '' has invalid value: '' @ shown)))
       (\<lambda>choices.
          let choices = (if ''all'' \<in> set choices then all_choices else choices)
          in bind_err (check_choices opt_name all_choices choices) (\<lambda>_. Inr choices))"

text \<open>
  The loop over \<^verbatim>\<open>product(dev_type_choices, os_choices, nav_choices)\<close>. The three
  tests are joined by \<^verbatim>\<open>and\<close>, so a later dictionary is only indexed when the
  earlier tests passed.
\<close>

fun collect_variants ::
  "(string \<times> string \<times> string) list \<Rightarrow> (string \<times> string \<times> string) list
     \<Rightarrow> error + (string \<times> string \<times> string) list" where
  "collect_variants [] variants = Inr variants"
| "collect_variants ((dev, os, nav) # rest) variants =
     bind_err (dict_get DEVICE_TYPE_OS dev) (\<lambda>dev_oses.
       if os \<in> set dev_oses then
         bind_err (dict_get DEVICE_TYPE_NAVIGATOR dev) (\<lambda>dev_navs.
           if nav \<in> set dev_navs then
             bind_err (dict_get OS_NAVIGATOR os) (\<lambda>os_navs.
               if nav \<in> set os_navs
               then collect_variants rest (variants @ [(dev, os, nav)])
               else collect_variants rest variants)
           else collect_variants rest variants)
       else collect_variants rest variants)"

definition pick_config_ids ::
  "opt_value \<Rightarrow> opt_value \<Rightarrow> opt_value \<Rightarrow> (string \<times> string \<times> string) gen" where
  "pick_config_ids device_type os navigator =
     (let default_dev_types = (if os = PyNone then [''desktop''] else keys DEVICE_TYPE_OS)
      in
      bind_gen (lift (get_option_choices ''device_type'' device_type default_dev_types
                        (keys DEVICE_TYPE_OS))) (\<lambda>dev_type_choices.
      bind_gen (lift (get_option_choices ''os'' os (keys OS_NAVIGATOR)
                        (keys OS_NAVIGATOR))) (\<lambda>os_choices.
      bind_gen (lift (get_option_choices ''navigator'' navigator (keys NAVIGATOR_OS)
                        (keys NAVIGATOR_OS))) (\<lambda>nav_choices.
      bind_gen (lift (collect_variants
                        (List.product dev_type_choices (List.product os_choices nav_choices))
                        [])) (\<lambda>variants.
      if variants = [] then
        raise (InvalidOption
                 ''Options device_type, os and navigator conflicts with each other'')
      else
        bind_gen (choice variants) (\<lambda>(device_type, os_id, navigator_id).
        bind_gen (assert_that (os_id \<in> set (keys OS_PLATFORM))
                    ''os_id in OS_PLATFORM'') (\<lambda>_.
        bind_gen (assert_that (navigator_id \<in> set (keys NAVIGATOR_OS))
                    ''navigator_id in NAVIGATOR_OS'') (\<lambda>_.
        bind_gen (assert_that (device_type \<in> set (keys DEVICE_TYPE_OS))
                    ''device_type in DEVICE_TYPE_OS'') (\<lambda>_.
        ret (device_type, os_id, navigator_id))))))))))"

section \<open>Python strings\<close>

definition digit_char :: "nat \<Rightarrow> char" where
  "digit_char d = ''0123456789'' ! d"

definition is_digit :: "char \<Rightarrow> bool" where
  "is_digit c = (c \<in> set ''0123456789'')"

text \<open>\<^verbatim>\<open>str(n)\<close> and \<^verbatim>\<open>"%d" % n\<close> for an integer.\<close>

fun str_nat :: "nat \<Rightarrow> string" where
  "str_nat n = (if n < 10 then [digit_char n] else str_nat (n div 10) @ [digit_char (n mod 10)])"

declare str_nat.simps [simp del]

definition str_int :: "int \<Rightarrow> string" where
  "str_int i = (if i < 0 then CHR ''-'' # str_nat (nat (- i)) else str_nat (nat i))"

text \<open>A number in a zero-padded field of width \<open>w\<close>, as \<^verbatim>\<open>%02d\<close> prints it.\<close>

definition zero_padded :: "nat \<Rightarrow> int \<Rightarrow> string" where
  "zero_padded w i = (let s = str_int i in replicate (w - length s) CHR ''0'' @ s)"

text \<open>
  \<^verbatim>\<open>s.split(sep, maxsplit)\<close> for a non-empty separator: the pieces between the
  occurrences of \<open>sep\<close>, found from the left without overlap; \<open>maxsplit = -1\<close> is
  Python's default and puts no limit on the number of splits. \<open>cur\<close> is the piece being
  read.
\<close>

function split_pieces :: "string \<Rightarrow> int \<Rightarrow> string \<Rightarrow> string \<Rightarrow> string list" where
  "split_pieces sep maxsplit cur [] = [cur]"
| "split_pieces sep maxsplit cur (c # cs) =
     (if sep \<noteq> [] \<and> maxsplit \<noteq> 0 \<and> prefix sep (c # cs)
      then cur # split_pieces sep (maxsplit - 1) [] (drop (length sep) (c # cs))
      else split_pieces sep maxsplit (cur @ [c]) cs)"
  by pat_completeness auto
termination
  by (relation "measure (\<lambda>(sep, maxsplit, cur, s). length s)") auto

definition py_split :: "string \<Rightarrow> string \<Rightarrow> int \<Rightarrow> error + string list" where
  "py_split s sep maxsplit =
     (if sep = [] then Inl ValueError else Inr (split_pieces sep maxsplit [] s))"

text \<open>\<^verbatim>\<open>s.replace(old, new)\<close> for a non-empty \<open>old\<close>.\<close>

function py_replace :: "string \<Rightarrow> string \<Rightarrow> string \<Rightarrow> string" where
  "py_replace [] old new = []"
| "py_replace (c # cs) old new =
     (if old \<noteq> [] \<and> prefix old (c # cs)
      then new @ py_replace (drop (length old) (c # cs)) old new
      else c # py_replace cs old new)"
  by pat_completeness auto
termination
  by (relation "measure (\<lambda>(s, old, new). length s)") auto

text \<open>
  \<^verbatim>\<open>xs[i]\<close> on a list or tuple: position \<open>i\<close> from the front when \<open>i\<close> is
  not negative, position \<open>len(xs) + i\<close> when it is, and IndexError when that position does
  not exist.
\<close>

definition list_get :: "'a list \<Rightarrow> int \<Rightarrow> error + 'a" where
  "list_get xs i =
     (if 0 \<le> i \<and> i < int (length xs) then Inr (xs ! nat i)
      else if i < 0 \<and> - int (length xs) \<le> i then Inr (xs ! nat (int (length xs) + i))
      else Inl IndexError)"

text \<open>\<^verbatim>\<open>t.index(x)\<close>: the first position of \<open>x\<close>, ValueError when it is absent.\<close>

fun index_from :: "nat \<Rightarrow> 'a list \<Rightarrow> 'a \<Rightarrow> error + nat" where
  "index_from i [] x = Inl ValueError"
| "index_from i (y # ys) x = (if y = x then Inr i else index_from (Suc i) ys x)"

definition tuple_index :: "'a list \<Rightarrow> 'a \<Rightarrow> error + nat" where
  "tuple_index xs x = index_from 0 xs x"

text \<open>\<^verbatim>\<open>s.startswith(p)\<close> is \<^const>\<open>prefix\<close>; \<^verbatim>\<open>sub in s\<close> is \<open>contains\<close>.\<close>

fun contains :: "string \<Rightarrow> string \<Rightarrow> bool" where
  "contains [] sub = (sub = [])"
| "contains (c # cs) sub = (prefix sub (c # cs) \<or> contains cs sub)"

section \<open>Dates and times\<close>

text \<open>
  The part of Python's \<^verbatim>\<open>datetime\<close> library the module uses, after the library's
  own algorithms: a naive \<^verbatim>\<open>datetime\<close> is its six calendar fields, a
  \<^verbatim>\<open>timedelta\<close> is its length in whole seconds. \<open>ymd2ord\<close> numbers the days of the
  proleptic Gregorian calendar from 1 January of year 1, and \<open>ord2ymd\<close> is its inverse.
\<close>

record datetime =
  year :: int
  month :: int
  day :: int
  hour :: int
  minute :: int
  second :: int

definition datetime3 :: "int \<Rightarrow> int \<Rightarrow> int \<Rightarrow> datetime" where
  "datetime3 y m d = \<lparr>year = y, month = m, day = d, hour = 0, minute = 0, second = 0\<rparr>"

definition DAYS_IN_MONTH :: "int list" where
  "DAYS_IN_MONTH = [-1, 31, 28, 31, 30, 31, 30, 31, 31, 30, 31, 30, 31]"

definition DAYS_BEFORE_MONTH :: "int list" where
  "DAYS_BEFORE_MONTH = [-1, 0, 31, 59, 90, 120, 151, 181, 212, 243, 273, 304, 334]"

definition is_leap :: "int \<Rightarrow> bool" where
  "is_leap y = (y mod 4 = 0 \<and> (y mod 100 \<noteq> 0 \<or> y mod 400 = 0))"

definition days_before_year :: "int \<Rightarrow> int" where
  "days_before_year yr = (let y = yr - 1 in y * 365 + y div 4 - y div 100 + y div 400)"

definition days_in_month :: "int \<Rightarrow> int \<Rightarrow> int" where
  "days_in_month y m = (if m = 2 \<and> is_leap y then 29 else DAYS_IN_MONTH ! nat m)"

definition days_before_month :: "int \<Rightarrow> int \<Rightarrow> int" where
  "days_before_month y m =
     DAYS_BEFORE_MONTH ! nat m + (if m > 2 \<and> is_leap y then 1 else 0)"

definition ymd2ord :: "int \<Rightarrow> int \<Rightarrow> int \<Rightarrow> int" where
  "ymd2ord y m d = days_before_year y + days_before_month y m + d"

text \<open>
  The month and the day of the month of day \<open>n\<close> of a year, counted from 0: the
  estimate \<open>(n + 50) >> 5\<close> of the month is right or one too large.
\<close>

definition month_day_of :: "int \<Rightarrow> bool \<Rightarrow> int \<times> int" where
  "month_day_of n leapyear =
     (let mo = (n + 50) div 32;
          preceding = DAYS_BEFORE_MONTH ! nat mo + (if mo > 2 \<and> leapyear then 1 else 0)
      in if preceding > n
         then (let mo = mo - 1;
                   preceding = preceding
                     - (DAYS_IN_MONTH ! nat mo + (if mo = 2 \<and> leapyear then 1 else 0))
               in (mo, n - preceding + 1))
         else (mo, n - preceding + 1))"

definition ord2ymd :: "int \<Rightarrow> int \<times> int \<times> int" where
  "ord2ymd ordinal =
     (let n = ordinal - 1;
          n400 = n div 146097; n = n mod 146097;
          yr = n400 * 400 + 1;
          n100 = n div 36524; n = n mod 36524;
          n4 = n div 1461; n = n mod 1461;
          n1 = n div 365; n = n mod 365;
          yr = yr + n100 * 100 + n4 * 4 + n1
      in if n1 = 4 \<or> n100 = 4 then (yr - 1, 12, 31)
         else (yr, month_day_of n (n1 = 3 \<and> (n4 \<noteq> 24 \<or> n100 = 3))))"

definition valid_datetime :: "datetime \<Rightarrow> bool" where
  "valid_datetime t =
     (1 \<le> year t \<and> year t \<le> 9999 \<and> 1 \<le> month t \<and> month t \<le> 12
      \<and> 1 \<le> day t \<and> day t \<le> days_in_month (year t) (month t)
      \<and> 0 \<le> hour t \<and> hour t < 24 \<and> 0 \<le> minute t \<and> minute t < 60
      \<and> 0 \<le> second t \<and> second t < 60)"

definition toordinal :: "datetime \<Rightarrow> int" where
  "toordinal t = ymd2ord (year t) (month t) (day t)"

text \<open>Seconds from the start of day 0 of the calendar to \<open>t\<close>.\<close>

definition seconds_of :: "datetime \<Rightarrow> int" where
  "seconds_of t = toordinal t * 86400 + hour t * 3600 + minute t * 60 + second t"

text \<open>\<^verbatim>\<open>(b - a).total_seconds()\<close>.\<close>

definition total_seconds_between :: "datetime \<Rightarrow> datetime \<Rightarrow> int" where
  "total_seconds_between b a = seconds_of b - seconds_of a"

text \<open>
  \<^verbatim>\<open>t + timedelta(seconds=n)\<close>: OverflowError when the day leaves the calendar
  (1 January 1 to 31 December 9999).
\<close>

definition add_seconds :: "datetime \<Rightarrow> int \<Rightarrow> error + datetime" where
  "add_seconds t n =
     (let total = seconds_of t + n;
          days = total div 86400; secs = total mod 86400
      in if 0 < days \<and> days \<le> 3652059
         then (case ord2ymd days of (y, m, d) \<Rightarrow>
                 Inr \<lparr>year = y, month = m, day = d, hour = secs div 3600,
                      minute = (secs mod 3600) div 60, second = (secs mod 3600) mod 60\<rparr>)
         else Inl OverflowError)"

text \<open>\<^verbatim>\<open>t.strftime("%Y%m%d%H%M%S")\<close>.\<close>

definition strftime_YmdHMS :: "datetime \<Rightarrow> string" where
  "strftime_YmdHMS t =
     zero_padded 4 (year t) @ zero_padded 2 (month t) @ zero_padded 2 (day t)
     @ zero_padded 2 (hour t) @ zero_padded 2 (minute t) @ zero_padded 2 (second t)"

text \<open>Python orders datetimes by their fields, the year first.\<close>

definition dt_less :: "datetime \<Rightarrow> datetime \<Rightarrow> bool" where
  "dt_less a b =
     ((year a, month a, day a, hour a, minute a, second a)
        < (year b, month b, day b, hour b, minute b, second b))"

definition dt_le :: "datetime \<Rightarrow> datetime \<Rightarrow> bool" where
  "dt_le a b = (dt_less a b \<or> a = b)"

section \<open>The version catalogs\<close>

definition FIREFOX_VERSION :: "(string \<times> datetime) list" where
  "FIREFOX_VERSION =
     [(''0.9'', datetime3 2004 6 28), (''0.9.3'', datetime3 2004 8 4),
      (''0.10'', datetime3 2004 9 14), (''0.10.1'', datetime3 2004 9 14),
      (''1.0.1'', datetime3 2005 2 24), (''1.0.2'', datetime3 2005 3 23),
      (''1.0.3'', datetime3 2005 4 15), (''1.0.4'', datetime3 2005 5 11),
      (''1.0.5'', datetime3 2005 7 12), (''1.0.6'', datetime3 2005 7 19),
      (''1.0.7'', datetime3 2005 9 20), (''1.0.8'', datetime3 2006 4 13),
      (''1.5.0.1'', datetime3 2006 2 1), (''1.5.0.2'', datetime3 2006 4 13),
      (''1.5.0.3'', datetime3 2006 5 2), (''1.5.0.4'', datetime3 2006 6 1),
      (''1.5.0.5'', datetime3 2006 7 27), (''1.5.0.6'', datetime3 2006 8 2),
      (''1.5.0.7'', datetime3 2006 9 14), (''1.5.0.8'', datetime3 2006 11 7),
      (''1.5.0.9'', datetime3 2007 3 20), (''2.0.0.1'', datetime3 2006 12 19),
      (''2.0.0.2'', datetime3 2007 2 23), (''2.0.0.3'', datetime3 2007 3 20),
      (''2.0.0.4'', datetime3 2007 5 30), (''2.0.0.5'', datetime3 2007 7 17),
      (''2.0.0.6'', datetime3 2007 7 30), (''2.0.0.7'', datetime3 2007 9 18),
      (''2.0.0.8'', datetime3 2007 10 18), (''2.0.0.9'', datetime3 2007 11 1),
      (''2.0.0.11'', datetime3 2007 11 30), (''2.0.0.12'', datetime3 2008 2 7),
      (''2.0.0.13'', datetime3 2008 3 25), (''2.0.0.14'', datetime3 2008 4 16),
      (''2.0.0.15'', datetime3 2008 7 1), (''2.0.0.16'', datetime3 2008 7 15),
      (''2.0.0.17'', datetime3 2008 9 23), (''2.0.0.18'', datetime3 2008 11 12),
      (''2.0.0.19'', datetime3 2008 12 16), (''3.0.1'', datetime3 2008 7 16),
      (''3.0.2'', datetime3 2008 9 23), (''3.0.3'', datetime3 2008 9 26),
      (''3.0.4'', datetime3 2008 11 12), (''3.0.5'', datetime3 2008 12 16),
      (''3.0.6'', datetime3 2009 2 3), (''3.0.7'', datetime3 2009 3 4),
      (''3.0.8'', datetime3 2009 3 27), (''3.0.9'', datetime3 2009 4 21),
      (''3.0.10'', datetime3 2009 4 27), (''3.0.11'', datetime3 2009 6 11),
      (''3.0.12'', datetime3 2009 7 21), (''3.0.13'', datetime3 2009 8 3),
      (''3.0.14'', datetime3 2009 9 9), (''3.0.15'', datetime3 2009 10 27),
      (''3.0.16'', datetime3 2009 12 15), (''3.0.17'', datetime3 2010 1 5),
      (''3.0.18'', datetime3 2010 2 17), (''3.0.19'', datetime3 2010 3 30),
      (''3.5.1'', datetime3 2009 7 16), (''3.5.2'', datetime3 2009 8 3),
      (''3.5.3'', datetime3 2009 9 9), (''3.5.4'', datetime3 2009 10 27),
      (''3.5.5'', datetime3 2009 11 5), (''3.5.6'', datetime3 2009 12 15),
      (''3.5.7'', datetime3 2010 1 5), (''3.5.8'', datetime3 2010 2 17),
      (''3.5.9'', datetime3 2010 3 30), (''3.5.10'', datetime3 2010 6 22),
      (''3.5.11'', datetime3 2010 7 20), (''3.5.12'', datetime3 2010 9 7),
      (''3.5.13'', datetime3 2010 9 15), (''3.5.14'', datetime3 2010 10 19),
      (''3.5.15'', datetime3 2010 10 27), (''3.5.16'', datetime3 2010 12 9),
      (''3.5.17'', datetime3 2011 3 1), (''3.5.18'', datetime3 2011 3 22),
      (''3.6.2'', datetime3 2010 3 22), (''3.6.3'', datetime3 2010 4 1),
      (''3.6.4'', datetime3 2010 6 22), (''3.6.6'', datetime3 2010 6 26),
      (''3.6.7'', datetime3 2010 7 20), (''3.6.8'', datetime3 2010 7 23),
      (''3.6.9'', datetime3 2010 9 7), (''3.6.10'', datetime3 2010 9 15),
      (''3.6.11'', datetime3 2010 10 19), (''3.6.12'', datetime3 2010 10 27),
      (''3.6.13'', datetime3 2010 12 9), (''3.6.14'', datetime3 2011 3 1),
      (''3.6.15'', datetime3 2011 3 4), (''3.6.16'', datetime3 2011 3 22),
      (''3.6.17'', datetime3 2011 4 28), (''3.6.18'', datetime3 2011 6 21),
      (''3.6.19'', datetime3 2011 7 11), (''3.6.20'', datetime3 2011 8 16),
      (''3.6.21'', datetime3 2011 8 30), (''3.6.22'', datetime3 2011 9 6),
      (''3.6.23'', datetime3 2011 9 27), (''3.6.24'', datetime3 2011 11 8),
      (''3.6.25'', datetime3 2011 12 20), (''3.6.26'', datetime3 2012 1 31),
      (''3.6.27'', datetime3 2012 2 17), (''4.0'', datetime3 2011 3 22),
      (''4.0.1'', datetime3 2011 4 28), (''5.0'', datetime3 2011 6 21),
      (''7.0'', datetime3 2011 9 27), (''8.0'', datetime3 2011 11 8),
      (''9.0'', datetime3 2011 12 20), (''5.0.1'', datetime3 2011 7 11),
      (''6.0'', datetime3 2011 8 16), (''6.0.1'', datetime3 2011 8 30),
      (''6.0.2'', datetime3 2011 9 6), (''7.0.1'', datetime3 2011 9 29),
      (''8.0.1'', datetime3 2011 11 21), (''9.0.1'', datetime3 2011 12 21),
      (''10.0'', datetime3 2012 1 31), (''11.0'', datetime3 2012 3 13),
      (''14.0.1'', datetime3 2012 7 17), (''10.0.1'', datetime3 2012 2 10),
      (''10.0.2'', datetime3 2012 2 16), (''10.0.3'', datetime3 2012 3 13),
      (''10.0.4'', datetime3 2012 4 24), (''10.0.5'', datetime3 2012 6 5),
      (''10.0.6'', datetime3 2012 7 17), (''10.0.7'', datetime3 2012 8 28),
      (''10.0.8'', datetime3 2012 10 9), (''10.0.9'', datetime3 2012 10 12),
      (''10.0.10'', datetime3 2012 10 26), (''10.0.11'', datetime3 2012 11 20),
      (''12.0'', datetime3 2012 4 24), (''13.0'', datetime3 2012 6 5),
      (''13.0.1'', datetime3 2012 6 15), (''15.0'', datetime3 2012 8 28),
      (''15.0.1'', datetime3 2012 9 6), (''16.0'', datetime3 2012 10 9),
      (''16.0.1'', datetime3 2012 10 11), (''16.0.2'', datetime3 2012 10 26),
      (''17.0'', datetime3 2012 11 20), (''17.0.1'', datetime3 2012 11 30),
      (''17.0.2'', datetime3 2013 1 8), (''17.0.3'', datetime3 2013 2 19),
      (''17.0.4'', datetime3 2013 3 7), (''17.0.5'', datetime3 2013 4 2),
      (''17.0.6'', datetime3 2013 5 14), (''17.0.7'', datetime3 2013 6 25),
      (''17.0.8'', datetime3 2013 8 6), (''17.0.9'', datetime3 2013 9 17),
      (''17.0.10'', datetime3 2013 10 29), (''17.0.11'', datetime3 2013 11 15),
      (''18.0'', datetime3 2013 1 6), (''18.0.1'', datetime3 2013 1 18),
      (''18.0.2'', datetime3 2013 2 5), (''19.0'', datetime3 2013 2 19),
      (''19.0.1'', datetime3 2013 2 27), (''19.0.2'', datetime3 2013 3 7),
      (''20.0'', datetime3 2013 4 2), (''20.0.1'', datetime3 2013 4 11),
      (''21.0'', datetime3 2013 5 14), (''22.0'', datetime3 2013 6 25),
      (''23.0'', datetime3 2013 8 6), (''23.0.1'', datetime3 2013 8 17),
      (''24.0'', datetime3 2013 9 17), (''24.1.0'', datetime3 2013 10 29),
      (''24.1.1'', datetime3 2013 11 15), (''24.2.0'', datetime3 2013 12 10),
      (''24.3.0'', datetime3 2013 12 10), (''24.4.0'', datetime3 2013 12 10),
      (''24.5.0'', datetime3 2013 12 10), (''24.6.0'', datetime3 2013 12 10),
      (''24.7.0'', datetime3 2013 12 10), (''24.8.0'', datetime3 2013 12 10),
      (''24.8.1'', datetime3 2013 12 10), (''25.0'', datetime3 2013 10 29),
      (''25.0.1'', datetime3 2013 11 15), (''26.0'', datetime3 2013 12 10),
      (''27.0'', datetime3 2014 2 4), (''27.0.1'', datetime3 2014 2 14),
      (''28.0'', datetime3 2014 3 18), (''29.0'', datetime3 2014 4 29),
      (''29.0.1'', datetime3 2014 5 9), (''30.0'', datetime3 2014 6 10),
      (''31.0'', datetime3 2014 7 22), (''31.1.0'', datetime3 2014 9 2),
      (''31.1.1'', datetime3 2014 9 2), (''31.2.0'', datetime3 2014 10 14),
      (''31.3.0'', datetime3 2014 12 1), (''31.4.0'', datetime3 2015 1 13),
      (''31.5.0'', datetime3 2015 2 24), (''31.5.3'', datetime3 2015 3 21),
      (''31.6.0'', datetime3 2015 3 31), (''31.7.0'', datetime3 2015 5 12),
      (''31.8.0'', datetime3 2015 7 2), (''32.0'', datetime3 2014 9 2),
      (''32.0.1'', datetime3 2014 9 12), (''32.0.2'', datetime3 2014 9 18),
      (''32.0.3'', datetime3 2014 9 24), (''33.0'', datetime3 2014 10 14),
      (''33.0.1'', datetime3 2014 10 24), (''33.0.2'', datetime3 2014 10 28),
      (''33.0.3'', datetime3 2014 11 7), (''33.1'', datetime3 2014 11 10),
      (''33.1.1'', datetime3 2014 11 14), (''34.0'', datetime3 2014 12 1),
      (''34.0.5'', datetime3 2014 12 1), (''35.0'', datetime3 2015 1 13),
      (''35.0.1'', datetime3 2015 1 27), (''36.0'', datetime3 2015 2 24),
      (''36.0.1'', datetime3 2015 3 6), (''36.0.2'', datetime3 2015 3 16),
      (''36.0.3'', datetime3 2015 3 20), (''36.0.4'', datetime3 2015 3 21),
      (''37.0'', datetime3 2015 3 31), (''37.0.1'', datetime3 2015 4 3),
      (''37.0.2'', datetime3 2015 4 20), (''38.0'', datetime3 2015 5 12),
      (''38.0.1'', datetime3 2015 5 14), (''38.1.0'', datetime3 2015 7 2),
      (''38.1.1'', datetime3 2015 8 6), (''38.2.0'', datetime3 2015 8 11),
      (''38.2.1'', datetime3 2015 8 27), (''38.3.0'', datetime3 2015 9 22),
      (''38.4.0'', datetime3 2015 11 3), (''38.5.0'', datetime3 2015 12 15),
      (''38.5.1'', datetime3 2015 12 21), (''38.5.2'', datetime3 2015 12 22),
      (''38.6.0'', datetime3 2016 1 26), (''38.6.1'', datetime3 2016 2 11),
      (''38.7.0'', datetime3 2016 3 8), (''38.7.1'', datetime3 2016 3 16),
      (''38.8.0'', datetime3 2016 4 26), (''38.0.5'', datetime3 2015 6 2),
      (''39.0'', datetime3 2015 7 2), (''39.0.3'', datetime3 2015 8 6),
      (''40.0'', datetime3 2015 8 11), (''40.0.2'', datetime3 2015 8 13),
      (''40.0.3'', datetime3 2015 8 27), (''41.0'', datetime3 2015 9 22),
      (''41.0.1'', datetime3 2015 9 30), (''41.0.2'', datetime3 2015 10 15),
      (''42.0'', datetime3 2015 11 3), (''43.0'', datetime3 2015 12 15),
      (''43.0.1'', datetime3 2015 12 18), (''43.0.2'', datetime3 2015 12 22),
      (''43.0.3'', datetime3 2015 12 28), (''43.0.4'', datetime3 2016 1 6),
      (''44.0'', datetime3 2016 1 26), (''44.0.1'', datetime3 2016 2 8),
      (''44.0.2'', datetime3 2016 2 11), (''45.0'', datetime3 2016 3 8),
      (''45.0.1'', datetime3 2016 3 16), (''45.0.2'', datetime3 2016 4 12),
      (''45.1.0'', datetime3 2016 4 26), (''45.1.1'', datetime3 2016 5 3),
      (''45.2.0'', datetime3 2016 6 7), (''45.3.0'', datetime3 2016 8 2),
      (''45.4.0'', datetime3 2016 9 20), (''45.5.0'', datetime3 2016 11 15),
      (''45.5.1'', datetime3 2016 11 30), (''45.6.0'', datetime3 2016 12 13),
      (''45.7.0'', datetime3 2017 1 24), (''45.8.0'', datetime3 2017 3 7),
      (''45.9.0'', datetime3 2017 4 19), (''46.0'', datetime3 2016 4 26),
      (''46.0.1'', datetime3 2016 5 3), (''47.0'', datetime3 2016 6 7),
      (''47.0.1'', datetime3 2016 6 28), (''48.0'', datetime3 2016 8 2),
      (''48.0.1'', datetime3 2016 8 18), (''48.0.2'', datetime3 2016 8 24),
      (''49.0'', datetime3 2016 8 2), (''49.0.1'', datetime3 2016 9 23),
      (''50.0'', datetime3 2016 11 15), (''50.0.1'', datetime3 2016 11 28),
      (''50.0.2'', datetime3 2016 11 30), (''51.0'', datetime3 2017 1 24),
      (''51.0.1'', datetime3 2017 1 26), (''52.0'', datetime3 2017 3 7),
      (''52.1.0'', datetime3 2017 4 19), (''52.1.1'', datetime3 2017 5 19),
      (''52.1.2'', datetime3 2017 5 19), (''52.2.0'', datetime3 2017 6 13),
      (''52.2.1'', datetime3 2017 6 29), (''52.3.0'', datetime3 2017 8 8),
      (''52.4.0'', datetime3 2017 9 28), (''52.4.1'', datetime3 2017 10 9),
      (''52.5.0'', datetime3 2017 12 7), (''52.5.3'', datetime3 2017 12 28),
      (''52.6.0'', datetime3 2018 1 23), (''52.7.0'', datetime3 2018 3 13),
      (''52.7.1'', datetime3 2018 3 14), (''52.7.2'', datetime3 2018 3 16),
      (''52.7.3'', datetime3 2018 3 26), (''52.7.4'', datetime3 2018 4 30),
      (''52.8.0'', datetime3 2018 5 9), (''52.8.1'', datetime3 2018 6 6),
      (''52.9.0'', datetime3 2018 6 26), (''53.0'', datetime3 2017 4 19),
      (''53.0.2'', datetime3 2017 5 5), (''53.0.3'', datetime3 2017 5 19),
      (''54.0'', datetime3 2017 6 13), (''54.0.1'', datetime3 2017 6 29),
      (''55.0'', datetime3 2017 8 8), (''55.0.1'', datetime3 2017 8 10),
      (''55.0.2'', datetime3 2017 8 16), (''55.0.3'', datetime3 2017 8 25),
      (''56.0'', datetime3 2017 9 28), (''56.0.1'', datetime3 2017 10 9),
      (''56.0.2'', datetime3 2017 10 26), (''57.0'', datetime3 2017 11 14),
      (''57.0.1'', datetime3 2017 11 29), (''57.0.2'', datetime3 2017 12 7),
      (''57.0.3'', datetime3 2017 12 28), (''57.0.4'', datetime3 2018 1 4),
      (''58.0'', datetime3 2018 1 23), (''58.0.1'', datetime3 2018 1 29),
      (''58.0.2'', datetime3 2018 2 7), (''59.0'', datetime3 2018 3 13),
      (''59.0.1'', datetime3 2018 3 16), (''59.0.2'', datetime3 2018 3 26),
      (''59.0.3'', datetime3 2018 4 30), (''60.0'', datetime3 2018 5 9),
      (''60.0.1'', datetime3 2018 5 16), (''60.0.2'', datetime3 2018 6 6),
      (''60.1.0'', datetime3 2018 6 26), (''60.2.0'', datetime3 2018 9 5),
      (''60.2.1'', datetime3 2018 9 21), (''60.2.2'', datetime3 2018 10 2),
      (''60.3.0'', datetime3 2018 10 23), (''60.4.0'', datetime3 2018 12 11),
      (''60.5.0'', datetime3 2019 1 29), (''60.5.1'', datetime3 2019 2 12),
      (''60.5.2'', datetime3 2019 2 22), (''60.6.0'', datetime3 2019 3 19),
      (''60.6.1'', datetime3 2019 3 22), (''60.6.2'', datetime3 2019 5 5),
      (''60.6.3'', datetime3 2019 5 8), (''60.7.0'', datetime3 2019 5 21),
      (''60.7.1'', datetime3 2019 6 18), (''60.7.2'', datetime3 2019 6 20),
      (''60.8.0'', datetime3 2019 7 9), (''60.9.0'', datetime3 2019 9 3),
      (''61.0'', datetime3 2018 6 26), (''61.0.1'', datetime3 2018 7 5),
      (''61.0.2'', datetime3 2018 8 8), (''62.0'', datetime3 2018 9 5),
      (''62.0.1'', datetime3 2018 9 7), (''62.0.2'', datetime3 2018 9 21),
      (''62.0.3'', datetime3 2018 10 2), (''63.0'', datetime3 2018 10 23),
      (''63.0.1'', datetime3 2018 10 31), (''63.0.2'', datetime3 2018 11 7),
      (''63.0.3'', datetime3 2018 11 15), (''64.0'', datetime3 2018 12 11),
      (''64.0.1'', datetime3 2018 12 14), (''64.0.2'', datetime3 2019 1 9),
      (''65.0'', datetime3 2019 1 29), (''65.0.1'', datetime3 2019 2 12),
      (''65.0.2'', datetime3 2019 2 28), (''66.0'', datetime3 2019 3 19),
      (''66.0.1'', datetime3 2019 3 22), (''66.0.2'', datetime3 2019 3 27),
      (''66.0.3'', datetime3 2019 4 10), (''66.0.4'', datetime3 2019 5 5),
      (''66.0.5'', datetime3 2019 5 7), (''67.0'', datetime3 2019 5 21),
      (''67.0.1'', datetime3 2019 6 4), (''67.0.2'', datetime3 2019 6 11),
      (''67.0.3'', datetime3 2019 6 18), (''67.0.4'', datetime3 2019 6 20),
      (''68.0'', datetime3 2019 7 13), (''68.0.1'', datetime3 2019 7 18),
      (''68.0.2'', datetime3 2019 8 14), (''68.1.0'', datetime3 2019 9 3),
      (''68.2.0'', datetime3 2019 10 22), (''68.3.0'', datetime3 2019 12 3),
      (''68.4.0'', datetime3 2020 1 7), (''68.4.1'', datetime3 2020 1 8),
      (''68.4.2'', datetime3 2020 1 20), (''68.5.0'', datetime3 2020 2 11),
      (''68.6.0'', datetime3 2020 3 10), (''68.6.1'', datetime3 2020 4 3),
      (''68.7.0'', datetime3 2020 4 7), (''68.8.0'', datetime3 2020 5 5),
      (''68.9.0'', datetime3 2020 6 2), (''68.10.0'', datetime3 2020 6 30),
      (''68.11.0'', datetime3 2020 7 28), (''68.12.0'', datetime3 2020 8 25),
      (''69.0'', datetime3 2019 9 3), (''69.0.1'', datetime3 2019 9 18),
      (''69.0.2'', datetime3 2019 10 3), (''69.0.3'', datetime3 2019 10 10),
      (''70.0'', datetime3 2019 10 22), (''70.0.1'', datetime3 2019 10 31),
      (''71.0'', datetime3 2019 12 3), (''72.0'', datetime3 2020 1 7),
      (''72.0.1'', datetime3 2020 1 8), (''72.0.2'', datetime3 2020 1 20),
      (''73.0'', datetime3 2020 2 11), (''73.0.1'', datetime3 2020 2 18),
      (''74.0'', datetime3 2020 3 10), (''74.0.1'', datetime3 2020 4 3),
      (''75.0'', datetime3 2020 4 7), (''76.0'', datetime3 2020 5 5),
      (''76.0.1'', datetime3 2020 5 8), (''77.0'', datetime3 2020 6 2),
      (''77.0.1'', datetime3 2020 6 3), (''78.0'', datetime3 2020 6 30),
      (''78.0.1'', datetime3 2020 7 1), (''78.0.2'', datetime3 2020 7 9),
      (''78.1.0'', datetime3 2020 7 28), (''78.2.0'', datetime3 2020 8 25),
      (''78.3.0'', datetime3 2020 9 22), (''78.3.1'', datetime3 2020 10 1),
      (''78.4.0'', datetime3 2020 10 20), (''78.4.1'', datetime3 2020 11 10),
      (''78.5.0'', datetime3 2020 11 17), (''78.6.0'', datetime3 2020 12 15),
      (''78.6.1'', datetime3 2021 1 6), (''79.0'', datetime3 2020 7 28),
      (''80.0'', datetime3 2020 8 25), (''80.0.1'', datetime3 2020 9 1),
      (''81.0'', datetime3 2020 9 22), (''81.0.1'', datetime3 2020 10 1),
      (''81.0.2'', datetime3 2020 10 13), (''82.0'', datetime3 2020 10 20),
      (''82.0.1'', datetime3 2020 10 27), (''82.0.2'', datetime3 2020 10 28),
      (''82.0.3'', datetime3 2020 11 10), (''83.0'', datetime3 2020 11 17),
      (''84.0'', datetime3 2020 12 15), (''84.0.1'', datetime3 2020 12 22),
      (''84.0.2'', datetime3 2021 1 6)]"

definition CHROME_BUILD :: "(int \<times> int \<times> int) list" where
  "CHROME_BUILD =
     [(49, 2623, 2623), (50, 2661, 2661), (51, 2704, 2704), (52, 2743, 2743), (53, 2785, 2785),
      (54, 2840, 2840), (55, 2883, 2883), (56, 2924, 2924), (57, 2987, 2987), (58, 3029, 3029),
      (59, 3071, 3071), (60, 3112, 3112), (61, 3163, 3163), (62, 3202, 3202), (63, 3239, 3239),
      (64, 3251, 3282), (65, 3325, 3325), (66, 3359, 3359), (67, 3396, 3396), (68, 3440, 3440),
      (69, 3497, 3497), (70, 3538, 3538), (71, 3578, 3578), (72, 3626, 3626), (73, 3683, 3683),
      (74, 3729, 3729), (75, 3770, 3770), (76, 3809, 3809), (77, 3865, 3865), (78, 3904, 3904),
      (79, 3945, 3945), (80, 3987, 3987), (81, 4044, 4044), (83, 4103, 4103), (84, 4147, 4147),
      (85, 4183, 4183), (86, 4240, 4240), (87, 4280, 4280)]"

definition IE_VERSION :: "(int \<times> string \<times> string) list" where
  "IE_VERSION =
     [(8, ''MSIE 8.0'', ''4.0''), (9, ''MSIE 9.0'', ''5.0''), (10, ''MSIE 10.0'', ''6.0''),
      (11, ''MSIE 11.0'', ''7.0'')]"

section \<open>The build selectors\<close>

text \<open>
  \<^verbatim>\<open>total_seconds()\<close> is a float in Python; the dates of the table are whole days, so
  it is a whole number of seconds here, which \<^verbatim>\<open>randint\<close> takes as the integer it
  is. The \<^verbatim>\<open>try\<close> block catches the IndexError of reading past the last entry and
  nothing else.
\<close>

definition firefox_date_to :: "string \<Rightarrow> datetime \<Rightarrow> error + datetime" where
  "firefox_date_to build_ver date_from =
     bind_err (tuple_index FIREFOX_VERSION (build_ver, date_from)) (\<lambda>idx.
       case list_get FIREFOX_VERSION (int idx + 1) of
         Inr (_, date_to) \<Rightarrow> Inr date_to
       | Inl IndexError \<Rightarrow> add_seconds date_from 86400
       | Inl e \<Rightarrow> Inl e)"

definition get_firefox_build :: "(string \<times> string) gen" where
  "get_firefox_build =
     bind_gen (choice FIREFOX_VERSION) (\<lambda>(build_ver, date_from).
     bind_gen (lift (firefox_date_to build_ver date_from)) (\<lambda>date_to.
     let sec_range = total_seconds_between date_to date_from - 1 in
     bind_gen (randint 0 (max sec_range 100000)) (\<lambda>offset.
     bind_gen (lift (add_seconds date_from offset)) (\<lambda>build_rnd_time.
     ret (build_ver, strftime_YmdHMS build_rnd_time)))))"

definition get_chrome_build :: "string gen" where
  "get_chrome_build =
     bind_gen (choice CHROME_BUILD) (\<lambda>(major, build_min, build_max).
     bind_gen (randint build_min build_max) (\<lambda>build_no.
     bind_gen (randint 0 120) (\<lambda>patch.
     ret (str_int major @ ''.0.'' @ str_int build_no @ ''.'' @ str_int patch))))"

definition get_ie_build :: "(int \<times> string \<times> string) gen" where
  "get_ie_build = choice IE_VERSION"

definition MACOSX_CHROME_BUILD_RANGE :: "(string \<times> int \<times> int) list" where
  "MACOSX_CHROME_BUILD_RANGE =
     [(''10.8'', (0, 8)), (''10.9'', (0, 5)), (''10.10'', (0, 5)), (''10.11'', (0, 6)),
      (''10.12'', (0, 6)), (''10.13'', (0, 6)), (''10.14'', (0, 6)), (''10.15'', (0, 7)),
      (''11.0'', (0, 2))]"

section \<open>The component assembler\<close>

text \<open>
  The dictionaries the module builds hold strings and \<^verbatim>\<open>None\<close>. They are association
  lists, read with \<^const>\<open>dict_get\<close>, so that a missing key is the KeyError it is in
  Python.
\<close>

datatype pyval = Str string | NoneVal

type_synonym pydict = "(string \<times> pyval) list"

text \<open>How \<^verbatim>\<open>%s\<close> and \<^verbatim>\<open>str.format\<close> print a value.\<close>

fun show_val :: "pyval \<Rightarrow> string" where
  "show_val (Str s) = s"
| "show_val NoneVal = ''None''"

text \<open>
  The module \<^verbatim>\<open>device\<close> of the package, which holds the two catalogs of device model
  identifiers. Its contents are a parameter of everything below.
\<close>

record device =
  SMARTPHONE_DEV_IDS :: "string list"
  TABLET_DEV_IDS :: "string list"

text \<open>\<^verbatim>\<open>choice(TABLE[key])\<close>.\<close>

definition choice_of :: "(string \<times> 'a list) list \<Rightarrow> string \<Rightarrow> 'a gen" where
  "choice_of table k = bind_gen (lift (dict_get table k)) choice"

text \<open>\<^verbatim>\<open>range(lo, hi)\<close>.\<close>

definition py_range :: "int \<Rightarrow> int \<Rightarrow> int list" where
  "py_range lo hi = [lo..hi - 1]"

definition fix_chrome_mac_platform :: "string \<Rightarrow> string gen" where
  "fix_chrome_mac_platform platform =
     bind_gen (lift (bind_err (py_split platform ''OS X '' (- 1))
                       (\<lambda>parts. list_get parts 1))) (\<lambda>ver.
     bind_gen (lift (dict_get MACOSX_CHROME_BUILD_RANGE ver)) (\<lambda>(lo, hi).
     bind_gen (choice (py_range lo hi)) (\<lambda>build.
     let mac_ver = py_replace ver ''.'' ''_'' @ ''_'' @ str_int build
     in ret (''Macintosh; Intel Mac OS X '' @ mac_ver))))"

definition build_system_components :: "device \<Rightarrow> string \<Rightarrow> string \<Rightarrow> string \<Rightarrow> pydict gen" where
  "build_system_components dev device_type os_id navigator_id =
     (if os_id = ''win'' then
        bind_gen (choice_of OS_PLATFORM ''win'') (\<lambda>platform_version.
        bind_gen (choice_of OS_CPU ''win'') (\<lambda>cpu.
        let platform = (if cpu \<noteq> [] then platform_version @ ''; '' @ cpu
                        else platform_version)
        in ret [(''platform_version'', Str platform_version),
                (''platform'', Str platform),
                (''ua_platform'', Str platform),
                (''oscpu'', Str platform)]))
      else if os_id = ''linux'' then
        bind_gen (choice_of OS_CPU ''linux'') (\<lambda>cpu.
        bind_gen (choice_of OS_PLATFORM ''linux'') (\<lambda>platform_version.
        let platform = platform_version @ '' '' @ cpu
        in ret [(''platform_version'', Str platform_version),
                (''platform'', Str platform),
                (''ua_platform'', Str platform),
                (''oscpu'', Str (''Linux '' @ cpu))]))
      else if os_id = ''mac'' then
        bind_gen (choice_of OS_CPU ''mac'') (\<lambda>cpu.
        bind_gen (choice_of OS_PLATFORM ''mac'') (\<lambda>platform_version.
        bind_gen (if navigator_id = ''chrome''
                  then fix_chrome_mac_platform platform_version
                  else ret platform_version) (\<lambda>platform.
        bind_gen (lift (bind_err (py_split platform '' '' (- 1))
                          (\<lambda>parts. list_get parts (- 1)))) (\<lambda>last_word.
        ret [(''platform_version'', Str platform_version),
             (''platform'', Str ''MacIntel''),
             (''ua_platform'', Str platform),
             (''oscpu'', Str (''Intel Mac OS X '' @ last_word))]))))
      else if os_id = ''android'' then
        bind_gen (assert_that (navigator_id \<in> set [''firefox'', ''chrome''])
                    ''navigator_id in (firefox, chrome)'') (\<lambda>_.
        bind_gen (assert_that (device_type \<in> set [''smartphone'', ''tablet''])
                    ''device_type in (smartphone, tablet)'') (\<lambda>_.
        bind_gen (choice_of OS_PLATFORM ''android'') (\<lambda>platform_version.
        bind_gen (if navigator_id = ''firefox'' then
                    (if device_type = ''smartphone''
                     then ret (Some (platform_version @ ''; Mobile''))
                     else if device_type = ''tablet''
                     then ret (Some (platform_version @ ''; Tablet''))
                     else ret None)
                  else if navigator_id = ''chrome'' then
                    bind_gen (choice (SMARTPHONE_DEV_IDS dev)) (\<lambda>device_id.
                    ret (Some (''Linux; '' @ platform_version @ ''; '' @ device_id)))
                  else ret None) (\<lambda>ua_platform_bound.
        bind_gen (choice_of OS_CPU ''android'') (\<lambda>cpu.
        let oscpu = ''Linux '' @ cpu in
        (case ua_platform_bound of
           None \<Rightarrow> raise (UnboundLocalError ''ua_platform'')
         | Some ua_platform \<Rightarrow>
             ret [(''platform_version'', Str platform_version),
                  (''ua_platform'', Str ua_platform),
                  (''platform'', Str oscpu),
                  (''oscpu'', Str oscpu)]))))))
      else raise (UnboundLocalError ''res''))"

definition build_app_components :: "string \<Rightarrow> string \<Rightarrow> pydict gen" where
  "build_app_components os_id navigator_id =
     (if navigator_id = ''firefox'' then
        bind_gen get_firefox_build (\<lambda>(build_version, build_id).
        let geckotrail = (if os_id \<in> set [''win'', ''linux'', ''mac''] then ''20100101''
                          else build_version)
        in ret [(''name'', Str ''Netscape''),
                (''product_sub'', Str ''20100101''),
                (''vendor'', Str ''''),
                (''build_version'', Str build_version),
                (''build_id'', Str build_id),
                (''geckotrail'', Str geckotrail)])
      else if navigator_id = ''chrome'' then
        bind_gen get_chrome_build (\<lambda>build_version.
        ret [(''name'', Str ''Netscape''),
             (''product_sub'', Str ''20030107''),
             (''vendor'', Str ''Google Inc.''),
             (''build_version'', Str build_version),
             (''build_id'', NoneVal)])
      else if navigator_id = ''ie'' then
        bind_gen get_ie_build (\<lambda>(num_ver, build_version, trident_version).
        let app_name = (if num_ver \<ge> 11 then ''Netscape''
                        else ''Microsoft Internet Explorer'')
        in ret [(''name'', Str app_name),
                (''product_sub'', NoneVal),
                (''vendor'', Str ''''),
                (''build_version'', Str build_version),
                (''build_id'', NoneVal),
                (''trident_version'', Str trident_version)])
      else raise (UnboundLocalError ''res''))"

section \<open>The template renderer\<close>

text \<open>
  A template is the sequence of its literal texts and its replacement fields
  \<^verbatim>\<open>{system[key]}\<close> and \<^verbatim>\<open>{app[key]}\<close>.
\<close>

datatype piece = Lit string | SystemItem string | AppItem string

definition USER_AGENT_TEMPLATE :: "(string \<times> piece list) list" where
  "USER_AGENT_TEMPLATE =
     [(''firefox'',
        [Lit ''Mozilla/5.0 ('', SystemItem ''ua_platform'', Lit ''; rv:'',
         AppItem ''build_version'', Lit '') Gecko/'', AppItem ''geckotrail'',
         Lit '' Firefox/'', AppItem ''build_version'']),
      (''chrome'',
        [Lit ''Mozilla/5.0 ('', SystemItem ''ua_platform'',
         Lit '') AppleWebKit/537.36 (KHTML, like Gecko) Chrome/'',
         AppItem ''build_version'', Lit '' Safari/537.36'']),
      (''chrome_smartphone'',
        [Lit ''Mozilla/5.0 ('', SystemItem ''ua_platform'',
         Lit '') AppleWebKit/537.36 (KHTML, like Gecko) Chrome/'',
         AppItem ''build_version'', Lit '' Mobile Safari/537.36'']),
      (''chrome_tablet'',
        [Lit ''Mozilla/5.0 ('', SystemItem ''ua_platform'',
         Lit '') AppleWebKit/537.36 (KHTML, like Gecko) Chrome/'',
         AppItem ''build_version'', Lit '' Safari/537.36'']),
      (''ie_less_11'',
        [Lit ''Mozilla/5.0 (compatible; '', AppItem ''build_version'', Lit ''; '',
         SystemItem ''ua_platform'', Lit ''; Trident/'', AppItem ''trident_version'',
         Lit '')'']),
      (''ie_11'',
        [Lit ''Mozilla/5.0 ('', SystemItem ''ua_platform'', Lit ''; Trident/'',
         AppItem ''trident_version'', Lit ''; rv:11.0) like Gecko''])]"

text \<open>\<^verbatim>\<open>template.format(system=system, app=app)\<close>, the fields looked up from the left.\<close>

fun format_template :: "piece list \<Rightarrow> pydict \<Rightarrow> pydict \<Rightarrow> error + string" where
  "format_template [] system app = Inr []"
| "format_template (Lit s # ps) system app =
     bind_err (format_template ps system app) (\<lambda>rest. Inr (s @ rest))"
| "format_template (SystemItem k # ps) system app =
     bind_err (dict_get system k) (\<lambda>v.
     bind_err (format_template ps system app) (\<lambda>rest. Inr (show_val v @ rest)))"
| "format_template (AppItem k # ps) system app =
     bind_err (dict_get app k) (\<lambda>v.
     bind_err (format_template ps system app) (\<lambda>rest. Inr (show_val v @ rest)))"

definition choose_ua_template :: "string \<Rightarrow> string \<Rightarrow> pydict \<Rightarrow> error + piece list" where
  "choose_ua_template device_type navigator_id app =
     bind_err (if navigator_id = ''ie''
               then bind_err (dict_get app ''build_version'') (\<lambda>build_version.
                      Inr (if build_version = Str ''MSIE 11.0'' then ''ie_11''
                           else ''ie_less_11''))
               else Inr navigator_id) (\<lambda>tpl_name.
     let tpl_name =
           (if navigator_id = ''chrome''
            then (let tpl_name = (if device_type = ''smartphone'' then ''chrome_smartphone''
                                  else tpl_name)
                  in if device_type = ''tablet'' then ''chrome_tablet'' else tpl_name)
            else tpl_name)
     in dict_get USER_AGENT_TEMPLATE tpl_name)"

definition build_navigator_app_version ::
  "string \<Rightarrow> string \<Rightarrow> pyval \<Rightarrow> string \<Rightarrow> error + string" where
  "build_navigator_app_version os_id navigator_id platform_version user_agent =
     (if navigator_id \<in> set [''chrome'', ''ie''] then
        if \<not> prefix ''Mozilla/'' user_agent
        then Inl (AssertionError ''user_agent.startswith(Mozilla/)'')
        else bind_err (py_split user_agent ''Mozilla/'' 1) (\<lambda>parts. list_get parts 1)
      else if navigator_id = ''firefox'' then
        if os_id = ''android'' then Inr (''5.0 ('' @ show_val platform_version @ '')'')
        else bind_err (dict_get [(''win'', ''Windows''), (''mac'', ''Macintosh''),
                                 (''linux'', ''X11'')] os_id) (\<lambda>os_token.
               Inr (''5.0 ('' @ os_token @ '')''))
      else Inl (UnboundLocalError ''app_version''))"

section \<open>The public functions\<close>

text \<open>
  The deprecated \<^verbatim>\<open>platform\<close> argument replaces \<^verbatim>\<open>os\<close> when it is given; the
  deprecation notice it triggers does not touch the data.
\<close>

definition generate_navigator ::
  "device \<Rightarrow> opt_value \<Rightarrow> opt_value \<Rightarrow> opt_value \<Rightarrow> opt_value \<Rightarrow> pydict gen" where
  "generate_navigator dev os navigator platform device_type =
     (let os = (if platform \<noteq> PyNone then platform else os) in
      bind_gen (pick_config_ids device_type os navigator)
        (\<lambda>(device_type, os_id, navigator_id).
      bind_gen (build_system_components dev device_type os_id navigator_id) (\<lambda>system.
      bind_gen (build_app_components os_id navigator_id) (\<lambda>app.
      bind_gen (lift (choose_ua_template device_type navigator_id app)) (\<lambda>ua_template.
      bind_gen (lift (format_template ua_template system app)) (\<lambda>user_agent.
      bind_gen (lift (dict_get system ''platform_version'')) (\<lambda>platform_version.
      bind_gen (lift (build_navigator_app_version os_id navigator_id platform_version
                        user_agent)) (\<lambda>app_version.
      bind_gen (lift (dict_get system ''platform'')) (\<lambda>system_platform.
      bind_gen (lift (dict_get system ''oscpu'')) (\<lambda>system_oscpu.
      bind_gen (lift (dict_get app ''build_version'')) (\<lambda>app_build_version.
      bind_gen (lift (dict_get app ''build_id'')) (\<lambda>app_build_id.
      bind_gen (lift (dict_get app ''name'')) (\<lambda>app_name.
      bind_gen (lift (dict_get app ''product_sub'')) (\<lambda>app_product_sub.
      bind_gen (lift (dict_get app ''vendor'')) (\<lambda>app_vendor.
      ret [(''os_id'', Str os_id),
           (''navigator_id'', Str navigator_id),
           (''platform'', system_platform),
           (''oscpu'', system_oscpu),
           (''build_version'', app_build_version),
           (''build_id'', app_build_id),
           (''app_version'', Str app_version),
           (''app_name'', app_name),
           (''app_code_name'', Str ''Mozilla''),
           (''product'', Str ''Gecko''),
           (''product_sub'', app_product_sub),
           (''vendor'', app_vendor),
           (''vendor_sub'', Str ''''),
           (''user_agent'', Str user_agent)])))))))))))))))"

definition generate_user_agent ::
  "device \<Rightarrow> opt_value \<Rightarrow> opt_value \<Rightarrow> opt_value \<Rightarrow> opt_value \<Rightarrow> pyval gen" where
  "generate_user_agent dev os navigator platform device_type =
     bind_gen (generate_navigator dev os navigator platform device_type) (\<lambda>config.
     lift (dict_get config ''user_agent''))"

definition generate_navigator_js ::
  "device \<Rightarrow> opt_value \<Rightarrow> opt_value \<Rightarrow> opt_value \<Rightarrow> opt_value \<Rightarrow> pydict gen" where
  "generate_navigator_js dev os navigator platform device_type =
     bind_gen (generate_navigator dev os navigator platform device_type) (\<lambda>config.
     bind_gen (lift (dict_get config ''app_code_name'')) (\<lambda>app_code_name.
     bind_gen (lift (dict_get config ''app_name'')) (\<lambda>app_name.
     bind_gen (lift (dict_get config ''app_version'')) (\<lambda>app_version.
     bind_gen (lift (dict_get config ''platform'')) (\<lambda>config_platform.
     bind_gen (lift (dict_get config ''user_agent'')) (\<lambda>user_agent.
     bind_gen (lift (dict_get config ''oscpu'')) (\<lambda>oscpu.
     bind_gen (lift (dict_get config ''product'')) (\<lambda>product.
     bind_gen (lift (dict_get config ''product_sub'')) (\<lambda>product_sub.
     bind_gen (lift (dict_get config ''vendor'')) (\<lambda>vendor.
     bind_gen (lift (dict_get config ''vendor_sub'')) (\<lambda>vendor_sub.
     bind_gen (lift (dict_get config ''build_id'')) (\<lambda>build_id.
     ret [(''appCodeName'', app_code_name),
          (''appName'', app_name),
          (''appVersion'', app_version),
          (''platform'', config_platform),
          (''userAgent'', user_agent),
          (''oscpu'', oscpu),
          (''product'', product),
          (''productSub'', product_sub),
          (''vendor'', vendor),
          (''vendorSub'', vendor_sub),
          (''buildID'', build_id)]))))))))))))"

section \<open>What the filters mean\<close>

text \<open>
  The vocabulary of the statements below. A filter argument names values; it is valid
  when each of them is a member of its axis or the sentinel \<^verbatim>\<open>all\<close>; it selects the
  whole axis when \<^verbatim>\<open>all\<close> is among them, the default when it is \<^verbatim>\<open>None\<close>, and
  the named values otherwise. A triple is compatible when it satisfies the three pairwise
  tables.
\<close>

definition values_of :: "opt_value \<Rightarrow> string list" where
  "values_of v = (case v of PyStr s \<Rightarrow> [s] | PyList xs \<Rightarrow> xs | PyNone \<Rightarrow> [] | PyOther _ \<Rightarrow> [])"

definition is_other :: "opt_value \<Rightarrow> bool" where
  "is_other v = (case v of PyOther _ \<Rightarrow> True | _ \<Rightarrow> False)"

definition valid_filter :: "string list \<Rightarrow> opt_value \<Rightarrow> bool" where
  "valid_filter all_choices v =
     (\<not> is_other v \<and> list_all (\<lambda>x. x \<in> set all_choices \<or> x = ''all'') (values_of v))"

definition selected :: "string list \<Rightarrow> string list \<Rightarrow> opt_value \<Rightarrow> string list" where
  "selected default_value all_choices v =
     (let named = (if v = PyNone then default_value else values_of v)
      in if ''all'' \<in> set named then all_choices else named)"

text \<open>
  The message with which a filter argument is rejected, if it is: an argument of a wrong
  type, or one that does not name \<^verbatim>\<open>all\<close> and names a value outside its axis, the
  first such value being reported.
\<close>

definition rejection :: "string \<Rightarrow> string list \<Rightarrow> opt_value \<Rightarrow> string option" where
  "rejection opt_name all_choices v =
     (case v of
        PyOther shown \<Rightarrow> Some (''Option '' @ opt_name @ '' has invalid value: '' @ shown)
      | _ \<Rightarrow>
          if ''all'' \<in> set (values_of v) then None
          else (case find (\<lambda>x. x \<notin> set all_choices) (values_of v) of
                  None \<Rightarrow> None
                | Some item \<Rightarrow>
                    Some (''Choices of option '' @ opt_name @ '' contains invalid item: ''
                          @ item)))"

definition in_table :: "(string \<times> string list) list \<Rightarrow> string \<Rightarrow> string \<Rightarrow> bool" where
  "in_table table k v = (case map_of table k of None \<Rightarrow> False | Some vs \<Rightarrow> v \<in> set vs)"

definition compatible :: "string \<times> string \<times> string \<Rightarrow> bool" where
  "compatible t =
     (case t of (dev, os, nav) \<Rightarrow>
        in_table DEVICE_TYPE_OS dev os \<and> in_table DEVICE_TYPE_NAVIGATOR dev nav
        \<and> in_table OS_NAVIGATOR os nav)"

text \<open>The \<^verbatim>\<open>os\<close> filter in force: \<^verbatim>\<open>platform\<close> when it is given.\<close>

definition os_in_force :: "opt_value \<Rightarrow> opt_value \<Rightarrow> opt_value" where
  "os_in_force os platform = (if platform \<noteq> PyNone then platform else os)"

definition dev_type_choices_of :: "opt_value \<Rightarrow> opt_value \<Rightarrow> string list" where
  "dev_type_choices_of device_type os =
     selected (if os = PyNone then [''desktop''] else keys DEVICE_TYPE_OS)
       (keys DEVICE_TYPE_OS) device_type"

definition os_choices_of :: "opt_value \<Rightarrow> string list" where
  "os_choices_of os = selected (keys OS_NAVIGATOR) (keys OS_NAVIGATOR) os"

definition nav_choices_of :: "opt_value \<Rightarrow> string list" where
  "nav_choices_of navigator = selected (keys NAVIGATOR_OS) (keys NAVIGATOR_OS) navigator"

definition candidates :: "opt_value \<Rightarrow> opt_value \<Rightarrow> opt_value \<Rightarrow> (string \<times> string \<times> string) list" where
  "candidates device_type os navigator =
     List.product (dev_type_choices_of device_type os)
       (List.product (os_choices_of os) (nav_choices_of navigator))"

definition conflict_message :: string where
  "conflict_message = ''Options device_type, os and navigator conflicts with each other''"


definition first_rejection :: "opt_value \<Rightarrow> opt_value \<Rightarrow> opt_value \<Rightarrow> string option" where
  "first_rejection device_type os navigator =
     (case rejection ''device_type'' (keys DEVICE_TYPE_OS) device_type of
        Some msg \<Rightarrow> Some msg
      | None \<Rightarrow>
          (case rejection ''os'' (keys OS_NAVIGATOR) os of
             Some msg \<Rightarrow> Some msg
           | None \<Rightarrow> rejection ''navigator'' (keys NAVIGATOR_OS) navigator))"

text \<open>A small catalog of device models, for the concrete runs below.\<close>

definition example_device :: device where
  "example_device =
     \<lparr>SMARTPHONE_DEV_IDS = [''SM-G900F'', ''Nexus 5''], TABLET_DEV_IDS = [''SM-T530'']\<rparr>"


text \<open>The three filter arguments in force, each with its name and its axis.\<close>

definition filter_arguments ::
  "opt_value \<Rightarrow> opt_value \<Rightarrow> opt_value \<Rightarrow> opt_value
     \<Rightarrow> (string \<times> string list \<times> opt_value) list" where
  "filter_arguments device_type os platform navigator =
     [(''device_type'', keys DEVICE_TYPE_OS, device_type),
      (''os'', keys OS_NAVIGATOR, os_in_force os platform),
      (''navigator'', keys NAVIGATOR_OS, navigator)]"

text \<open>
  A filter argument offends when it is of a wrong type, or when it does not name
  \<^verbatim>\<open>all\<close> and names a value outside its axis.
\<close>

definition offending :: "string list \<Rightarrow> opt_value \<Rightarrow> bool" where
  "offending all_choices v =
     (is_other v
      \<or> (''all'' \<notin> set (values_of v) \<and> list_ex (\<lambda>x. x \<notin> set all_choices) (values_of v)))"

text \<open>
  A message names an offender among the arguments when it is one of the module's two
  messages, for one of the arguments that offends: for its wrong-typed value, or for a value
  that it has outside its axis while it does not name \<^verbatim>\<open>all\<close>.
\<close>

definition names_offender :: "(string \<times> string list \<times> opt_value) list \<Rightarrow> string \<Rightarrow> bool" where
  "names_offender args msg =
     (\<exists>(opt_name, all_choices, v) \<in> set args.
        (\<exists>shown. v = PyOther shown
           \<and> msg = ''Option '' @ opt_name @ '' has invalid value: '' @ shown)
        \<or> (''all'' \<notin> set (values_of v)
            \<and> (\<exists>item \<in> set (values_of v). item \<notin> set all_choices
                  \<and> msg = ''Choices of option '' @ opt_name @ '' contains invalid item: ''
                            @ item)))"


text \<open>The release dates of the table are midnights of the years 2004 to 2021.\<close>

definition release_date :: "datetime \<Rightarrow> bool" where
  "release_date t =
     (2004 \<le> year t \<and> year t \<le> 2021 \<and> 1 \<le> month t \<and> month t \<le> 12
      \<and> 1 \<le> day t \<and> day t \<le> 31 \<and> hour t = 0 \<and> minute t = 0 \<and> second t = 0)"

text \<open>
  The end of the time window of the table entry at position \<open>idx\<close>: the release date of
  the next entry of the table, or one day after its own release date when it is the last.
\<close>

definition next_release :: "nat \<Rightarrow> error + datetime" where
  "next_release idx =
     (if idx + 1 < length FIREFOX_VERSION then Inr (snd (FIREFOX_VERSION ! (idx + 1)))
      else add_seconds (snd (FIREFOX_VERSION ! idx)) 86400)"

text \<open>The fields of a timestamp that prints as \<^verbatim>\<open>YYYYMMDDHHMMSS\<close>.\<close>

definition timestamp_fields :: "datetime \<Rightarrow> bool" where
  "timestamp_fields t =
     (1000 \<le> year t \<and> year t \<le> 9999 \<and> 1 \<le> month t \<and> month t \<le> 12
      \<and> 1 \<le> day t \<and> day t \<le> 31 \<and> 0 \<le> hour t \<and> hour t < 24
      \<and> 0 \<le> minute t \<and> minute t < 60 \<and> 0 \<le> second t \<and> second t < 60)"


text \<open>
  A system dictionary is complete when its four keys hold strings; the template and the
  result of \<^verbatim>\<open>generate_navigator\<close> read nothing else of it.
\<close>

definition system_complete :: "pydict \<Rightarrow> bool" where
  "system_complete system =
     (\<exists>pv p ua oc.
        dict_get system ''platform_version'' = Inr (Str pv)
        \<and> dict_get system ''platform'' = Inr (Str p)
        \<and> dict_get system ''ua_platform'' = Inr (Str ua)
        \<and> dict_get system ''oscpu'' = Inr (Str oc))"


text \<open>
  Reading a build id back: the timestamp that a string of the form
  \<^verbatim>\<open>YYYYMMDDHHMMSS\<close> encodes.
\<close>

definition digit_value :: "char \<Rightarrow> int" where
  "digit_value c =
     (case map_of [(CHR ''0'', 0), (CHR ''1'', 1), (CHR ''2'', 2), (CHR ''3'', 3),
                   (CHR ''4'', 4), (CHR ''5'', 5), (CHR ''6'', 6), (CHR ''7'', 7),
                   (CHR ''8'', 8), (CHR ''9'', 9)] c of
        Some d \<Rightarrow> d
      | None \<Rightarrow> 0)"

definition digits_value :: "string \<Rightarrow> int" where
  "digits_value s = foldl (\<lambda>a c. 10 * a + digit_value c) 0 s"

definition decode_YmdHMS :: "string \<Rightarrow> datetime" where
  "decode_YmdHMS s =
     \<lparr>year = digits_value (take 4 s), month = digits_value (take 2 (drop 4 s)),
      day = digits_value (take 2 (drop 6 s)), hour = digits_value (take 2 (drop 8 s)),
      minute = digits_value (take 2 (drop 10 s)), second = digits_value (take 2 (drop 12 s))\<rparr>"

text \<open>
  The window of the claim for the table entry at position \<open>idx\<close>: from its release date
  to the next release, the end excluded.
\<close>

definition within_release_window :: "nat \<Rightarrow> string \<Rightarrow> bool" where
  "within_release_window idx build_id =
     (case next_release idx of
        Inl _ \<Rightarrow> False
      | Inr date_to \<Rightarrow>
          dt_le (snd (FIREFOX_VERSION ! idx)) (decode_YmdHMS build_id)
          \<and> dt_less (decode_YmdHMS build_id) date_to)"


section \<open>The generator monad\<close>

lemma bind_gen_Inr: "bind_gen m f g = Inr r \<longleftrightarrow> (\<exists>x g'. m g = Inr (x, g') \<and> f x g' = Inr r)"
  by (auto simp: bind_gen_def split: sum.splits)

lemma bind_gen_Inl:
  "bind_gen m f g = Inl e \<longleftrightarrow> (m g = Inl e \<or> (\<exists>x g'. m g = Inr (x, g') \<and> f x g' = Inl e))"
  by (auto simp: bind_gen_def split: sum.splits)

lemma bind_gen_step: "m g = Inr (x, g') \<Longrightarrow> bind_gen m f g = f x g'"
  by (simp add: bind_gen_def)

lemma bind_gen_fail: "m g = Inl e \<Longrightarrow> bind_gen m f g = Inl e"
  by (simp add: bind_gen_def)

lemma lift_Inr [simp]: "lift (Inr x) g = Inr (x, g)"
  by (simp add: lift_def)

lemma lift_Inl [simp]: "lift (Inl e) g = Inl e"
  by (simp add: lift_def)

lemma lift_eq_Inr: "lift m g = Inr (x, g') \<longleftrightarrow> m = Inr x \<and> g' = g"
  by (cases m) auto

lemma ret_apply [simp]: "ret x g = Inr (x, g)"
  by (simp add: ret_def)

lemma raise_apply [simp]: "raise e g = Inl e"
  by (simp add: raise_def)

lemma bind_err_Inr [simp]: "bind_err (Inr x) f = f x"
  by (simp add: bind_err_def)

lemma bind_err_Inl [simp]: "bind_err (Inl e) f = Inl e"
  by (simp add: bind_err_def)


lemma assert_that_True [simp]: "c \<Longrightarrow> assert_that c what g = Inr ((), g)"
  by (simp add: assert_that_def)

lemma assert_that_False [simp]: "\<not> c \<Longrightarrow> assert_that c what g = Inl (AssertionError what)"
  by (simp add: assert_that_def)

lemma choice_total:
  assumes "xs \<noteq> []"
  shows "choice xs g = Inr (xs ! (fst (next_draw g) mod length xs), snd (next_draw g))"
  using assms by (simp add: choice_def split: prod.splits)

lemma choice_member:
  assumes "choice xs g = Inr (x, g')"
  shows "x \<in> set xs"
proof -
  from assms have ne: "xs \<noteq> []"
    by (auto simp: choice_def)
  with assms have "x = xs ! (fst (next_draw g) mod length xs)"
    by (simp add: choice_total)
  with ne show ?thesis by simp
qed

lemma choice_succeeds:
  assumes "xs \<noteq> []"
  obtains x g' where "choice xs g = Inr (x, g')" and "x \<in> set xs"
proof (rule that)
  show "choice xs g = Inr (xs ! (fst (next_draw g) mod length xs), snd (next_draw g))"
    by (rule choice_total [OF assms])
  show "xs ! (fst (next_draw g) mod length xs) \<in> set xs"
    using assms by simp
qed

lemma randint_total:
  assumes "a \<le> b"
  shows "randint a b g =
           Inr (a + int (fst (next_draw g) mod nat (b - a + 1)), snd (next_draw g))"
  using assms by (simp add: randint_def split: prod.splits)

lemma randint_bounds:
  assumes "randint a b g = Inr (n, g')"
  shows "a \<le> n \<and> n \<le> b"
proof -
  from assms have le: "a \<le> b"
    by (auto simp: randint_def split: if_splits)
  with assms have n: "n = a + int (fst (next_draw g) mod nat (b - a + 1))"
    by (simp add: randint_total)
  have "fst (next_draw g) mod nat (b - a + 1) < nat (b - a + 1)"
    using le by (intro mod_less_divisor) simp
  with n le show ?thesis by linarith
qed

section \<open>The constraint solver\<close>

lemma keys_tables [simp]:
  "keys DEVICE_TYPE_OS = [''desktop'', ''smartphone'', ''tablet'']"
  "keys OS_NAVIGATOR = [''win'', ''mac'', ''linux'', ''android'']"
  "keys NAVIGATOR_OS = [''chrome'', ''firefox'', ''ie'']"
  "keys OS_PLATFORM = [''win'', ''mac'', ''linux'', ''android'']"
  by (simp_all add: keys_def DEVICE_TYPE_OS_def OS_NAVIGATOR_def NAVIGATOR_OS_def
        OS_PLATFORM_def)

lemma check_choices_find:
  "check_choices opt_name all_choices xs =
     (case find (\<lambda>x. x \<notin> set all_choices) xs of
        None \<Rightarrow> Inr ()
      | Some item \<Rightarrow>
          Inl (InvalidOption
                 (''Choices of option '' @ opt_name @ '' contains invalid item: '' @ item)))"
  by (induction xs) auto

lemma find_None_subset: "find (\<lambda>x. x \<notin> A) xs = None \<longleftrightarrow> set xs \<subseteq> A"
  by (induction xs) auto

lemma get_option_choices_eq:
  assumes "set default_value \<subseteq> set all_choices"
  shows "get_option_choices opt_name v default_value all_choices =
           (case rejection opt_name all_choices v of
              Some msg \<Rightarrow> Inl (InvalidOption msg)
            | None \<Rightarrow> Inr (selected default_value all_choices v))"
proof (cases v)
  case PyNone
  have "find (\<lambda>x. x \<notin> set all_choices) default_value = None"
    using assms by (simp add: find_None_subset)
  moreover have "find (\<lambda>x. x \<notin> set all_choices) all_choices = None"
    by (simp add: find_None_subset)
  ultimately show ?thesis
    using PyNone
    by (simp add: get_option_choices_def rejection_def selected_def values_of_def
          check_choices_find)
next
  case (PyStr s)
  have "find (\<lambda>x. x \<notin> set all_choices) all_choices = None"
    by (simp add: find_None_subset)
  then show ?thesis
    using PyStr
    by (simp add: get_option_choices_def rejection_def selected_def values_of_def
          check_choices_find)
next
  case (PyList xs)
  have "find (\<lambda>x. x \<notin> set all_choices) all_choices = None"
    by (simp add: find_None_subset)
  then show ?thesis
    using PyList
    by (auto simp: get_option_choices_def rejection_def selected_def values_of_def
          check_choices_find split: option.splits)
next
  case (PyOther shown)
  then show ?thesis
    by (simp add: get_option_choices_def rejection_def)
qed

lemma valid_filter_not_rejected:
  assumes "valid_filter all_choices v"
  shows "rejection opt_name all_choices v = None"
proof -
  from assms have no: "\<not> is_other v"
    and mem: "\<forall>x\<in>set (values_of v). x \<in> set all_choices \<or> x = ''all''"
    by (simp_all add: valid_filter_def list_all_iff)
  show ?thesis
  proof (cases "''all'' \<in> set (values_of v)")
    case True
    with no show ?thesis
      by (cases v) (simp_all add: rejection_def is_other_def)
  next
    case False
    with mem have "set (values_of v) \<subseteq> set all_choices"
      by auto
    then have "find (\<lambda>x. x \<notin> set all_choices) (values_of v) = None"
      by (simp add: find_None_subset)
    with no False show ?thesis
      by (cases v) (simp_all add: rejection_def is_other_def)
  qed
qed

lemma in_table_DEVICE_TYPE_OS:
  "in_table DEVICE_TYPE_OS dev os \<longleftrightarrow>
     (dev = ''desktop'' \<and> (os = ''win'' \<or> os = ''mac'' \<or> os = ''linux''))
     \<or> (dev = ''smartphone'' \<and> os = ''android'') \<or> (dev = ''tablet'' \<and> os = ''android'')"
  by (simp add: in_table_def DEVICE_TYPE_OS_def)

lemma in_table_DEVICE_TYPE_NAVIGATOR:
  "in_table DEVICE_TYPE_NAVIGATOR dev nav \<longleftrightarrow>
     (dev = ''desktop'' \<and> (nav = ''chrome'' \<or> nav = ''firefox'' \<or> nav = ''ie''))
     \<or> (dev = ''smartphone'' \<and> (nav = ''firefox'' \<or> nav = ''chrome''))
     \<or> (dev = ''tablet'' \<and> (nav = ''firefox'' \<or> nav = ''chrome''))"
  by (simp add: in_table_def DEVICE_TYPE_NAVIGATOR_def)

lemma in_table_OS_NAVIGATOR:
  "in_table OS_NAVIGATOR os nav \<longleftrightarrow>
     (os = ''win'' \<and> (nav = ''chrome'' \<or> nav = ''firefox'' \<or> nav = ''ie''))
     \<or> (os = ''mac'' \<and> (nav = ''firefox'' \<or> nav = ''chrome''))
     \<or> (os = ''linux'' \<and> (nav = ''chrome'' \<or> nav = ''firefox''))
     \<or> (os = ''android'' \<and> (nav = ''firefox'' \<or> nav = ''chrome''))"
  by (simp add: in_table_def OS_NAVIGATOR_def)

lemma compatible_iff:
  "compatible (dev, os, nav) \<longleftrightarrow>
     (dev = ''desktop'' \<and> os = ''win'' \<and> (nav = ''chrome'' \<or> nav = ''firefox'' \<or> nav = ''ie''))
     \<or> (dev = ''desktop'' \<and> (os = ''mac'' \<or> os = ''linux'')
          \<and> (nav = ''chrome'' \<or> nav = ''firefox''))
     \<or> ((dev = ''smartphone'' \<or> dev = ''tablet'') \<and> os = ''android''
          \<and> (nav = ''chrome'' \<or> nav = ''firefox''))"
  unfolding compatible_def prod.case in_table_DEVICE_TYPE_OS in_table_DEVICE_TYPE_NAVIGATOR
    in_table_OS_NAVIGATOR
  by (cases "dev = ''desktop''"; cases "os = ''win''"; cases "os = ''android''") auto

lemma dict_get_in_table:
  "dict_get table k = (case map_of table k of None \<Rightarrow> Inl (KeyError k) | Some vs \<Rightarrow> Inr vs)"
  by (simp add: dict_get_def)

lemma collect_variants_step:
  assumes "dev \<in> set (keys DEVICE_TYPE_OS)"
  shows "collect_variants ((dev, os, nav) # rest) variants =
           collect_variants rest
             (if compatible (dev, os, nav) then variants @ [(dev, os, nav)] else variants)"
proof -
  from assms consider "dev = ''desktop''" | "dev = ''smartphone''" | "dev = ''tablet''"
    by auto
  then show ?thesis
  proof cases
    case 1
    then show ?thesis
      by (simp add: compatible_def in_table_def dict_get_def DEVICE_TYPE_OS_def
            DEVICE_TYPE_NAVIGATOR_def OS_NAVIGATOR_def)
  next
    case 2
    then show ?thesis
      by (simp add: compatible_def in_table_def dict_get_def DEVICE_TYPE_OS_def
            DEVICE_TYPE_NAVIGATOR_def OS_NAVIGATOR_def)
  next
    case 3
    then show ?thesis
      by (simp add: compatible_def in_table_def dict_get_def DEVICE_TYPE_OS_def
            DEVICE_TYPE_NAVIGATOR_def OS_NAVIGATOR_def)
  qed
qed

lemma collect_variants_eq:
  assumes "fst ` set xs \<subseteq> set (keys DEVICE_TYPE_OS)"
  shows "collect_variants xs variants = Inr (variants @ filter compatible xs)"
  using assms
proof (induction xs arbitrary: variants)
  case Nil
  then show ?case by simp
next
  case (Cons t xs)
  obtain dev os nav where t: "t = (dev, os, nav)"
    by (cases t)
  from Cons.prems t have dev: "dev \<in> set (keys DEVICE_TYPE_OS)"
    and rest: "fst ` set xs \<subseteq> set (keys DEVICE_TYPE_OS)"
    by auto
  show ?case
    unfolding t collect_variants_step [OF dev]
    by (simp add: Cons.IH [OF rest])
qed


lemma selected_subset:
  assumes "rejection opt_name all_choices v = None" and "set default_value \<subseteq> set all_choices"
  shows "set (selected default_value all_choices v) \<subseteq> set all_choices"
proof (cases "''all'' \<in> set (if v = PyNone then default_value else values_of v)")
  case True
  then show ?thesis
    by (simp add: selected_def)
next
  case False
  show ?thesis
  proof (cases "v = PyNone")
    case True
    with False assms(2) show ?thesis
      by (simp add: selected_def)
  next
    case notnone: False
    with False have noall: "''all'' \<notin> set (values_of v)"
      by simp
    from assms(1) noall have "find (\<lambda>x. x \<notin> set all_choices) (values_of v) = None"
      by (cases v) (simp_all add: rejection_def split: option.splits)
    then have "set (values_of v) \<subseteq> set all_choices"
      by (simp add: find_None_subset)
    with False notnone show ?thesis
      by (simp add: selected_def)
  qed
qed

lemma candidates_devices:
  assumes "rejection ''device_type'' (keys DEVICE_TYPE_OS) device_type = None"
  shows "fst ` set (candidates device_type os navigator) \<subseteq> set (keys DEVICE_TYPE_OS)"
proof -
  have "set (if os = PyNone then [''desktop''] else keys DEVICE_TYPE_OS)
          \<subseteq> set (keys DEVICE_TYPE_OS)"
    by simp
  from selected_subset [OF assms this]
  have "set (dev_type_choices_of device_type os) \<subseteq> set (keys DEVICE_TYPE_OS)"
    by (simp add: dev_type_choices_of_def)
  then show ?thesis
    by (auto simp: candidates_def)
qed

lemma compatible_keys:
  assumes "compatible (dev, os, nav)"
  shows "os \<in> set (keys OS_PLATFORM)" and "nav \<in> set (keys NAVIGATOR_OS)"
    and "dev \<in> set (keys DEVICE_TYPE_OS)"
  using assms unfolding compatible_iff by auto

text \<open>
  With filters that pass validation, \<^verbatim>\<open>pick_config_ids\<close> keeps the compatible
  candidates in order and draws one of them; its three closing assertions hold.
\<close>

lemma pick_config_ids_eq:
  assumes r1: "rejection ''device_type'' (keys DEVICE_TYPE_OS) device_type = None"
    and r2: "rejection ''os'' (keys OS_NAVIGATOR) os = None"
    and r3: "rejection ''navigator'' (keys NAVIGATOR_OS) navigator = None"
  shows "pick_config_ids device_type os navigator g =
           (let variants = filter compatible (candidates device_type os navigator)
            in if variants = [] then Inl (InvalidOption conflict_message)
               else Inr (variants ! (fst (next_draw g) mod length variants),
                         snd (next_draw g)))"
proof -
  let ?variants = "filter compatible (candidates device_type os navigator)"
  have g1: "get_option_choices ''device_type'' device_type
              (if os = PyNone then [''desktop''] else keys DEVICE_TYPE_OS)
              (keys DEVICE_TYPE_OS) = Inr (dev_type_choices_of device_type os)"
    using r1 by (subst get_option_choices_eq) (simp_all add: dev_type_choices_of_def)
  have g2: "get_option_choices ''os'' os (keys OS_NAVIGATOR) (keys OS_NAVIGATOR)
              = Inr (os_choices_of os)"
    using r2 by (subst get_option_choices_eq) (simp_all add: os_choices_of_def)
  have g3: "get_option_choices ''navigator'' navigator (keys NAVIGATOR_OS) (keys NAVIGATOR_OS)
              = Inr (nav_choices_of navigator)"
    using r3 by (subst get_option_choices_eq) (simp_all add: nav_choices_of_def)
  have cv: "collect_variants
              (List.product (dev_type_choices_of device_type os)
                 (List.product (os_choices_of os) (nav_choices_of navigator))) []
            = Inr ?variants"
    using collect_variants_eq [OF candidates_devices [OF r1], of os navigator "[]"]
    by (simp add: candidates_def)
  have start: "pick_config_ids device_type os navigator g =
      (if ?variants = [] then Inl (InvalidOption conflict_message)
       else bind_gen (choice ?variants) (\<lambda>(device_type, os_id, navigator_id).
        bind_gen (assert_that (os_id \<in> set (keys OS_PLATFORM))
                    ''os_id in OS_PLATFORM'') (\<lambda>_.
        bind_gen (assert_that (navigator_id \<in> set (keys NAVIGATOR_OS))
                    ''navigator_id in NAVIGATOR_OS'') (\<lambda>_.
        bind_gen (assert_that (device_type \<in> set (keys DEVICE_TYPE_OS))
                    ''device_type in DEVICE_TYPE_OS'') (\<lambda>_.
        ret (device_type, os_id, navigator_id))))) g)"
    unfolding pick_config_ids_def Let_def
    by (simp only: g1 g2 g3 cv bind_gen_def lift_Inr sum.case prod.case raise_apply
          conflict_message_def if_distrib [of "\<lambda>f. f g"] cong: if_cong)
  show ?thesis
  proof (cases "?variants = []")
    case True
    with start show ?thesis
      by (simp add: Let_def)
  next
    case False
    define t where "t = ?variants ! (fst (next_draw g) mod length ?variants)"
    obtain dev os_id nav where t: "t = (dev, os_id, nav)"
      by (cases t)
    have "t \<in> set ?variants"
      unfolding t_def by (rule nth_mem) (use False in simp)
    then have "compatible (dev, os_id, nav)"
      by (simp add: t)
    note ks = compatible_keys [OF this]
    have "choice ?variants g = Inr ((dev, os_id, nav), snd (next_draw g))"
      using choice_total [OF False, of g] t by (simp add: t_def)
    then have "bind_gen (choice ?variants) (\<lambda>(device_type, os_id, navigator_id).
        bind_gen (assert_that (os_id \<in> set (keys OS_PLATFORM))
                    ''os_id in OS_PLATFORM'') (\<lambda>_.
        bind_gen (assert_that (navigator_id \<in> set (keys NAVIGATOR_OS))
                    ''navigator_id in NAVIGATOR_OS'') (\<lambda>_.
        bind_gen (assert_that (device_type \<in> set (keys DEVICE_TYPE_OS))
                    ''device_type in DEVICE_TYPE_OS'') (\<lambda>_.
        ret (device_type, os_id, navigator_id))))) g
      = Inr ((dev, os_id, nav), snd (next_draw g))"
      using ks by (simp add: bind_gen_def)
    with start False t show ?thesis
      by (simp add: Let_def t_def)
  qed
qed

lemma pick_config_ids_rejected:
  assumes "first_rejection device_type os navigator = Some msg"
  shows "pick_config_ids device_type os navigator g = Inl (InvalidOption msg)"
proof (cases "rejection ''device_type'' (keys DEVICE_TYPE_OS) device_type")
  case (Some m)
  with assms have m: "m = msg"
    by (simp add: first_rejection_def)
  have "get_option_choices ''device_type'' device_type
          (if os = PyNone then [''desktop''] else keys DEVICE_TYPE_OS)
          (keys DEVICE_TYPE_OS) = Inl (InvalidOption msg)"
    using Some m by (subst get_option_choices_eq) simp_all
  then show ?thesis
    unfolding pick_config_ids_def Let_def by (simp add: bind_gen_def)
next
  case r1: None
  have g1: "get_option_choices ''device_type'' device_type
              (if os = PyNone then [''desktop''] else keys DEVICE_TYPE_OS)
              (keys DEVICE_TYPE_OS) = Inr (dev_type_choices_of device_type os)"
    using r1 by (subst get_option_choices_eq) (simp_all add: dev_type_choices_of_def)
  show ?thesis
  proof (cases "rejection ''os'' (keys OS_NAVIGATOR) os")
    case (Some m)
    with assms r1 have m: "m = msg"
      by (simp add: first_rejection_def)
    have "get_option_choices ''os'' os (keys OS_NAVIGATOR) (keys OS_NAVIGATOR)
            = Inl (InvalidOption msg)"
      using Some m by (subst get_option_choices_eq) simp_all
    with g1 show ?thesis
      unfolding pick_config_ids_def Let_def by (simp add: bind_gen_def)
  next
    case r2: None
    have g2: "get_option_choices ''os'' os (keys OS_NAVIGATOR) (keys OS_NAVIGATOR)
                = Inr (os_choices_of os)"
      using r2 by (subst get_option_choices_eq) (simp_all add: os_choices_of_def)
    from assms r1 r2 have "rejection ''navigator'' (keys NAVIGATOR_OS) navigator = Some msg"
      by (simp add: first_rejection_def)
    then have "get_option_choices ''navigator'' navigator (keys NAVIGATOR_OS)
                 (keys NAVIGATOR_OS) = Inl (InvalidOption msg)"
      by (subst get_option_choices_eq) simp_all
    with g1 g2 show ?thesis
      unfolding pick_config_ids_def Let_def by (simp add: bind_gen_def)
  qed
qed

section \<open>The public functions\<close>

lemma public_functions_fail:
  assumes "pick_config_ids device_type (os_in_force os platform) navigator g = Inl e"
  shows "generate_navigator dev os navigator platform device_type g = Inl e"
    and "generate_user_agent dev os navigator platform device_type g = Inl e"
    and "generate_navigator_js dev os navigator platform device_type g = Inl e"
proof -
  show nav: "generate_navigator dev os navigator platform device_type g = Inl e"
    using assms unfolding generate_navigator_def Let_def os_in_force_def
    by (simp add: bind_gen_def)
  show "generate_user_agent dev os navigator platform device_type g = Inl e"
    unfolding generate_user_agent_def by (simp add: bind_gen_def nav)
  show "generate_navigator_js dev os navigator platform device_type g = Inl e"
    unfolding generate_navigator_js_def by (simp add: bind_gen_def nav)
qed


lemmas table_defs = DEVICE_TYPE_OS_def OS_NAVIGATOR_def NAVIGATOR_OS_def
  DEVICE_TYPE_NAVIGATOR_def OS_PLATFORM_def OS_CPU_def IE_VERSION_def CHROME_BUILD_def
  USER_AGENT_TEMPLATE_def MACOSX_CHROME_BUILD_RANGE_def

lemmas run_defs = generate_navigator_def pick_config_ids_def get_option_choices_def keys_def
  dict_get_def bind_gen_def choice_def randint_def assert_that_def
  build_system_components_def choice_of_def build_app_components_def get_ie_build_def
  get_chrome_build_def choose_ua_template_def build_navigator_app_version_def py_split_def
  list_get_def fix_chrome_mac_platform_def py_range_def generate_user_agent_def
  generate_navigator_js_def Let_def lift_def bind_err_def str_int_def str_nat.simps
  digit_char_def example_device_def

lemma rejection_names:
  assumes "rejection opt_name all_choices v = Some msg"
  shows "(\<exists>shown. v = PyOther shown
            \<and> msg = ''Option '' @ opt_name @ '' has invalid value: '' @ shown)
         \<or> (''all'' \<notin> set (values_of v)
             \<and> (\<exists>item \<in> set (values_of v). item \<notin> set all_choices
                   \<and> msg = ''Choices of option '' @ opt_name @ '' contains invalid item: ''
                             @ item))"
proof (cases "is_other v")
  case True
  with assms show ?thesis
    by (cases v) (simp_all add: rejection_def is_other_def)
next
  case False
  with assms obtain item where
    noall: "''all'' \<notin> set (values_of v)"
    and f: "find (\<lambda>x. x \<notin> set all_choices) (values_of v) = Some item"
    and m: "msg = ''Choices of option '' @ opt_name @ '' contains invalid item: '' @ item"
    by (cases v) (auto simp: rejection_def is_other_def split: if_splits option.splits)
  from f have "item \<in> set (values_of v)" and "item \<notin> set all_choices"
    by (auto simp: find_Some_iff)
  with m noall show ?thesis by blast
qed

lemma rejection_offending:
  assumes "offending all_choices v"
  shows "rejection opt_name all_choices v \<noteq> None"
proof (cases "is_other v")
  case True
  then show ?thesis
    by (cases v) (simp_all add: rejection_def is_other_def)
next
  case False
  with assms have noall: "''all'' \<notin> set (values_of v)"
    and "\<exists>x \<in> set (values_of v). x \<notin> set all_choices"
    by (simp_all add: offending_def list_ex_iff)
  then have "find (\<lambda>x. x \<notin> set all_choices) (values_of v) \<noteq> None"
    by (auto simp: find_None_iff)
  with noall show ?thesis
    by (cases v) (auto simp: rejection_def)
qed

lemma first_rejection_names:
  assumes "first_rejection device_type os navigator = Some msg"
  shows "names_offender
           [(''device_type'', keys DEVICE_TYPE_OS, device_type),
            (''os'', keys OS_NAVIGATOR, os), (''navigator'', keys NAVIGATOR_OS, navigator)]
           msg"
proof -
  from assms consider
      "rejection ''device_type'' (keys DEVICE_TYPE_OS) device_type = Some msg"
    | "rejection ''os'' (keys OS_NAVIGATOR) os = Some msg"
    | "rejection ''navigator'' (keys NAVIGATOR_OS) navigator = Some msg"
    by (auto simp: first_rejection_def split: option.splits)
  then show ?thesis
  proof cases
    case 1
    from rejection_names [OF this] show ?thesis
      unfolding names_offender_def by simp
  next
    case 2
    from rejection_names [OF this] show ?thesis
      unfolding names_offender_def by simp
  next
    case 3
    from rejection_names [OF this] show ?thesis
      unfolding names_offender_def by simp
  qed
qed

lemma first_rejection_offending:
  assumes "(opt_name, all_choices, v) \<in>
             set [(''device_type'', keys DEVICE_TYPE_OS, device_type),
                  (''os'', keys OS_NAVIGATOR, os), (''navigator'', keys NAVIGATOR_OS, navigator)]"
    and "offending all_choices v"
  shows "first_rejection device_type os navigator \<noteq> None"
proof -
  note r = rejection_offending [OF assms(2)]
  from assms(1) consider
      "opt_name = ''device_type''" "all_choices = keys DEVICE_TYPE_OS" "v = device_type"
    | "opt_name = ''os''" "all_choices = keys OS_NAVIGATOR" "v = os"
    | "opt_name = ''navigator''" "all_choices = keys NAVIGATOR_OS" "v = navigator"
    by auto
  then show ?thesis
  proof cases
    case 1
    with r [of "''device_type''"] show ?thesis
      by (auto simp: first_rejection_def split: option.splits)
  next
    case 2
    with r [of "''os''"] show ?thesis
      by (auto simp: first_rejection_def split: option.splits)
  next
    case 3
    with r [of "''navigator''"] show ?thesis
      by (auto simp: first_rejection_def split: option.splits)
  qed
qed


text \<open>What a successful run of \<^verbatim>\<open>generate_navigator\<close> went through.\<close>

lemma generate_navigator_InrE:
  assumes "generate_navigator dev os navigator platform device_type g = Inr (config, g')"
  obtains dt os_id nav_id g1 system g2 app tpl ua pv av sp so abv abi an aps avd where
    "pick_config_ids device_type (os_in_force os platform) navigator g
       = Inr ((dt, os_id, nav_id), g1)"
    and "build_system_components dev dt os_id nav_id g1 = Inr (system, g2)"
    and "build_app_components os_id nav_id g2 = Inr (app, g')"
    and "choose_ua_template dt nav_id app = Inr tpl"
    and "format_template tpl system app = Inr ua"
    and "dict_get system ''platform_version'' = Inr pv"
    and "build_navigator_app_version os_id nav_id pv ua = Inr av"
    and "dict_get system ''platform'' = Inr sp"
    and "dict_get system ''oscpu'' = Inr so"
    and "dict_get app ''build_version'' = Inr abv"
    and "dict_get app ''build_id'' = Inr abi"
    and "dict_get app ''name'' = Inr an"
    and "dict_get app ''product_sub'' = Inr aps"
    and "dict_get app ''vendor'' = Inr avd"
    and "config =
           [(''os_id'', Str os_id), (''navigator_id'', Str nav_id), (''platform'', sp),
            (''oscpu'', so), (''build_version'', abv), (''build_id'', abi),
            (''app_version'', Str av), (''app_name'', an), (''app_code_name'', Str ''Mozilla''),
            (''product'', Str ''Gecko''), (''product_sub'', aps), (''vendor'', avd),
            (''vendor_sub'', Str ''''), (''user_agent'', Str ua)]"
proof -
  from assms obtain t g1 system g2 app g3 tpl ua pv av sp so abv abi an aps avd where
    p: "pick_config_ids device_type (os_in_force os platform) navigator g = Inr (t, g1)"
    and rest: "(case t of (dt, os_id, nav_id) \<Rightarrow>
      build_system_components dev dt os_id nav_id g1 = Inr (system, g2)
      \<and> build_app_components os_id nav_id g2 = Inr (app, g3)
      \<and> choose_ua_template dt nav_id app = Inr tpl
      \<and> format_template tpl system app = Inr ua
      \<and> dict_get system ''platform_version'' = Inr pv
      \<and> build_navigator_app_version os_id nav_id pv ua = Inr av
      \<and> dict_get system ''platform'' = Inr sp
      \<and> dict_get system ''oscpu'' = Inr so
      \<and> dict_get app ''build_version'' = Inr abv
      \<and> dict_get app ''build_id'' = Inr abi
      \<and> dict_get app ''name'' = Inr an
      \<and> dict_get app ''product_sub'' = Inr aps
      \<and> dict_get app ''vendor'' = Inr avd
      \<and> g' = g3
      \<and> config =
           [(''os_id'', Str os_id), (''navigator_id'', Str nav_id), (''platform'', sp),
            (''oscpu'', so), (''build_version'', abv), (''build_id'', abi),
            (''app_version'', Str av), (''app_name'', an), (''app_code_name'', Str ''Mozilla''),
            (''product'', Str ''Gecko''), (''product_sub'', aps), (''vendor'', avd),
            (''vendor_sub'', Str ''''), (''user_agent'', Str ua)])"
    unfolding generate_navigator_def Let_def os_in_force_def
    by (fastforce simp: bind_gen_Inr lift_eq_Inr split: prod.splits)
  obtain dt os_id nav_id where t: "t = (dt, os_id, nav_id)"
    by (cases t)
  from rest [unfolded t prod.case] p [unfolded t] show ?thesis
    by (intro that [of dt os_id nav_id g1 system g2 app tpl ua pv av sp so abv abi an aps avd])
      simp_all
qed

lemma generate_navigator_user_agent:
  assumes "generate_navigator dev os navigator platform device_type g = Inr (config, g')"
  shows "\<exists>ua. dict_get config ''user_agent'' = Inr (Str ua)"
  using assms by (elim generate_navigator_InrE) (simp add: dict_get_def)


section \<open>Decimal digits\<close>

lemma digit_char_is_digit:
  assumes "d < 10"
  shows "is_digit (digit_char d)"
  unfolding digit_char_def is_digit_def
  by (rule nth_mem) (use assms in simp)

lemma str_nat_digits: "list_all is_digit (str_nat n)"
proof (induction n rule: str_nat.induct)
  case (1 n)
  show ?case
  proof (cases "n < 10")
    case True
    then show ?thesis
      by (subst str_nat.simps) (simp add: digit_char_is_digit)
  next
    case False
    with 1 have "list_all is_digit (str_nat (n div 10))"
      by simp
    moreover have "is_digit (digit_char (n mod 10))"
      by (rule digit_char_is_digit) simp
    ultimately show ?thesis
      using False by (subst str_nat.simps) simp
  qed
qed

lemma str_nat_length:
  assumes "n < 10 ^ k" and "0 < k"
  shows "length (str_nat n) \<le> k"
  using assms
proof (induction k arbitrary: n)
  case 0
  then show ?case by simp
next
  case (Suc k)
  show ?case
  proof (cases "n < 10")
    case True
    then show ?thesis
      by (subst str_nat.simps) simp
  next
    case False
    with Suc.prems have k: "0 < k"
      by (cases k) auto
    from Suc.prems have "n div 10 < 10 ^ k"
      by (simp add: less_mult_imp_div_less mult.commute)
    from Suc.IH [OF this k] False show ?thesis
      by (subst str_nat.simps) simp
  qed
qed

lemma zero_padded_digits:
  assumes "0 \<le> i" and "i < 10 ^ w" and "0 < w"
  shows "length (zero_padded w i) = w" and "list_all is_digit (zero_padded w i)"
proof -
  from assms(1) have s: "str_int i = str_nat (nat i)"
    by (simp add: str_int_def)
  from assms(1,2) have "nat i < 10 ^ w"
    by (simp add: nat_less_iff)
  from str_nat_length [OF this assms(3)] have len: "length (str_nat (nat i)) \<le> w" .
  then show "length (zero_padded w i) = w"
    by (simp add: zero_padded_def Let_def s)
  have "is_digit CHR ''0''"
    by (simp add: is_digit_def)
  with str_nat_digits [of "nat i"] show "list_all is_digit (zero_padded w i)"
    by (auto simp: zero_padded_def Let_def s list_all_iff)
qed

section \<open>The calendar\<close>

lemma month_day_of_bounds:
  assumes "0 \<le> n" and "n \<le> 364" and "month_day_of n leapyear = (mo, d)"
  shows "1 \<le> mo \<and> mo \<le> 12 \<and> 1 \<le> d \<and> d \<le> 31"
proof -
  define m0 where "m0 = (n + 50) div 32"
  have lo: "m0 * 32 \<le> n + 50" and hi: "n + 50 < m0 * 32 + 32"
    unfolding m0_def by presburger+
  from assms(1,2) have "1 \<le> m0" and "m0 \<le> 12"
    unfolding m0_def by presburger+
  then have "m0 = 1 \<or> m0 = 2 \<or> m0 = 3 \<or> m0 = 4 \<or> m0 = 5 \<or> m0 = 6 \<or> m0 = 7 \<or> m0 = 8
      \<or> m0 = 9 \<or> m0 = 10 \<or> m0 = 11 \<or> m0 = 12"
    by presburger
  moreover have md: "month_day_of n leapyear =
     (let mo = m0;
          preceding = DAYS_BEFORE_MONTH ! nat mo + (if mo > 2 \<and> leapyear then 1 else 0)
      in if preceding > n
         then (let mo = mo - 1;
                   preceding = preceding
                     - (DAYS_IN_MONTH ! nat mo + (if mo = 2 \<and> leapyear then 1 else 0))
               in (mo, n - preceding + 1))
         else (mo, n - preceding + 1))"
    unfolding month_day_of_def m0_def by (rule refl)
  ultimately show ?thesis
    using lo hi assms
    by (elim disjE)
       (simp_all add: DAYS_BEFORE_MONTH_def DAYS_IN_MONTH_def Let_def split: if_splits)
qed


lemma ord2ymd_bounds:
  assumes "730486 \<le> days" and "days \<le> 876582" and "ord2ymd days = (y, m, d)"
  shows "2000 \<le> y \<and> y \<le> 2501 \<and> 1 \<le> m \<and> m \<le> 12 \<and> 1 \<le> d \<and> d \<le> 31"
proof -
  define r where "r = (days - 1) mod 146097"
  define n100 where "n100 = r div 36524"
  define r2 where "r2 = r mod 36524"
  define n4 where "n4 = r2 div 1461"
  define r3 where "r3 = r2 mod 1461"
  define n1 where "n1 = r3 div 365"
  define r4 where "r4 = r3 mod 365"
  from assms(1,2) have n400: "(days - 1) div 146097 = 5"
    by linarith
  have r: "0 \<le> r" "r < 146097"
    unfolding r_def by simp_all
  then have n100: "0 \<le> n100" "n100 \<le> 4"
    unfolding n100_def by linarith+
  have r2: "0 \<le> r2" "r2 < 36524"
    unfolding r2_def by simp_all
  then have n4: "0 \<le> n4" "n4 \<le> 24"
    unfolding n4_def by linarith+
  have r3: "0 \<le> r3" "r3 < 1461"
    unfolding r3_def by simp_all
  then have n1: "0 \<le> n1" "n1 \<le> 4"
    unfolding n1_def by linarith+
  have r4: "0 \<le> r4" "r4 \<le> 364"
    unfolding r4_def by simp_all
  have eq: "ord2ymd days =
      (if n1 = 4 \<or> n100 = 4 then (2001 + n100 * 100 + n4 * 4 + n1 - 1, 12, 31)
       else (2001 + n100 * 100 + n4 * 4 + n1,
             month_day_of r4 (n1 = 3 \<and> (n4 \<noteq> 24 \<or> n100 = 3))))"
    unfolding ord2ymd_def Let_def n400 r4_def n1_def r3_def n4_def r2_def n100_def r_def
    by simp
  show ?thesis
  proof (cases "n1 = 4 \<or> n100 = 4")
    case True
    with eq assms(3) have "y = 2001 + n100 * 100 + n4 * 4 + n1 - 1" "m = 12" "d = 31"
      by simp_all
    with n100 n4 n1 show ?thesis
      by simp
  next
    case False
    with eq assms(3) have y: "y = 2001 + n100 * 100 + n4 * 4 + n1"
      and md: "month_day_of r4 (n1 = 3 \<and> (n4 \<noteq> 24 \<or> n100 = 3)) = (m, d)"
      by simp_all
    from month_day_of_bounds [OF r4 md] y n100 n4 n1 show ?thesis
      by simp
  qed
qed

lemma days_before_year_bounds:
  assumes "2004 \<le> y" and "y \<le> 2021"
  shows "731580 \<le> days_before_year y \<and> days_before_year y \<le> 737790"
proof -
  from assms have "(y - 1) div 100 = 20" and "(y - 1) div 400 = 5"
    and "500 \<le> (y - 1) div 4" and "(y - 1) div 4 \<le> 505"
    by linarith+
  with assms show ?thesis
    by (simp add: days_before_year_def Let_def)
qed

lemma days_before_month_bounds:
  assumes "1 \<le> m" and "m \<le> 12"
  shows "0 \<le> days_before_month y m \<and> days_before_month y m \<le> 335"
proof -
  from assms have "m = 1 \<or> m = 2 \<or> m = 3 \<or> m = 4 \<or> m = 5 \<or> m = 6 \<or> m = 7 \<or> m = 8
      \<or> m = 9 \<or> m = 10 \<or> m = 11 \<or> m = 12"
    by presburger
  then show ?thesis
    by (elim disjE) (simp_all add: days_before_month_def DAYS_BEFORE_MONTH_def)
qed

lemma release_date_seconds:
  assumes "release_date t"
  shows "seconds_of t = toordinal t * 86400"
    and "731581 \<le> toordinal t" and "toordinal t \<le> 738156"
proof -
  from assms have y: "2004 \<le> year t" "year t \<le> 2021" and m: "1 \<le> month t" "month t \<le> 12"
    and d: "1 \<le> day t" "day t \<le> 31"
    and z: "hour t = 0" "minute t = 0" "second t = 0"
    by (simp_all add: release_date_def)
  from z show "seconds_of t = toordinal t * 86400"
    by (simp add: seconds_of_def)
  from days_before_year_bounds [OF y] days_before_month_bounds [OF m, of "year t"] d
  show "731581 \<le> toordinal t" and "toordinal t \<le> 738156"
    by (simp_all add: toordinal_def ymd2ord_def)
qed


section \<open>The Firefox build selector\<close>

lemma firefox_dates: "list_all (\<lambda>(v, d). release_date d) FIREFOX_VERSION"
  by (simp add: FIREFOX_VERSION_def datetime3_def release_date_def)

lemma firefox_length: "length FIREFOX_VERSION = 431"
  by (simp add: FIREFOX_VERSION_def)

lemma firefox_last: "FIREFOX_VERSION ! 430 = (''84.0.2'', datetime3 2021 1 6)"
  by (simp add: FIREFOX_VERSION_def)

lemma firefox_release_date:
  assumes "idx < length FIREFOX_VERSION"
  shows "release_date (snd (FIREFOX_VERSION ! idx))"
proof -
  from assms have "FIREFOX_VERSION ! idx \<in> set FIREFOX_VERSION"
    by (rule nth_mem)
  with firefox_dates show ?thesis
    by (auto simp: list_all_iff)
qed

lemma index_from_member:
  assumes "x \<in> set xs"
  shows "\<exists>j < length xs. index_from i xs x = Inr (i + j) \<and> xs ! j = x"
  using assms
proof (induction xs arbitrary: i)
  case Nil
  then show ?case by simp
next
  case (Cons y ys)
  show ?case
  proof (cases "y = x")
    case True
    then show ?thesis by auto
  next
    case False
    with Cons.prems have "x \<in> set ys" by simp
    from Cons.IH [OF this, of "Suc i"] obtain j where
      "j < length ys" "index_from (Suc i) ys x = Inr (Suc i + j)" "ys ! j = x"
      by blast
    with False show ?thesis
      by (intro exI [of _ "Suc j"]) simp
  qed
qed

lemma tuple_index_member:
  assumes "x \<in> set xs"
  obtains j where "j < length xs" and "tuple_index xs x = Inr j" and "xs ! j = x"
  using index_from_member [OF assms, of 0] unfolding tuple_index_def by auto

lemma add_one_day_last: "add_seconds (datetime3 2021 1 6) 86400 = Inr (datetime3 2021 1 7)"
  by (simp add: add_seconds_def seconds_of_def toordinal_def ymd2ord_def days_before_year_def
        days_before_month_def DAYS_BEFORE_MONTH_def DAYS_IN_MONTH_def is_leap_def ord2ymd_def
        month_day_of_def Let_def datetime3_def)

lemma next_release_ok:
  assumes "idx < length FIREFOX_VERSION"
  obtains date_to where "next_release idx = Inr date_to" and "release_date date_to"
proof (cases "idx + 1 < length FIREFOX_VERSION")
  case True
  show ?thesis
  proof (rule that)
    show "next_release idx = Inr (snd (FIREFOX_VERSION ! (idx + 1)))"
      using True by (simp add: next_release_def)
    show "release_date (snd (FIREFOX_VERSION ! (idx + 1)))"
      using True by (rule firefox_release_date)
  qed
next
  case False
  with assms have idx: "idx = 430"
    by (simp add: firefox_length)
  show ?thesis
  proof (rule that)
    show "next_release idx = Inr (datetime3 2021 1 7)"
      by (simp add: next_release_def idx firefox_length firefox_last add_one_day_last)
    show "release_date (datetime3 2021 1 7)"
      by (simp add: release_date_def datetime3_def)
  qed
qed

lemma firefox_date_to_eq:
  assumes "idx < length FIREFOX_VERSION" and "FIREFOX_VERSION ! idx = (v, d)"
    and "tuple_index FIREFOX_VERSION (v, d) = Inr idx"
  shows "firefox_date_to v d = next_release idx"
proof (cases "idx + 1 < length FIREFOX_VERSION")
  case True
  then have "list_get FIREFOX_VERSION (int idx + 1) = Inr (FIREFOX_VERSION ! (idx + 1))"
    by (simp add: list_get_def nat_add_distrib)
  with True assms show ?thesis
    by (simp add: firefox_date_to_def next_release_def split: prod.splits)
next
  case False
  then have "list_get FIREFOX_VERSION (int idx + 1) = Inl IndexError"
    by (simp add: list_get_def)
  with False assms show ?thesis
    by (simp add: firefox_date_to_def next_release_def)
qed

lemma add_seconds_ok:
  assumes "release_date t" and "0 \<le> n" and "n \<le> 1000000000"
  obtains t' where "add_seconds t n = Inr t'"
    and "2000 \<le> year t'" and "year t' \<le> 2501" and "1 \<le> month t'" and "month t' \<le> 12"
    and "1 \<le> day t'" and "day t' \<le> 31" and "0 \<le> hour t'" and "hour t' < 24"
    and "0 \<le> minute t'" and "minute t' < 60" and "0 \<le> second t'" and "second t' < 60"
proof -
  note s = release_date_seconds [OF assms(1)]
  define days where "days = toordinal t + n div 86400"
  define secs where "secs = n mod 86400"
  have total: "(seconds_of t + n) div 86400 = days" "(seconds_of t + n) mod 86400 = secs"
    by (simp_all add: s(1) days_def secs_def)
  from assms(2,3) have "0 \<le> n div 86400" "n div 86400 \<le> 11575"
    by linarith+
  with s(2,3) have days: "730486 \<le> days" "days \<le> 876582"
    by (simp_all add: days_def)
  obtain y m d where ymd: "ord2ymd days = (y, m, d)"
    by (cases "ord2ymd days")
  note b = ord2ymd_bounds [OF days ymd]
  have secs: "0 \<le> secs" "secs < 86400"
    by (simp_all add: secs_def)
  then have hms: "0 \<le> secs div 3600" "secs div 3600 < 24"
    "0 \<le> (secs mod 3600) div 60" "(secs mod 3600) div 60 < 60"
    "0 \<le> (secs mod 3600) mod 60" "(secs mod 3600) mod 60 < 60"
    by linarith+
  show ?thesis
  proof (rule that)
    show "add_seconds t n = Inr \<lparr>year = y, month = m, day = d, hour = secs div 3600,
        minute = (secs mod 3600) div 60, second = (secs mod 3600) mod 60\<rparr>"
      using days by (simp add: add_seconds_def Let_def total ymd)
  qed (use b hms in simp_all)
qed

lemma strftime_digits:
  assumes "1000 \<le> year t" and "year t \<le> 9999" and "0 \<le> month t" and "month t < 100"
    and "0 \<le> day t" and "day t < 100" and "0 \<le> hour t" and "hour t < 100"
    and "0 \<le> minute t" and "minute t < 100" and "0 \<le> second t" and "second t < 100"
  shows "length (strftime_YmdHMS t) = 14 \<and> list_all is_digit (strftime_YmdHMS t)"
proof -
  have "length (zero_padded 4 (year t)) = 4" "list_all is_digit (zero_padded 4 (year t))"
    using assms by (simp_all add: zero_padded_digits)
  moreover
  have "length (zero_padded 2 (month t)) = 2" "list_all is_digit (zero_padded 2 (month t))"
    using assms by (simp_all add: zero_padded_digits)
  moreover
  have "length (zero_padded 2 (day t)) = 2" "list_all is_digit (zero_padded 2 (day t))"
    using assms by (simp_all add: zero_padded_digits)
  moreover
  have "length (zero_padded 2 (hour t)) = 2" "list_all is_digit (zero_padded 2 (hour t))"
    using assms by (simp_all add: zero_padded_digits)
  moreover
  have "length (zero_padded 2 (minute t)) = 2" "list_all is_digit (zero_padded 2 (minute t))"
    using assms by (simp_all add: zero_padded_digits)
  moreover
  have "length (zero_padded 2 (second t)) = 2" "list_all is_digit (zero_padded 2 (second t))"
    using assms by (simp_all add: zero_padded_digits)
  ultimately show ?thesis
    by (simp add: strftime_YmdHMS_def)
qed


text \<open>
  Every run of \<^verbatim>\<open>get_firefox_build\<close> returns: it picks an entry of the table, and the
  build id is the release date of the entry plus an offset of 0 to
  \<open>max (window - 1) 100000\<close> seconds, the window being the time to the next entry.
\<close>

lemma get_firefox_build_run:
  obtains idx v date_from date_to offset t where
    "idx < length FIREFOX_VERSION" and "FIREFOX_VERSION ! idx = (v, date_from)"
    and "next_release idx = Inr date_to"
    and "0 \<le> offset"
    and "offset \<le> max (total_seconds_between date_to date_from - 1) 100000"
    and "add_seconds date_from offset = Inr t"
    and "get_firefox_build g = Inr ((v, strftime_YmdHMS t), snd (next_draw (snd (next_draw g))))"
    and "2000 \<le> year t" and "year t \<le> 2501" and "1 \<le> month t" and "month t \<le> 12"
    and "1 \<le> day t" and "day t \<le> 31" and "0 \<le> hour t" and "hour t < 24"
    and "0 \<le> minute t" and "minute t < 60" and "0 \<le> second t" and "second t < 60"
proof -
  define g1 where "g1 = snd (next_draw g)"
  define g2 where "g2 = snd (next_draw g1)"
  have ne: "FIREFOX_VERSION \<noteq> []"
    using firefox_length by auto
  obtain v date_from where
    c: "choice FIREFOX_VERSION g = Inr ((v, date_from), g1)"
    using choice_total [OF ne, of g] unfolding g1_def
    by (cases "FIREFOX_VERSION ! (fst (next_draw g) mod length FIREFOX_VERSION)") auto
  from choice_member [OF c] have mem: "(v, date_from) \<in> set FIREFOX_VERSION" .
  from tuple_index_member [OF mem] obtain idx where
    idx: "idx < length FIREFOX_VERSION" "tuple_index FIREFOX_VERSION (v, date_from) = Inr idx"
      "FIREFOX_VERSION ! idx = (v, date_from)"
    by blast
  from next_release_ok [OF idx(1)] obtain date_to where
    nr: "next_release idx = Inr date_to" and rd_to: "release_date date_to"
    by blast
  from firefox_release_date [OF idx(1)] idx(3) have rd_from: "release_date date_from"
    by simp
  have dt: "firefox_date_to v date_from = Inr date_to"
    using firefox_date_to_eq [OF idx(1) idx(3) idx(2)] nr by simp
  define sec_range where "sec_range = total_seconds_between date_to date_from - 1"
  note sf = release_date_seconds [OF rd_from]
  note st = release_date_seconds [OF rd_to]
  have sr: "sec_range = (toordinal date_to - toordinal date_from) * 86400 - 1"
    by (simp add: sec_range_def total_seconds_between_def sf(1) st(1) algebra_simps)
  have top: "max sec_range 100000 \<le> 1000000000"
    using sf(2,3) st(2,3) unfolding sr by simp
  have "0 \<le> max sec_range 100000"
    by simp
  from randint_total [OF this, of g1] obtain offset where
    ri: "randint 0 (max sec_range 100000) g1 = Inr (offset, g2)"
    unfolding g2_def by simp
  from randint_bounds [OF ri] have off: "0 \<le> offset" "offset \<le> max sec_range 100000"
    by simp_all
  with top have "offset \<le> 1000000000"
    by linarith
  from add_seconds_ok [OF rd_from off(1) this] obtain t where
    t: "add_seconds date_from offset = Inr t"
    and b: "2000 \<le> year t" "year t \<le> 2501" "1 \<le> month t" "month t \<le> 12"
      "1 \<le> day t" "day t \<le> 31" "0 \<le> hour t" "hour t < 24"
      "0 \<le> minute t" "minute t < 60" "0 \<le> second t" "second t < 60"
    by blast
  have run: "get_firefox_build g = Inr ((v, strftime_YmdHMS t), g2)"
    unfolding get_firefox_build_def
    by (simp add: bind_gen_def c dt Let_def ri [unfolded sec_range_def] t)
  show ?thesis
    by (rule that [OF idx(1) idx(3) nr off(1) off(2) [unfolded sec_range_def] t
          run [unfolded g2_def g1_def] b])
qed

lemma get_firefox_build_id:
  obtains v build_id where
    "get_firefox_build g = Inr ((v, build_id), snd (next_draw (snd (next_draw g))))"
    and "length build_id = 14" and "list_all is_digit build_id"
proof -
  obtain v t where run:
      "get_firefox_build g = Inr ((v, strftime_YmdHMS t), snd (next_draw (snd (next_draw g))))"
    and b: "2000 \<le> year t" "year t \<le> 2501" "1 \<le> month t" "month t \<le> 12"
      "1 \<le> day t" "day t \<le> 31" "0 \<le> hour t" "hour t < 24"
      "0 \<le> minute t" "minute t < 60" "0 \<le> second t" "second t < 60"
    by (rule get_firefox_build_run [of g]) blast
  have "length (strftime_YmdHMS t) = 14 \<and> list_all is_digit (strftime_YmdHMS t)"
    by (rule strftime_digits) (use b in simp_all)
  with run show ?thesis
    by (intro that [of v "strftime_YmdHMS t"]) simp_all
qed


section \<open>The component assembler\<close>

lemma chrome_ranges: "list_all (\<lambda>(major, lo, hi). lo \<le> hi) CHROME_BUILD"
  by (simp add: CHROME_BUILD_def)

lemma get_chrome_build_total: "\<exists>build_version g'. get_chrome_build g = Inr (build_version, g')"
proof -
  have ne: "CHROME_BUILD \<noteq> []"
    by (simp add: CHROME_BUILD_def)
  then obtain major lo hi g1 where c: "choice CHROME_BUILD g = Inr ((major, lo, hi), g1)"
    by (metis choice_total prod_cases3)
  from choice_member [OF c] chrome_ranges have "lo \<le> hi"
    by (auto simp: list_all_iff)
  from randint_total [OF this, of g1] obtain build_no g2 where
    r1: "randint lo hi g1 = Inr (build_no, g2)"
    by blast
  have "(0::int) \<le> 120" by simp
  from randint_total [OF this, of g2] obtain patch g3 where
    r2: "randint 0 120 g2 = Inr (patch, g3)"
    by blast
  show ?thesis
    unfolding get_chrome_build_def by (simp add: bind_gen_def c r1 r2)
qed

lemma build_app_components_firefox:
  obtains v build_id where "length build_id = 14" and "list_all is_digit build_id"
    and "build_app_components os_id ''firefox'' g =
           Inr ([(''name'', Str ''Netscape''), (''product_sub'', Str ''20100101''),
                 (''vendor'', Str ''''), (''build_version'', Str v),
                 (''build_id'', Str build_id),
                 (''geckotrail'',
                    Str (if os_id \<in> set [''win'', ''linux'', ''mac''] then ''20100101''
                         else v))],
                snd (next_draw (snd (next_draw g))))"
proof -
  obtain v build_id where
    run: "get_firefox_build g = Inr ((v, build_id), snd (next_draw (snd (next_draw g))))"
    and d: "length build_id = 14" "list_all is_digit build_id"
    by (rule get_firefox_build_id)
  show ?thesis
    by (rule that [OF d]) (simp add: build_app_components_def bind_gen_def run Let_def)
qed

lemma build_app_components_chrome:
  "\<exists>build_version g'. build_app_components os_id ''chrome'' g =
      Inr ([(''name'', Str ''Netscape''), (''product_sub'', Str ''20030107''),
            (''vendor'', Str ''Google Inc.''), (''build_version'', Str build_version),
            (''build_id'', NoneVal)], g')"
proof -
  from get_chrome_build_total [of g] obtain bv g' where "get_chrome_build g = Inr (bv, g')"
    by blast
  then show ?thesis
    by (simp add: build_app_components_def bind_gen_def)
qed

lemma build_app_components_ie:
  "\<exists>app_name build_version trident_version g'.
     (build_version = ''MSIE 11.0'' \<or> build_version \<noteq> ''MSIE 11.0'')
     \<and> build_app_components os_id ''ie'' g =
      Inr ([(''name'', Str app_name), (''product_sub'', NoneVal), (''vendor'', Str ''''),
            (''build_version'', Str build_version), (''build_id'', NoneVal),
            (''trident_version'', Str trident_version)], g')"
proof -
  have ne: "IE_VERSION \<noteq> []"
    by (simp add: IE_VERSION_def)
  then obtain num_ver bv tv g' where "choice IE_VERSION g = Inr ((num_ver, bv, tv), g')"
    by (metis choice_total prod_cases3)
  then show ?thesis
    by (simp add: build_app_components_def get_ie_build_def bind_gen_def Let_def)
qed

lemma choice_of_total:
  assumes "map_of table k = Some xs" and "xs \<noteq> []"
  shows "choice_of table k g = Inr (xs ! (fst (next_draw g) mod length xs), snd (next_draw g))"
  using assms by (simp add: choice_of_def dict_get_def bind_gen_def choice_total)

lemma choice_of_member:
  assumes "choice_of table k g = Inr (x, g')"
  shows "\<exists>xs. map_of table k = Some xs \<and> x \<in> set xs"
  using assms
  by (auto simp: choice_of_def dict_get_def bind_gen_Inr lift_eq_Inr split: option.splits
        dest: choice_member)

lemma split_pieces_nonempty: "split_pieces sep maxsplit cur s \<noteq> []"
  by (induction sep maxsplit cur s rule: split_pieces.induct) auto

lemma last_piece_total:
  assumes "sep \<noteq> []"
  shows "\<exists>w. bind_err (py_split s sep (- 1)) (\<lambda>parts. list_get parts (- 1)) = Inr w"
proof -
  have "Suc 0 \<le> length (split_pieces sep (- 1) [] s)"
    using split_pieces_nonempty [of sep "- 1" "[]" s]
    by (cases "split_pieces sep (- 1) [] s") simp_all
  then show ?thesis
    using assms by (simp add: py_split_def list_get_def)
qed


lemma system_completeI:
  assumes "dict_get system ''platform_version'' = Inr (Str pv)"
    and "dict_get system ''platform'' = Inr (Str p)"
    and "dict_get system ''ua_platform'' = Inr (Str ua)"
    and "dict_get system ''oscpu'' = Inr (Str oc)"
  shows "system_complete system"
  unfolding system_complete_def using assms by blast

lemma build_system_components_win:
  "\<exists>pv p g'. build_system_components dev dt ''win'' nav g =
     Inr ([(''platform_version'', Str pv), (''platform'', Str p), (''ua_platform'', Str p),
           (''oscpu'', Str p)], g')"
  by (simp add: build_system_components_def choice_of_def dict_get_def OS_PLATFORM_def
        OS_CPU_def bind_gen_def choice_def Let_def split: prod.splits)

lemma build_system_components_linux:
  "\<exists>pv p oc g'. build_system_components dev dt ''linux'' nav g =
     Inr ([(''platform_version'', Str pv), (''platform'', Str p), (''ua_platform'', Str p),
           (''oscpu'', Str oc)], g')"
  by (simp add: build_system_components_def choice_of_def dict_get_def OS_PLATFORM_def
        OS_CPU_def bind_gen_def choice_def Let_def split: prod.splits)

lemma fix_chrome_mac_platform_total:
  assumes "map_of OS_PLATFORM ''mac'' = Some platforms" and "pv \<in> set platforms"
  shows "\<exists>p g'. fix_chrome_mac_platform pv g = Inr (p, g')"
proof -
  from assms have "pv = ''Macintosh; Intel Mac OS X 10.8'' \<or> pv = ''Macintosh; Intel Mac OS X 10.9''
      \<or> pv = ''Macintosh; Intel Mac OS X 10.10'' \<or> pv = ''Macintosh; Intel Mac OS X 10.11''
      \<or> pv = ''Macintosh; Intel Mac OS X 10.12'' \<or> pv = ''Macintosh; Intel Mac OS X 10.13''
      \<or> pv = ''Macintosh; Intel Mac OS X 10.14'' \<or> pv = ''Macintosh; Intel Mac OS X 10.15''"
    by (auto simp: OS_PLATFORM_def)
  then show ?thesis
    by (elim disjE)
       (simp_all add: fix_chrome_mac_platform_def py_split_def list_get_def dict_get_def
          MACOSX_CHROME_BUILD_RANGE_def py_range_def bind_gen_def choice_def Let_def
          split: prod.splits)
qed

lemma build_system_components_mac:
  "\<exists>pv ua w g'. build_system_components dev dt ''mac'' nav g =
     Inr ([(''platform_version'', Str pv), (''platform'', Str ''MacIntel''),
           (''ua_platform'', Str ua), (''oscpu'', Str (''Intel Mac OS X '' @ w))], g')"
proof -
  obtain platforms where pl: "map_of OS_PLATFORM ''mac'' = Some platforms" "platforms \<noteq> []"
    by (simp add: OS_PLATFORM_def)
  have "map_of OS_CPU ''mac'' = Some ['''']"
    by (simp add: OS_CPU_def)
  from choice_of_total [OF this, of g] obtain cpu g1 where
    c1: "choice_of OS_CPU ''mac'' g = Inr (cpu, g1)"
    by simp
  from choice_of_total [OF pl, of g1] obtain pv g2 where
    c2: "choice_of OS_PLATFORM ''mac'' g1 = Inr (pv, g2)"
    by simp
  from choice_of_member [OF c2] pl(1) have pv: "pv \<in> set platforms"
    by simp
  obtain ua g3 where
    c3: "(if nav = ''chrome'' then fix_chrome_mac_platform pv else ret pv) g2 = Inr (ua, g3)"
    using fix_chrome_mac_platform_total [OF pl(1) pv, of g2] by (cases "nav = ''chrome''") auto
  from last_piece_total [of "'' ''" ua] obtain w where
    c4: "bind_err (py_split ua '' '' (- 1)) (\<lambda>parts. list_get parts (- 1)) = Inr w"
    by auto
  show ?thesis
    unfolding build_system_components_def
    by (simp add: bind_gen_def c1 c2 c3 c4)
qed

lemma android_platform_prefix:
  assumes "choice_of OS_PLATFORM ''android'' g = Inr (pv, g')"
  shows "prefix ''Android'' pv"
  using choice_of_member [OF assms] by (auto simp: OS_PLATFORM_def)

lemma android_cpu:
  assumes "choice_of OS_CPU ''android'' g = Inr (cpu, g')"
  shows "cpu = ''armv7l'' \<or> cpu = ''armv8l''"
  using choice_of_member [OF assms] by (auto simp: OS_CPU_def)

lemma android_draws:
  obtains pv g1 where "choice_of OS_PLATFORM ''android'' g = Inr (pv, g1)"
proof -
  obtain platforms where "map_of OS_PLATFORM ''android'' = Some platforms" "platforms \<noteq> []"
    by (simp add: OS_PLATFORM_def)
  from choice_of_total [OF this, of g] show ?thesis
    by (rule that)
qed

lemma android_cpu_draws:
  obtains cpu g1 where "choice_of OS_CPU ''android'' g = Inr (cpu, g1)"
proof -
  have "map_of OS_CPU ''android'' = Some [''armv7l'', ''armv8l'']"
    by (simp add: OS_CPU_def)
  from choice_of_total [OF this, of g] show ?thesis
    by (intro that) simp
qed

lemma build_system_components_android_firefox:
  assumes "dt = ''smartphone'' \<or> dt = ''tablet''"
  shows "\<exists>pv cpu g'. prefix ''Android'' pv \<and> (cpu = ''armv7l'' \<or> cpu = ''armv8l'')
     \<and> build_system_components dev dt ''android'' ''firefox'' g =
        Inr ([(''platform_version'', Str pv),
              (''ua_platform'',
                 Str (pv @ (if dt = ''smartphone'' then ''; Mobile'' else ''; Tablet''))),
              (''platform'', Str (''Linux '' @ cpu)), (''oscpu'', Str (''Linux '' @ cpu))],
             g')"
proof -
  obtain pv g1 where c1: "choice_of OS_PLATFORM ''android'' g = Inr (pv, g1)"
    by (rule android_draws)
  obtain cpu g2 where c2: "choice_of OS_CPU ''android'' g1 = Inr (cpu, g2)"
    by (rule android_cpu_draws)
  have "build_system_components dev dt ''android'' ''firefox'' g =
        Inr ([(''platform_version'', Str pv),
              (''ua_platform'',
                 Str (pv @ (if dt = ''smartphone'' then ''; Mobile'' else ''; Tablet''))),
              (''platform'', Str (''Linux '' @ cpu)), (''oscpu'', Str (''Linux '' @ cpu))],
             g2)"
    using assms unfolding build_system_components_def
    by (auto simp: bind_gen_def c1 c2 Let_def)
  with android_platform_prefix [OF c1] android_cpu [OF c2] show ?thesis
    by blast
qed

text \<open>
  Android with Chrome: the device model of \<open>ua_platform\<close> is an element of
  \<^verbatim>\<open>SMARTPHONE_DEV_IDS\<close>, for the smartphone and for the tablet; with an empty catalog
  the draw raises IndexError.
\<close>

lemma build_system_components_android_chrome:
  assumes "dt = ''smartphone'' \<or> dt = ''tablet''"
  shows "(\<exists>pv device_id cpu g'. device_id \<in> set (SMARTPHONE_DEV_IDS dev)
            \<and> build_system_components dev dt ''android'' ''chrome'' g =
               Inr ([(''platform_version'', Str pv),
                     (''ua_platform'', Str (''Linux; '' @ pv @ ''; '' @ device_id)),
                     (''platform'', Str (''Linux '' @ cpu)),
                     (''oscpu'', Str (''Linux '' @ cpu))], g'))
         \<or> (SMARTPHONE_DEV_IDS dev = []
              \<and> build_system_components dev dt ''android'' ''chrome'' g = Inl IndexError)"
proof -
  obtain pv g1 where c1: "choice_of OS_PLATFORM ''android'' g = Inr (pv, g1)"
    by (rule android_draws)
  show ?thesis
  proof (cases "SMARTPHONE_DEV_IDS dev = []")
    case True
    then have "choice (SMARTPHONE_DEV_IDS dev) g1 = Inl IndexError"
      by (simp add: choice_def)
    then have "build_system_components dev dt ''android'' ''chrome'' g = Inl IndexError"
      using assms unfolding build_system_components_def
      by (auto simp: bind_gen_def c1)
    with True show ?thesis by blast
  next
    case False
    then obtain device_id g2 where
      c2: "choice (SMARTPHONE_DEV_IDS dev) g1 = Inr (device_id, g2)"
      and mem: "device_id \<in> set (SMARTPHONE_DEV_IDS dev)"
      by (rule choice_succeeds)
    obtain cpu g3 where c3: "choice_of OS_CPU ''android'' g2 = Inr (cpu, g3)"
      by (rule android_cpu_draws)
    have "build_system_components dev dt ''android'' ''chrome'' g =
               Inr ([(''platform_version'', Str pv),
                     (''ua_platform'', Str (''Linux; '' @ pv @ ''; '' @ device_id)),
                     (''platform'', Str (''Linux '' @ cpu)),
                     (''oscpu'', Str (''Linux '' @ cpu))], g3)"
      using assms unfolding build_system_components_def
      by (auto simp: bind_gen_def c1 c2 c3 Let_def)
    with mem show ?thesis by blast
  qed
qed

lemma build_system_components_completeI:
  assumes "build_system_components dev dt os_id nav g = Inr (system, g')"
    and "system_complete system"
  shows "(\<exists>system g'. build_system_components dev dt os_id nav g = Inr (system, g')
            \<and> system_complete system)
         \<or> (SMARTPHONE_DEV_IDS dev = [] \<and> os_id = ''android'' \<and> nav = ''chrome''
              \<and> build_system_components dev dt os_id nav g = Inl IndexError)"
  using assms by blast


lemma compatible_cases:
  assumes "compatible (dt, os_id, nav)"
  shows "os_id = ''win'' \<or> os_id = ''linux'' \<or> os_id = ''mac''
    \<or> (os_id = ''android'' \<and> nav = ''firefox'' \<and> (dt = ''smartphone'' \<or> dt = ''tablet''))
    \<or> (os_id = ''android'' \<and> nav = ''chrome'' \<and> (dt = ''smartphone'' \<or> dt = ''tablet''))"
  using assms unfolding compatible_iff by (elim disjE conjE) simp_all

lemma build_system_components_win_complete:
  "\<exists>system g'. build_system_components dev dt ''win'' nav g = Inr (system, g')
     \<and> system_complete system"
proof -
  from build_system_components_win [of dev dt nav g] obtain pv p g' where
    r: "build_system_components dev dt ''win'' nav g =
          Inr ([(''platform_version'', Str pv), (''platform'', Str p),
                (''ua_platform'', Str p), (''oscpu'', Str p)], g')"
    by (elim exE)
  have "system_complete [(''platform_version'', Str pv), (''platform'', Str p),
                (''ua_platform'', Str p), (''oscpu'', Str p)]"
    by (rule system_completeI; simp add: dict_get_def)
  with r show ?thesis
    by (intro exI conjI)
qed

lemma build_system_components_linux_complete:
  "\<exists>system g'. build_system_components dev dt ''linux'' nav g = Inr (system, g')
     \<and> system_complete system"
proof -
  from build_system_components_linux [of dev dt nav g] obtain pv p oc g' where
    r: "build_system_components dev dt ''linux'' nav g =
          Inr ([(''platform_version'', Str pv), (''platform'', Str p),
                (''ua_platform'', Str p), (''oscpu'', Str oc)], g')"
    by (elim exE)
  have "system_complete [(''platform_version'', Str pv), (''platform'', Str p),
                (''ua_platform'', Str p), (''oscpu'', Str oc)]"
    by (rule system_completeI; simp add: dict_get_def)
  with r show ?thesis
    by (intro exI conjI)
qed

lemma build_system_components_mac_complete:
  "\<exists>system g'. build_system_components dev dt ''mac'' nav g = Inr (system, g')
     \<and> system_complete system"
proof -
  from build_system_components_mac [of dev dt nav g] obtain pv ua w g' where
    r: "build_system_components dev dt ''mac'' nav g =
          Inr ([(''platform_version'', Str pv), (''platform'', Str ''MacIntel''),
                (''ua_platform'', Str ua), (''oscpu'', Str (''Intel Mac OS X '' @ w))], g')"
    by (elim exE)
  have "system_complete [(''platform_version'', Str pv), (''platform'', Str ''MacIntel''),
                (''ua_platform'', Str ua), (''oscpu'', Str (''Intel Mac OS X '' @ w))]"
    by (rule system_completeI; simp add: dict_get_def)
  with r show ?thesis
    by (intro exI conjI)
qed

lemma build_system_components_android_firefox_complete:
  assumes "dt = ''smartphone'' \<or> dt = ''tablet''"
  shows "\<exists>system g'. build_system_components dev dt ''android'' ''firefox'' g = Inr (system, g')
     \<and> system_complete system"
proof -
  from build_system_components_android_firefox [OF assms, of dev g] obtain pv cpu g' where
    r: "build_system_components dev dt ''android'' ''firefox'' g =
      Inr ([(''platform_version'', Str pv),
            (''ua_platform'',
               Str (pv @ (if dt = ''smartphone'' then ''; Mobile'' else ''; Tablet''))),
            (''platform'', Str (''Linux '' @ cpu)), (''oscpu'', Str (''Linux '' @ cpu))],
           g')"
    by (elim exE conjE)
  have "system_complete [(''platform_version'', Str pv),
            (''ua_platform'',
               Str (pv @ (if dt = ''smartphone'' then ''; Mobile'' else ''; Tablet''))),
            (''platform'', Str (''Linux '' @ cpu)), (''oscpu'', Str (''Linux '' @ cpu))]"
    by (rule system_completeI; simp add: dict_get_def)
  with r show ?thesis
    by (intro exI conjI)
qed

lemma build_system_components_android_chrome_complete:
  assumes "dt = ''smartphone'' \<or> dt = ''tablet''"
  shows "(\<exists>system g'. build_system_components dev dt ''android'' ''chrome'' g = Inr (system, g')
            \<and> system_complete system)
         \<or> (SMARTPHONE_DEV_IDS dev = []
              \<and> build_system_components dev dt ''android'' ''chrome'' g = Inl IndexError)"
  using build_system_components_android_chrome [OF assms, of dev g]
proof (elim disjE exE conjE)
  fix pv device_id cpu g'
  assume r: "build_system_components dev dt ''android'' ''chrome'' g =
               Inr ([(''platform_version'', Str pv),
                     (''ua_platform'', Str (''Linux; '' @ pv @ ''; '' @ device_id)),
                     (''platform'', Str (''Linux '' @ cpu)),
                     (''oscpu'', Str (''Linux '' @ cpu))], g')"
  have "system_complete [(''platform_version'', Str pv),
                     (''ua_platform'', Str (''Linux; '' @ pv @ ''; '' @ device_id)),
                     (''platform'', Str (''Linux '' @ cpu)),
                     (''oscpu'', Str (''Linux '' @ cpu))]"
    by (rule system_completeI; simp add: dict_get_def)
  with r show ?thesis
    by (intro disjI1 exI conjI)
next
  assume "SMARTPHONE_DEV_IDS dev = []"
    and "build_system_components dev dt ''android'' ''chrome'' g = Inl IndexError"
  then show ?thesis
    by (intro disjI2 conjI)
qed

text \<open>
  For a compatible triple \<^verbatim>\<open>build_system_components\<close> returns a complete dictionary;
  the one exception is the draw of a device model from an empty catalog.
\<close>

lemma build_system_components_compatible:
  assumes "compatible (dt, os_id, nav)"
  shows "(\<exists>system g'. build_system_components dev dt os_id nav g = Inr (system, g')
            \<and> system_complete system)
         \<or> (SMARTPHONE_DEV_IDS dev = [] \<and> os_id = ''android'' \<and> nav = ''chrome''
              \<and> build_system_components dev dt os_id nav g = Inl IndexError)"
  using compatible_cases [OF assms]
proof (elim disjE conjE)
  assume "os_id = ''win''"
  with build_system_components_win_complete [of dev dt nav g] show ?thesis
    by simp
next
  assume "os_id = ''linux''"
  with build_system_components_linux_complete [of dev dt nav g] show ?thesis
    by simp
next
  assume "os_id = ''mac''"
  with build_system_components_mac_complete [of dev dt nav g] show ?thesis
    by simp
next
  assume "os_id = ''android''" "nav = ''firefox''" "dt = ''smartphone''"
  with build_system_components_android_firefox_complete [of dt dev g] show ?thesis
    by simp
next
  assume "os_id = ''android''" "nav = ''firefox''" "dt = ''tablet''"
  with build_system_components_android_firefox_complete [of dt dev g] show ?thesis
    by simp
next
  assume "os_id = ''android''" "nav = ''chrome''" "dt = ''smartphone''"
  with build_system_components_android_chrome_complete [of dt dev g] show ?thesis
    by simp
next
  assume "os_id = ''android''" "nav = ''chrome''" "dt = ''tablet''"
  with build_system_components_android_chrome_complete [of dt dev g] show ?thesis
    by simp
qed


section \<open>Conflicting and invalid filters\<close>

text \<open>
  C7. When the three filters in force are individually valid and no triple of the
  Cartesian product of their choices satisfies the three compatibility tables,
  \<^verbatim>\<open>pick_config_ids\<close> and the three public functions raise InvalidOption with the
  message that the options conflict with each other.
\<close>

theorem conflicting_filters_raise:
  assumes "valid_filter (keys DEVICE_TYPE_OS) device_type"
    and "valid_filter (keys OS_NAVIGATOR) (os_in_force os platform)"
    and "valid_filter (keys NAVIGATOR_OS) navigator"
    and "\<forall>t \<in> set (candidates device_type (os_in_force os platform) navigator).
           \<not> compatible t"
  shows "pick_config_ids device_type (os_in_force os platform) navigator g
           = Inl (InvalidOption
                    ''Options device_type, os and navigator conflicts with each other'')
         \<and> generate_navigator dev os navigator platform device_type g
           = Inl (InvalidOption
                    ''Options device_type, os and navigator conflicts with each other'')
         \<and> generate_user_agent dev os navigator platform device_type g
           = Inl (InvalidOption
                    ''Options device_type, os and navigator conflicts with each other'')
         \<and> generate_navigator_js dev os navigator platform device_type g
           = Inl (InvalidOption
                    ''Options device_type, os and navigator conflicts with each other'')"
proof -
  from assms(4)
  have "filter compatible (candidates device_type (os_in_force os platform) navigator) = []"
    by (simp add: filter_empty_conv)
  then have "pick_config_ids device_type (os_in_force os platform) navigator g
               = Inl (InvalidOption conflict_message)"
    using pick_config_ids_eq [OF valid_filter_not_rejected [OF assms(1)]
        valid_filter_not_rejected [OF assms(2)] valid_filter_not_rejected [OF assms(3)], of g]
    by (simp add: Let_def)
  from this public_functions_fail [OF this, of dev] show ?thesis
    by (simp add: conflict_message_def)
qed

theorem conflicting_filters_raise_witness:
  "generate_navigator example_device (PyStr ''win'') (PyStr ''firefox'') PyNone
     (PyStr ''smartphone'') [3, 1, 4]
     = Inl (InvalidOption ''Options device_type, os and navigator conflicts with each other'')
   \<and> generate_user_agent example_device (PyStr ''win'') (PyStr ''firefox'') PyNone
       (PyStr ''smartphone'') [3, 1, 4]
     = Inl (InvalidOption ''Options device_type, os and navigator conflicts with each other'')"
  using conflicting_filters_raise [where device_type = "PyStr ''smartphone''"
      and os = "PyStr ''win''" and platform = PyNone and navigator = "PyStr ''firefox''"
      and dev = example_device and g = "[3, 1, 4]"]
  by (simp add: valid_filter_def is_other_def values_of_def os_in_force_def candidates_def
        dev_type_choices_of_def os_choices_of_def nav_choices_of_def selected_def
        compatible_iff)

text \<open>
  C6, as amended. When a filter argument in force is of a wrong type, or does not name
  \<^verbatim>\<open>all\<close> and names a value outside its axis, the three public functions raise
  InvalidOption. The message is the rejection of the first offending argument in the order
  \<^verbatim>\<open>device_type\<close>, \<^verbatim>\<open>os\<close>, \<^verbatim>\<open>navigator\<close>: it names this option, and its
  wrong-typed value or the first value it has outside its axis. (An argument that names
  \<^verbatim>\<open>all\<close> selects the whole axis whatever else it names, and \<^verbatim>\<open>os\<close> is not in
  force when \<^verbatim>\<open>platform\<close> is given.)
\<close>

theorem invalid_filter_raises:
  assumes "(opt_name, all_choices, v) \<in> set (filter_arguments device_type os platform navigator)"
    and "offending all_choices v"
  shows "\<exists>msg. first_rejection device_type (os_in_force os platform) navigator = Some msg
           \<and> generate_navigator dev os navigator platform device_type g
                 = Inl (InvalidOption msg)
           \<and> generate_user_agent dev os navigator platform device_type g
                 = Inl (InvalidOption msg)
           \<and> generate_navigator_js dev os navigator platform device_type g
                 = Inl (InvalidOption msg)
           \<and> names_offender (filter_arguments device_type os platform navigator) msg"
proof -
  from first_rejection_offending [OF assms [unfolded filter_arguments_def]]
  obtain msg where
    msg: "first_rejection device_type (os_in_force os platform) navigator = Some msg"
    by auto
  note failed = public_functions_fail [OF pick_config_ids_rejected [OF msg], of dev g]
  from first_rejection_names [OF msg]
  have "names_offender (filter_arguments device_type os platform navigator) msg"
    by (simp add: filter_arguments_def)
  with msg failed show ?thesis
    by blast
qed

theorem invalid_filter_raises_witness:
  "generate_navigator example_device (PyStr ''bogus'') PyNone PyNone (PyStr ''tv'') [2, 7]
     = Inl (InvalidOption ''Choices of option device_type contains invalid item: tv'')
   \<and> generate_user_agent example_device (PyStr ''bogus'') PyNone PyNone (PyStr ''tv'') [2, 7]
     = Inl (InvalidOption ''Choices of option device_type contains invalid item: tv'')
   \<and> generate_navigator_js example_device (PyStr ''bogus'') PyNone PyNone (PyStr ''tv'') [2, 7]
     = Inl (InvalidOption ''Choices of option device_type contains invalid item: tv'')"
  using invalid_filter_raises [where opt_name = "''os''" and all_choices = "keys OS_NAVIGATOR"
      and v = "PyStr ''bogus''" and device_type = "PyStr ''tv''"
      and os = "PyStr ''bogus''" and platform = PyNone and navigator = PyNone
      and dev = example_device and g = "[2, 7]"]
  by (auto simp: filter_arguments_def os_in_force_def values_of_def offending_def is_other_def
        first_rejection_def rejection_def)

text \<open>
  The claim as it was stated fails: the argument \<^verbatim>\<open>os=["all", "bogus"]\<close> contains
  \<^verbatim>\<open>bogus\<close>, which is neither an operating system nor \<^verbatim>\<open>all\<close>, and the generation
  succeeds.
\<close>

theorem invalid_filter_counterexample:
  "''bogus'' \<in> set (values_of (PyList [''all'', ''bogus'']))
   \<and> ''bogus'' \<notin> set (keys OS_NAVIGATOR) \<and> ''bogus'' \<noteq> ''all''
   \<and> generate_user_agent example_device (PyList [''all'', ''bogus'']) PyNone PyNone PyNone []
       = Inr (Str ''Mozilla/5.0 (Windows NT 5.1) AppleWebKit/537.36 (KHTML, like Gecko) Chrome/49.0.2623.0 Safari/537.36'',
              [])"
  by (simp add: values_of_def run_defs table_defs)


section \<open>From the components to the navigator\<close>

lemma dict_get_Inr_iff: "dict_get d k = Inr v \<longleftrightarrow> map_of d k = Some v"
  by (simp add: dict_get_def split: option.splits)

lemma pick_config_ids_cases:
  "(\<exists>msg. pick_config_ids device_type os navigator g = Inl (InvalidOption msg))
   \<or> (\<exists>t g1. pick_config_ids device_type os navigator g = Inr (t, g1) \<and> compatible t
          \<and> t \<in> set (candidates device_type os navigator))"
proof (cases "first_rejection device_type os navigator")
  case (Some msg)
  from pick_config_ids_rejected [OF this, of g] show ?thesis
    by (intro disjI1 exI)
next
  case None
  then have r: "rejection ''device_type'' (keys DEVICE_TYPE_OS) device_type = None"
    "rejection ''os'' (keys OS_NAVIGATOR) os = None"
    "rejection ''navigator'' (keys NAVIGATOR_OS) navigator = None"
    by (simp_all add: first_rejection_def split: option.splits)
  let ?variants = "filter compatible (candidates device_type os navigator)"
  note eq = pick_config_ids_eq [OF r, of g]
  show ?thesis
  proof (cases "?variants = []")
    case True
    with eq have "pick_config_ids device_type os navigator g
        = Inl (InvalidOption conflict_message)"
      by (simp add: Let_def)
    then show ?thesis
      by (intro disjI1 exI)
  next
    case False
    define t where "t = ?variants ! (fst (next_draw g) mod length ?variants)"
    have "t \<in> set ?variants"
      unfolding t_def by (rule nth_mem) (use False in simp)
    then have "compatible t" "t \<in> set (candidates device_type os navigator)"
      by simp_all
    moreover from eq False
    have "pick_config_ids device_type os navigator g = Inr (t, snd (next_draw g))"
      by (simp add: Let_def t_def)
    ultimately show ?thesis
      by (intro disjI2 exI conjI)
  qed
qed

lemma pick_config_ids_compatible:
  assumes "pick_config_ids device_type os navigator g = Inr (t, g1)"
  shows "compatible t" and "t \<in> set (candidates device_type os navigator)"
  using pick_config_ids_cases [of device_type os navigator g] assms by auto

lemma compatible_navigator:
  assumes "compatible (dt, os_id, nav)"
  shows "nav = ''chrome'' \<or> nav = ''firefox'' \<or> nav = ''ie''"
  using assms unfolding compatible_iff by (elim disjE conjE) simp_all

lemma compatible_os:
  assumes "compatible (dt, os_id, nav)"
  shows "os_id = ''win'' \<or> os_id = ''mac'' \<or> os_id = ''linux'' \<or> os_id = ''android''"
  using assms unfolding compatible_iff by (elim disjE conjE) simp_all

lemma split_pieces_zero: "split_pieces sep 0 cur s = [cur @ s]"
  by (induction s arbitrary: cur) simp_all

lemma choose_ua_template_firefox:
  "choose_ua_template dt ''firefox'' app =
     Inr [Lit ''Mozilla/5.0 ('', SystemItem ''ua_platform'', Lit ''; rv:'',
          AppItem ''build_version'', Lit '') Gecko/'', AppItem ''geckotrail'',
          Lit '' Firefox/'', AppItem ''build_version'']"
  by (simp add: choose_ua_template_def USER_AGENT_TEMPLATE_def dict_get_def Let_def)

lemma choose_ua_template_chrome:
  "choose_ua_template dt ''chrome'' app =
     Inr [Lit ''Mozilla/5.0 ('', SystemItem ''ua_platform'',
          Lit '') AppleWebKit/537.36 (KHTML, like Gecko) Chrome/'',
          AppItem ''build_version'',
          Lit (if dt = ''smartphone'' then '' Mobile Safari/537.36''
               else '' Safari/537.36'')]"
  by (simp add: choose_ua_template_def USER_AGENT_TEMPLATE_def dict_get_def Let_def)

lemma choose_ua_template_ie:
  assumes "dict_get app ''build_version'' = Inr bv"
  shows "choose_ua_template dt ''ie'' app =
     Inr (if bv = Str ''MSIE 11.0''
          then [Lit ''Mozilla/5.0 ('', SystemItem ''ua_platform'', Lit ''; Trident/'',
                AppItem ''trident_version'', Lit ''; rv:11.0) like Gecko'']
          else [Lit ''Mozilla/5.0 (compatible; '', AppItem ''build_version'', Lit ''; '',
                SystemItem ''ua_platform'', Lit ''; Trident/'', AppItem ''trident_version'',
                Lit '')''])"
  using assms
  by (simp add: choose_ua_template_def USER_AGENT_TEMPLATE_def dict_get_def Let_def)


text \<open>The converse of the inversion: the steps of a run put together.\<close>

lemma generate_navigator_assemble:
  assumes "pick_config_ids device_type (os_in_force os platform) navigator g
             = Inr ((dt, os_id, nav_id), g1)"
    and "build_system_components dev dt os_id nav_id g1 = Inr (system, g2)"
    and "build_app_components os_id nav_id g2 = Inr (app, g3)"
    and "choose_ua_template dt nav_id app = Inr tpl"
    and "format_template tpl system app = Inr ua"
    and "dict_get system ''platform_version'' = Inr pv"
    and "build_navigator_app_version os_id nav_id pv ua = Inr av"
    and "dict_get system ''platform'' = Inr sp"
    and "dict_get system ''oscpu'' = Inr so"
    and "dict_get app ''build_version'' = Inr abv"
    and "dict_get app ''build_id'' = Inr abi"
    and "dict_get app ''name'' = Inr an"
    and "dict_get app ''product_sub'' = Inr aps"
    and "dict_get app ''vendor'' = Inr avd"
  shows "generate_navigator dev os navigator platform device_type g =
           Inr ([(''os_id'', Str os_id), (''navigator_id'', Str nav_id), (''platform'', sp),
                 (''oscpu'', so), (''build_version'', abv), (''build_id'', abi),
                 (''app_version'', Str av), (''app_name'', an),
                 (''app_code_name'', Str ''Mozilla''), (''product'', Str ''Gecko''),
                 (''product_sub'', aps), (''vendor'', avd), (''vendor_sub'', Str ''''),
                 (''user_agent'', Str ua)], g3)"
  unfolding generate_navigator_def Let_def
  using assms [unfolded os_in_force_def]
  by (simp add: bind_gen_def)

lemma app_version_strip:
  assumes "nav = ''chrome'' \<or> nav = ''ie''"
  shows "build_navigator_app_version os_id nav pv (''Mozilla/'' @ rest) = Inr rest"
  using assms
  by (auto simp: build_navigator_app_version_def py_split_def list_get_def split_pieces_zero)

lemma app_version_firefox:
  assumes "os_id = ''win'' \<or> os_id = ''mac'' \<or> os_id = ''linux'' \<or> os_id = ''android''"
  shows "\<exists>av. build_navigator_app_version os_id ''firefox'' pv ua = Inr av"
  using assms
  by (elim disjE) (simp_all add: build_navigator_app_version_def dict_get_def)

text \<open>
  Once the triple is compatible and the system dictionary complete, the rest of
  \<^verbatim>\<open>generate_navigator\<close> returns: the build selectors are total, the template finds
  its fields, and the header starts with \<^verbatim>\<open>Mozilla/\<close>.
\<close>

lemma generate_navigator_total:
  assumes p: "pick_config_ids device_type (os_in_force os platform) navigator g
                = Inr ((dt, os_id, nav), g1)"
    and c: "compatible (dt, os_id, nav)"
    and s: "build_system_components dev dt os_id nav g1 = Inr (system, g2)"
    and sc: "system_complete system"
  shows "\<exists>config g'. generate_navigator dev os navigator platform device_type g
           = Inr (config, g')"
proof -
  from sc obtain pv pl ua oc where
    d: "dict_get system ''platform_version'' = Inr (Str pv)"
      "dict_get system ''platform'' = Inr (Str pl)"
      "dict_get system ''ua_platform'' = Inr (Str ua)"
      "dict_get system ''oscpu'' = Inr (Str oc)"
    unfolding system_complete_def by (elim exE conjE)
  from compatible_navigator [OF c] show ?thesis
  proof (elim disjE)
    assume nav: "nav = ''chrome''"
    from build_app_components_chrome [of os_id g2] obtain bv g3 where
      app: "build_app_components os_id ''chrome'' g2 =
        Inr ([(''name'', Str ''Netscape''), (''product_sub'', Str ''20030107''),
              (''vendor'', Str ''Google Inc.''), (''build_version'', Str bv),
              (''build_id'', NoneVal)], g3)"
      by (elim exE)
    let ?app = "[(''name'', Str ''Netscape''), (''product_sub'', Str ''20030107''),
              (''vendor'', Str ''Google Inc.''), (''build_version'', Str bv),
              (''build_id'', NoneVal)]"
    let ?rest = "''5.0 ('' @ ua @ '') AppleWebKit/537.36 (KHTML, like Gecko) Chrome/'' @ bv
        @ (if dt = ''smartphone'' then '' Mobile Safari/537.36'' else '' Safari/537.36'')"
    have f: "format_template
        [Lit ''Mozilla/5.0 ('', SystemItem ''ua_platform'',
          Lit '') AppleWebKit/537.36 (KHTML, like Gecko) Chrome/'',
          AppItem ''build_version'',
          Lit (if dt = ''smartphone'' then '' Mobile Safari/537.36''
               else '' Safari/537.36'')] system ?app = Inr (''Mozilla/'' @ ?rest)"
      by (simp add: d) (simp add: dict_get_def)
    have av: "build_navigator_app_version os_id ''chrome'' (Str pv) (''Mozilla/'' @ ?rest)
        = Inr ?rest"
      by (rule app_version_strip) simp
    from generate_navigator_assemble [OF p [unfolded nav] s [unfolded nav] app
        choose_ua_template_chrome f d(1) av d(2) d(4)]
    show ?thesis
      by (simp add: dict_get_def)
  next
    assume nav: "nav = ''ie''"
    from build_app_components_ie [of os_id g2] obtain an bv tv g3 where
      app: "build_app_components os_id ''ie'' g2 =
        Inr ([(''name'', Str an), (''product_sub'', NoneVal), (''vendor'', Str ''''),
              (''build_version'', Str bv), (''build_id'', NoneVal),
              (''trident_version'', Str tv)], g3)"
      by (elim exE conjE)
    let ?app = "[(''name'', Str an), (''product_sub'', NoneVal), (''vendor'', Str ''''),
              (''build_version'', Str bv), (''build_id'', NoneVal),
              (''trident_version'', Str tv)]"
    let ?tpl = "if Str bv = Str ''MSIE 11.0''
          then [Lit ''Mozilla/5.0 ('', SystemItem ''ua_platform'', Lit ''; Trident/'',
                AppItem ''trident_version'', Lit ''; rv:11.0) like Gecko'']
          else [Lit ''Mozilla/5.0 (compatible; '', AppItem ''build_version'', Lit ''; '',
                SystemItem ''ua_platform'', Lit ''; Trident/'', AppItem ''trident_version'',
                Lit '')'']"
    let ?rest = "if bv = ''MSIE 11.0''
          then ''5.0 ('' @ ua @ ''; Trident/'' @ tv @ ''; rv:11.0) like Gecko''
          else ''5.0 (compatible; '' @ bv @ ''; '' @ ua @ ''; Trident/'' @ tv @ '')''"
    have tpl: "choose_ua_template dt ''ie'' ?app = Inr ?tpl"
      by (rule choose_ua_template_ie) (simp add: dict_get_def)
    have f: "format_template ?tpl system ?app = Inr (''Mozilla/'' @ ?rest)"
      by (simp add: d) (simp add: dict_get_def)
    have av: "build_navigator_app_version os_id ''ie'' (Str pv) (''Mozilla/'' @ ?rest)
        = Inr ?rest"
      by (rule app_version_strip) simp
    from generate_navigator_assemble [OF p [unfolded nav] s [unfolded nav] app
        tpl f d(1) av d(2) d(4)]
    show ?thesis
      by (simp add: dict_get_def)
  next
    assume nav: "nav = ''firefox''"
    obtain v build_id where
      app: "build_app_components os_id ''firefox'' g2 =
           Inr ([(''name'', Str ''Netscape''), (''product_sub'', Str ''20100101''),
                 (''vendor'', Str ''''), (''build_version'', Str v),
                 (''build_id'', Str build_id),
                 (''geckotrail'',
                    Str (if os_id \<in> set [''win'', ''linux'', ''mac''] then ''20100101''
                         else v))],
                snd (next_draw (snd (next_draw g2))))"
      by (rule build_app_components_firefox [of os_id g2])
    let ?app = "[(''name'', Str ''Netscape''), (''product_sub'', Str ''20100101''),
                 (''vendor'', Str ''''), (''build_version'', Str v),
                 (''build_id'', Str build_id),
                 (''geckotrail'',
                    Str (if os_id \<in> set [''win'', ''linux'', ''mac''] then ''20100101''
                         else v))]"
    let ?ua = "''Mozilla/5.0 ('' @ ua @ ''; rv:'' @ v @ '') Gecko/''
        @ (if os_id \<in> set [''win'', ''linux'', ''mac''] then ''20100101'' else v)
        @ '' Firefox/'' @ v"
    have f: "format_template
        [Lit ''Mozilla/5.0 ('', SystemItem ''ua_platform'', Lit ''; rv:'',
          AppItem ''build_version'', Lit '') Gecko/'', AppItem ''geckotrail'',
          Lit '' Firefox/'', AppItem ''build_version''] system ?app = Inr ?ua"
      by (simp add: d) (simp add: dict_get_def)
    from app_version_firefox [OF compatible_os [OF c], of "Str pv" ?ua] obtain av where
      av: "build_navigator_app_version os_id ''firefox'' (Str pv) ?ua = Inr av"
      by (elim exE)
    from generate_navigator_assemble [OF p [unfolded nav] s [unfolded nav] app
        choose_ua_template_firefox f d(1) av d(2) d(4)]
    show ?thesis
      by (simp add: dict_get_def)
  qed
qed


section \<open>The claims about the public functions\<close>

text \<open>
  C5. For every combination of filter arguments and every state of the random source,
  \<^verbatim>\<open>generate_user_agent\<close> raises what \<^verbatim>\<open>generate_navigator\<close> raises, and when
  \<^verbatim>\<open>generate_navigator\<close> returns a record it returns the \<^verbatim>\<open>user_agent\<close> field of
  that record, which is always present, leaving the random source in the same state.
\<close>

theorem generate_user_agent_is_field:
  "(\<forall>e. generate_navigator dev os navigator platform device_type g = Inl e
        \<longrightarrow> generate_user_agent dev os navigator platform device_type g = Inl e)
   \<and> (\<forall>config g'. generate_navigator dev os navigator platform device_type g = Inr (config, g')
        \<longrightarrow> (\<exists>ua. dict_get config ''user_agent'' = Inr (Str ua)
               \<and> generate_user_agent dev os navigator platform device_type g
                   = Inr (Str ua, g')))"
proof (intro conjI allI impI)
  fix e
  assume "generate_navigator dev os navigator platform device_type g = Inl e"
  then show "generate_user_agent dev os navigator platform device_type g = Inl e"
    by (simp add: generate_user_agent_def bind_gen_def)
next
  fix config g'
  assume run: "generate_navigator dev os navigator platform device_type g = Inr (config, g')"
  from generate_navigator_user_agent [OF run] obtain ua where
    ua: "dict_get config ''user_agent'' = Inr (Str ua)"
    by (elim exE)
  with run have "generate_user_agent dev os navigator platform device_type g
      = Inr (Str ua, g')"
    by (simp add: generate_user_agent_def bind_gen_def)
  with ua show "\<exists>ua. dict_get config ''user_agent'' = Inr (Str ua)
      \<and> generate_user_agent dev os navigator platform device_type g = Inr (Str ua, g')"
    by (intro exI conjI)
qed

theorem generate_user_agent_is_field_witness:
  "generate_user_agent example_device (PyStr ''win'') (PyStr ''ie'') PyNone PyNone [0, 4, 1, 3]
     = Inr (Str ''Mozilla/5.0 (Windows NT 10.0; Win64; x64; Trident/7.0; rv:11.0) like Gecko'',
            [])
   \<and> generate_user_agent example_device (PyStr ''win'') (PyStr ''safari'') PyNone PyNone
       [0, 4, 1, 3]
     = Inl (InvalidOption ''Choices of option navigator contains invalid item: safari'')"
proof -
  have ok: "generate_navigator example_device (PyStr ''win'') (PyStr ''ie'') PyNone PyNone
      [0, 4, 1, 3] =
    Inr ([(''os_id'', Str ''win''), (''navigator_id'', Str ''ie''),
          (''platform'', Str ''Windows NT 10.0; Win64; x64''),
          (''oscpu'', Str ''Windows NT 10.0; Win64; x64''),
          (''build_version'', Str ''MSIE 11.0''), (''build_id'', NoneVal),
          (''app_version'',
           Str ''5.0 (Windows NT 10.0; Win64; x64; Trident/7.0; rv:11.0) like Gecko''),
          (''app_name'', Str ''Netscape''), (''app_code_name'', Str ''Mozilla''),
          (''product'', Str ''Gecko''), (''product_sub'', NoneVal), (''vendor'', Str ''''),
          (''vendor_sub'', Str ''''),
          (''user_agent'',
           Str ''Mozilla/5.0 (Windows NT 10.0; Win64; x64; Trident/7.0; rv:11.0) like Gecko'')],
         [])"
    by (simp add: run_defs table_defs)
  have bad: "generate_navigator example_device (PyStr ''win'') (PyStr ''safari'') PyNone PyNone
      [0, 4, 1, 3]
    = Inl (InvalidOption ''Choices of option navigator contains invalid item: safari'')"
    by (simp add: run_defs table_defs)
  from generate_user_agent_is_field [of example_device "PyStr ''win''" "PyStr ''ie''" PyNone
      PyNone "[0, 4, 1, 3]"] ok
    generate_user_agent_is_field [of example_device "PyStr ''win''" "PyStr ''safari''" PyNone
      PyNone "[0, 4, 1, 3]"] bad
  show ?thesis
    by (simp add: dict_get_def)
qed




text \<open>
  C8. A triple that \<^verbatim>\<open>pick_config_ids\<close> returns with the operating system
  \<^verbatim>\<open>android\<close> has the navigator \<^verbatim>\<open>firefox\<close> or \<^verbatim>\<open>chrome\<close> and the device type
  \<^verbatim>\<open>smartphone\<close> or \<^verbatim>\<open>tablet\<close>, so \<^verbatim>\<open>build_system_components\<close> does not fail
  an assertion on it; and \<^verbatim>\<open>generate_navigator\<close> raises no AssertionError at all,
  whatever the filters, the device catalog and the state of the random source.
\<close>

theorem android_assertions_hold:
  "(\<forall>dt os_id nav_id g1.
      pick_config_ids device_type (os_in_force os platform) navigator g
        = Inr ((dt, os_id, nav_id), g1) \<and> os_id = ''android''
      \<longrightarrow> (nav_id = ''firefox'' \<or> nav_id = ''chrome'')
          \<and> (dt = ''smartphone'' \<or> dt = ''tablet'')
          \<and> (\<forall>what. build_system_components dev dt os_id nav_id g1
                      \<noteq> Inl (AssertionError what)))
   \<and> (\<forall>what. generate_navigator dev os navigator platform device_type g
               \<noteq> Inl (AssertionError what))"
proof (intro conjI allI impI; (elim conjE)?)
  fix dt os_id nav_id g1
  assume p: "pick_config_ids device_type (os_in_force os platform) navigator g
        = Inr ((dt, os_id, nav_id), g1)"
    and android: "os_id = ''android''"
  from pick_config_ids_compatible(1) [OF p] have c: "compatible (dt, os_id, nav_id)" .
  from c android show "nav_id = ''firefox'' \<or> nav_id = ''chrome''"
    unfolding compatible_iff by (elim disjE conjE) simp_all
  from c android show "dt = ''smartphone'' \<or> dt = ''tablet''"
    unfolding compatible_iff by (elim disjE conjE) simp_all
  fix what
  from build_system_components_compatible [OF c, of dev g1]
  show "build_system_components dev dt os_id nav_id g1 \<noteq> Inl (AssertionError what)"
    by (elim disjE exE conjE) simp_all
next
  fix what
  from pick_config_ids_cases [of device_type "os_in_force os platform" navigator g]
  show "generate_navigator dev os navigator platform device_type g
          \<noteq> Inl (AssertionError what)"
  proof (elim disjE exE conjE)
    fix msg
    assume "pick_config_ids device_type (os_in_force os platform) navigator g
        = Inl (InvalidOption msg)"
    from public_functions_fail(1) [OF this, of dev] show ?thesis
      by simp
  next
    fix t g1
    assume p: "pick_config_ids device_type (os_in_force os platform) navigator g = Inr (t, g1)"
      and c: "compatible t"
    obtain dt os_id nav_id where t: "t = (dt, os_id, nav_id)"
      by (cases t)
    note p = p [unfolded t] and c = c [unfolded t]
    from build_system_components_compatible [OF c, of dev g1] show ?thesis
    proof (elim disjE exE conjE)
      fix system g2
      assume "build_system_components dev dt os_id nav_id g1 = Inr (system, g2)"
        and "system_complete system"
      from generate_navigator_total [OF p c this] show ?thesis
        by (elim exE) simp
    next
      assume "build_system_components dev dt os_id nav_id g1 = Inl IndexError"
      with p [unfolded os_in_force_def]
      have "generate_navigator dev os navigator platform device_type g = Inl IndexError"
        unfolding generate_navigator_def Let_def by (simp add: bind_gen_def)
      then show ?thesis
        by simp
    qed
  qed
qed

theorem android_assertions_hold_witness:
  "pick_config_ids (PyStr ''tablet'') (PyStr ''android'') (PyStr ''firefox'') [7, 1]
     = Inr ((''tablet'', ''android'', ''firefox''), [1])
   \<and> (\<forall>what. build_system_components example_device ''tablet'' ''android'' ''firefox'' [1]
                \<noteq> Inl (AssertionError what))
   \<and> (\<forall>what. generate_navigator example_device (PyStr ''android'') (PyStr ''firefox'') PyNone
                (PyStr ''tablet'') [7, 1] \<noteq> Inl (AssertionError what))"
proof -
  have p: "pick_config_ids (PyStr ''tablet'') (PyStr ''android'') (PyStr ''firefox'') [7, 1]
     = Inr ((''tablet'', ''android'', ''firefox''), [1])"
    by (simp add: run_defs table_defs)
  from android_assertions_hold [where device_type = "PyStr ''tablet''"
      and os = "PyStr ''android''" and platform = PyNone and navigator = "PyStr ''firefox''"
      and dev = example_device and g = "[7, 1]"] p
  show ?thesis
    by (simp add: os_in_force_def)
qed


section \<open>The rendered header\<close>







lemma build_system_components_tablets:
  "build_system_components (dev\<lparr>TABLET_DEV_IDS := tablets\<rparr>) dt os_id nav
     = build_system_components dev dt os_id nav"
  by (simp add: build_system_components_def cong: if_cong)

lemma build_system_components_android_chrome_Inr:
  assumes "dt = ''smartphone'' \<or> dt = ''tablet''"
    and "build_system_components dev dt ''android'' ''chrome'' g = Inr (system, g')"
  shows "\<exists>pv device_id cpu. device_id \<in> set (SMARTPHONE_DEV_IDS dev)
           \<and> system = [(''platform_version'', Str pv),
                     (''ua_platform'', Str (''Linux; '' @ pv @ ''; '' @ device_id)),
                     (''platform'', Str (''Linux '' @ cpu)),
                     (''oscpu'', Str (''Linux '' @ cpu))]"
  using build_system_components_android_chrome [OF assms(1), of dev g] assms(2)
  by (elim disjE exE conjE) auto

lemma build_app_components_chrome_Inr:
  assumes "build_app_components os_id ''chrome'' g = Inr (app, g')"
  shows "\<exists>bv. app = [(''name'', Str ''Netscape''), (''product_sub'', Str ''20030107''),
            (''vendor'', Str ''Google Inc.''), (''build_version'', Str bv),
            (''build_id'', NoneVal)]"
  using build_app_components_chrome [of os_id g] assms
  by (elim exE) auto

text \<open>
  C10. \<^verbatim>\<open>TABLET_DEV_IDS\<close> is never consulted: replacing it changes no result of
  \<^verbatim>\<open>generate_navigator\<close>. In every record returned with the operating system
  \<^verbatim>\<open>android\<close> and the navigator \<^verbatim>\<open>chrome\<close>, whether for a smartphone or a tablet,
  the header is \<^verbatim>\<open>Mozilla/5.0 (Linux; <release>; <model>) AppleWebKit/...\<close> with a model
  that is an element of \<^verbatim>\<open>SMARTPHONE_DEV_IDS\<close>.
\<close>

theorem android_chrome_device_model:
  "(\<forall>tablets. generate_navigator (dev\<lparr>TABLET_DEV_IDS := tablets\<rparr>) os navigator platform
                  device_type g
                = generate_navigator dev os navigator platform device_type g)
   \<and> (\<forall>config g'.
        generate_navigator dev os navigator platform device_type g = Inr (config, g')
        \<and> dict_get config ''os_id'' = Inr (Str ''android'')
        \<and> dict_get config ''navigator_id'' = Inr (Str ''chrome'')
        \<longrightarrow> (\<exists>pv device_id rest.
               device_id \<in> set (SMARTPHONE_DEV_IDS dev)
               \<and> dict_get config ''user_agent''
                   = Inr (Str (''Mozilla/5.0 (Linux; '' @ pv @ ''; '' @ device_id
                               @ '') AppleWebKit/537.36 (KHTML, like Gecko) Chrome/''
                               @ rest))))"
proof (intro conjI allI impI; (elim conjE)?)
  fix tablets
  show "generate_navigator (dev\<lparr>TABLET_DEV_IDS := tablets\<rparr>) os navigator platform
          device_type g
        = generate_navigator dev os navigator platform device_type g"
    by (simp add: generate_navigator_def build_system_components_tablets)
next
  fix config g'
  assume run: "generate_navigator dev os navigator platform device_type g = Inr (config, g')"
    and os_id: "dict_get config ''os_id'' = Inr (Str ''android'')"
    and nav_id: "dict_get config ''navigator_id'' = Inr (Str ''chrome'')"
  from run show "\<exists>pv device_id rest.
               device_id \<in> set (SMARTPHONE_DEV_IDS dev)
               \<and> dict_get config ''user_agent''
                   = Inr (Str (''Mozilla/5.0 (Linux; '' @ pv @ ''; '' @ device_id
                               @ '') AppleWebKit/537.36 (KHTML, like Gecko) Chrome/''
                               @ rest))"
  proof (elim generate_navigator_InrE)
    fix dt os_id' nav_id' g1 system g2 app tpl ua pv av sp so abv abi an aps avd
    assume p: "pick_config_ids device_type (os_in_force os platform) navigator g
                 = Inr ((dt, os_id', nav_id'), g1)"
      and s: "build_system_components dev dt os_id' nav_id' g1 = Inr (system, g2)"
      and a: "build_app_components os_id' nav_id' g2 = Inr (app, g')"
      and tpl: "choose_ua_template dt nav_id' app = Inr tpl"
      and f: "format_template tpl system app = Inr ua"
      and config: "config =
           [(''os_id'', Str os_id'), (''navigator_id'', Str nav_id'), (''platform'', sp),
            (''oscpu'', so), (''build_version'', abv), (''build_id'', abi),
            (''app_version'', Str av), (''app_name'', an), (''app_code_name'', Str ''Mozilla''),
            (''product'', Str ''Gecko''), (''product_sub'', aps), (''vendor'', avd),
            (''vendor_sub'', Str ''''), (''user_agent'', Str ua)]"
    from os_id nav_id config have ids: "os_id' = ''android''" "nav_id' = ''chrome''"
      by (simp_all add: dict_get_def)
    from pick_config_ids_compatible(1) [OF p] ids
    have dt: "dt = ''smartphone'' \<or> dt = ''tablet''"
      unfolding compatible_iff by (elim disjE conjE) simp_all
    from build_system_components_android_chrome_Inr [OF dt s [unfolded ids]]
    obtain pv' device_id cpu where mem: "device_id \<in> set (SMARTPHONE_DEV_IDS dev)"
      and system: "system = [(''platform_version'', Str pv'),
                     (''ua_platform'', Str (''Linux; '' @ pv' @ ''; '' @ device_id)),
                     (''platform'', Str (''Linux '' @ cpu)),
                     (''oscpu'', Str (''Linux '' @ cpu))]"
      by (elim exE conjE)
    from build_app_components_chrome_Inr [OF a [unfolded ids]]
    obtain bv where app: "app = [(''name'', Str ''Netscape''),
        (''product_sub'', Str ''20030107''), (''vendor'', Str ''Google Inc.''),
        (''build_version'', Str bv), (''build_id'', NoneVal)]"
      by (elim exE)
    from tpl [unfolded ids choose_ua_template_chrome] f
    have "ua = ''Mozilla/5.0 (Linux; '' @ pv' @ ''; '' @ device_id
        @ '') AppleWebKit/537.36 (KHTML, like Gecko) Chrome/''
        @ (bv @ (if dt = ''smartphone'' then '' Mobile Safari/537.36''
                 else '' Safari/537.36''))"
      by (auto simp: system app dict_get_def)
    then have "dict_get config ''user_agent''
        = Inr (Str (''Mozilla/5.0 (Linux; '' @ pv' @ ''; '' @ device_id
                    @ '') AppleWebKit/537.36 (KHTML, like Gecko) Chrome/''
                    @ (bv @ (if dt = ''smartphone'' then '' Mobile Safari/537.36''
                             else '' Safari/537.36''))))"
      by (simp add: config dict_get_def)
    with mem show ?thesis
      by (intro exI conjI)
  qed
qed

theorem android_chrome_device_model_witness:
  "generate_user_agent example_device (PyStr ''android'') (PyStr ''chrome'') PyNone
     (PyStr ''tablet'') [0, 3, 1, 1, 37, 0, 77]
     = Inr (Str ''Mozilla/5.0 (Linux; Android 4.4.3; Nexus 5) AppleWebKit/537.36 (KHTML, like Gecko) Chrome/87.0.4280.77 Safari/537.36'',
            [])
   \<and> ''Nexus 5'' \<in> set (SMARTPHONE_DEV_IDS example_device)
   \<and> ''Nexus 5'' \<notin> set (TABLET_DEV_IDS example_device)
   \<and> (\<exists>pv device_id rest.
         device_id \<in> set (SMARTPHONE_DEV_IDS example_device)
         \<and> ''Mozilla/5.0 (Linux; Android 4.4.3; Nexus 5) AppleWebKit/537.36 (KHTML, like Gecko) Chrome/87.0.4280.77 Safari/537.36''
             = ''Mozilla/5.0 (Linux; '' @ pv @ ''; '' @ device_id
               @ '') AppleWebKit/537.36 (KHTML, like Gecko) Chrome/'' @ rest)"
proof -
  have run: "generate_navigator example_device (PyStr ''android'') (PyStr ''chrome'') PyNone
      (PyStr ''tablet'') [0, 3, 1, 1, 37, 0, 77] =
    Inr ([(''os_id'', Str ''android''), (''navigator_id'', Str ''chrome''),
          (''platform'', Str ''Linux armv8l''), (''oscpu'', Str ''Linux armv8l''),
          (''build_version'', Str ''87.0.4280.77''), (''build_id'', NoneVal),
          (''app_version'',
           Str ''5.0 (Linux; Android 4.4.3; Nexus 5) AppleWebKit/537.36 (KHTML, like Gecko) Chrome/87.0.4280.77 Safari/537.36''),
          (''app_name'', Str ''Netscape''), (''app_code_name'', Str ''Mozilla''),
          (''product'', Str ''Gecko''), (''product_sub'', Str ''20030107''),
          (''vendor'', Str ''Google Inc.''), (''vendor_sub'', Str ''''),
          (''user_agent'',
           Str ''Mozilla/5.0 (Linux; Android 4.4.3; Nexus 5) AppleWebKit/537.36 (KHTML, like Gecko) Chrome/87.0.4280.77 Safari/537.36'')],
         [])"
    by (simp add: run_defs table_defs)
  have ua: "generate_user_agent example_device (PyStr ''android'') (PyStr ''chrome'') PyNone
     (PyStr ''tablet'') [0, 3, 1, 1, 37, 0, 77]
     = Inr (Str ''Mozilla/5.0 (Linux; Android 4.4.3; Nexus 5) AppleWebKit/537.36 (KHTML, like Gecko) Chrome/87.0.4280.77 Safari/537.36'',
            [])"
    unfolding generate_user_agent_def bind_gen_def run by (simp add: dict_get_def)
  have cat: "''Nexus 5'' \<in> set (SMARTPHONE_DEV_IDS example_device)"
    "''Nexus 5'' \<notin> set (TABLET_DEV_IDS example_device)"
    by (simp_all add: example_device_def)
  from android_chrome_device_model [of example_device "PyStr ''android''" "PyStr ''chrome''"
      PyNone "PyStr ''tablet''" "[0, 3, 1, 1, 37, 0, 77]"] run
  have "\<exists>pv device_id rest.
         device_id \<in> set (SMARTPHONE_DEV_IDS example_device)
         \<and> ''Mozilla/5.0 (Linux; Android 4.4.3; Nexus 5) AppleWebKit/537.36 (KHTML, like Gecko) Chrome/87.0.4280.77 Safari/537.36''
             = ''Mozilla/5.0 (Linux; '' @ pv @ ''; '' @ device_id
               @ '') AppleWebKit/537.36 (KHTML, like Gecko) Chrome/'' @ rest"
    by (simp add: dict_get_def)
  with ua cat show ?thesis
    by (intro conjI)
qed


section \<open>The Firefox build id\<close>

lemma get_firefox_build_fields:
  obtains v t where
    "get_firefox_build g = Inr ((v, strftime_YmdHMS t), snd (next_draw (snd (next_draw g))))"
    and "timestamp_fields t"
proof -
  obtain v t where run:
      "get_firefox_build g = Inr ((v, strftime_YmdHMS t), snd (next_draw (snd (next_draw g))))"
    and b: "2000 \<le> year t" "year t \<le> 2501" "1 \<le> month t" "month t \<le> 12"
      "1 \<le> day t" "day t \<le> 31" "0 \<le> hour t" "hour t < 24"
      "0 \<le> minute t" "minute t < 60" "0 \<le> second t" "second t < 60"
    by (rule get_firefox_build_run [of g]) blast
  from b have "timestamp_fields t"
    by (simp add: timestamp_fields_def)
  with run show ?thesis
    by (rule that)
qed

lemma timestamp_digits:
  assumes "timestamp_fields t"
  shows "length (strftime_YmdHMS t) = 14" and "list_all is_digit (strftime_YmdHMS t)"
proof -
  have "length (strftime_YmdHMS t) = 14 \<and> list_all is_digit (strftime_YmdHMS t)"
    by (rule strftime_digits) (use assms in \<open>simp_all add: timestamp_fields_def\<close>)
  then show "length (strftime_YmdHMS t) = 14" and "list_all is_digit (strftime_YmdHMS t)"
    by simp_all
qed

lemma build_app_components_firefox_Inr:
  assumes "build_app_components os_id ''firefox'' g = Inr (app, g')"
  shows "\<exists>t. timestamp_fields t \<and> dict_get app ''build_id'' = Inr (Str (strftime_YmdHMS t))"
proof -
  obtain v t where run:
      "get_firefox_build g = Inr ((v, strftime_YmdHMS t), snd (next_draw (snd (next_draw g))))"
    and t: "timestamp_fields t"
    by (rule get_firefox_build_fields)
  from assms have "dict_get app ''build_id'' = Inr (Str (strftime_YmdHMS t))"
    by (auto simp: build_app_components_def bind_gen_def run Let_def dict_get_def)
  with t show ?thesis
    by (intro exI conjI)
qed

text \<open>Two runs of the selector, computed: the first and the last entry of the table.\<close>

lemma firefox_first: "FIREFOX_VERSION ! 0 = (''0.9'', datetime3 2004 6 28)"
  "FIREFOX_VERSION ! Suc 0 = (''0.9.3'', datetime3 2004 8 4)"
  by (simp_all add: FIREFOX_VERSION_def)

lemma tuple_index_first: "tuple_index FIREFOX_VERSION (''0.9'', datetime3 2004 6 28) = Inr 0"
  by (simp add: tuple_index_def FIREFOX_VERSION_def)

lemma tuple_index_last: "tuple_index FIREFOX_VERSION (''84.0.2'', datetime3 2021 1 6) = Inr 430"
  by (simp add: tuple_index_def FIREFOX_VERSION_def datetime3_def)

lemmas calendar_defs = add_seconds_def seconds_of_def toordinal_def ymd2ord_def
  days_before_year_def days_before_month_def DAYS_BEFORE_MONTH_def DAYS_IN_MONTH_def
  is_leap_def ord2ymd_def month_day_of_def total_seconds_between_def datetime3_def
  strftime_YmdHMS_def zero_padded_def str_int_def str_nat.simps digit_char_def Let_def

lemma get_firefox_build_first:
  "get_firefox_build [] = Inr ((''0.9'', ''20040628000000''), [])"
proof -
  have c: "choice FIREFOX_VERSION [] = Inr ((''0.9'', datetime3 2004 6 28), [])"
    by (simp add: choice_def firefox_length firefox_first length_0_conv [symmetric]
          del: length_0_conv)
  have d: "firefox_date_to ''0.9'' (datetime3 2004 6 28) = Inr (datetime3 2004 8 4)"
    by (simp add: firefox_date_to_def tuple_index_first list_get_def firefox_length
          firefox_first)
  show ?thesis
    unfolding get_firefox_build_def bind_gen_def c
    by (simp add: d lift_def) (simp add: randint_def calendar_defs)
qed

lemma get_firefox_build_last:
  "get_firefox_build [430, 100000] = Inr ((''84.0.2'', ''20210107034640''), [])"
proof -
  have c: "choice FIREFOX_VERSION [430, 100000]
      = Inr ((''84.0.2'', datetime3 2021 1 6), [100000])"
    by (simp add: choice_def firefox_length firefox_last length_0_conv [symmetric]
          del: length_0_conv)
  have d: "firefox_date_to ''84.0.2'' (datetime3 2021 1 6) = Inr (datetime3 2021 1 7)"
    by (simp add: firefox_date_to_def tuple_index_last list_get_def firefox_length
          add_one_day_last)
  show ?thesis
    unfolding get_firefox_build_def bind_gen_def c
    by (simp add: d lift_def) (simp add: randint_def calendar_defs)
qed


text \<open>
  C9. Every run of the Firefox build selector returns, and its build id is the print of a
  timestamp in the form \<^verbatim>\<open>YYYYMMDDHHMMSS\<close>: exactly 14 decimal digits, of a
  four-digit year, a month of 1 to 12, a day of 1 to 31 and a time of day. The same holds
  of the \<^verbatim>\<open>build_id\<close> of every record that \<^verbatim>\<open>generate_navigator\<close> returns with
  the navigator \<^verbatim>\<open>firefox\<close>.
\<close>

theorem firefox_build_id_form:
  "(\<exists>v t g'. get_firefox_build g = Inr ((v, strftime_YmdHMS t), g')
        \<and> timestamp_fields t \<and> length (strftime_YmdHMS t) = 14
        \<and> list_all is_digit (strftime_YmdHMS t))
   \<and> (\<forall>config g'.
        generate_navigator dev os navigator platform device_type g = Inr (config, g')
        \<and> dict_get config ''navigator_id'' = Inr (Str ''firefox'')
        \<longrightarrow> (\<exists>t. dict_get config ''build_id'' = Inr (Str (strftime_YmdHMS t))
               \<and> timestamp_fields t \<and> length (strftime_YmdHMS t) = 14
               \<and> list_all is_digit (strftime_YmdHMS t)))"
proof (intro conjI allI impI; (elim conjE)?)
  obtain v t where
    "get_firefox_build g = Inr ((v, strftime_YmdHMS t), snd (next_draw (snd (next_draw g))))"
    and "timestamp_fields t"
    by (rule get_firefox_build_fields)
  with timestamp_digits [of t]
  show "\<exists>v t g'. get_firefox_build g = Inr ((v, strftime_YmdHMS t), g')
        \<and> timestamp_fields t \<and> length (strftime_YmdHMS t) = 14
        \<and> list_all is_digit (strftime_YmdHMS t)"
    by (intro exI conjI)
next
  fix config g'
  assume run: "generate_navigator dev os navigator platform device_type g = Inr (config, g')"
    and nav_id: "dict_get config ''navigator_id'' = Inr (Str ''firefox'')"
  from run show "\<exists>t. dict_get config ''build_id'' = Inr (Str (strftime_YmdHMS t))
               \<and> timestamp_fields t \<and> length (strftime_YmdHMS t) = 14
               \<and> list_all is_digit (strftime_YmdHMS t)"
  proof (elim generate_navigator_InrE)
    fix dt os_id' nav_id' g1 system g2 app tpl ua pv av sp so abv abi an aps avd
    assume a: "build_app_components os_id' nav_id' g2 = Inr (app, g')"
      and abi: "dict_get app ''build_id'' = Inr abi"
      and config: "config =
           [(''os_id'', Str os_id'), (''navigator_id'', Str nav_id'), (''platform'', sp),
            (''oscpu'', so), (''build_version'', abv), (''build_id'', abi),
            (''app_version'', Str av), (''app_name'', an), (''app_code_name'', Str ''Mozilla''),
            (''product'', Str ''Gecko''), (''product_sub'', aps), (''vendor'', avd),
            (''vendor_sub'', Str ''''), (''user_agent'', Str ua)]"
    from nav_id config have nav: "nav_id' = ''firefox''"
      by (simp add: dict_get_def)
    from build_app_components_firefox_Inr [OF a [unfolded nav]] obtain t where
      t: "timestamp_fields t" and b: "dict_get app ''build_id'' = Inr (Str (strftime_YmdHMS t))"
      by (elim exE conjE)
    from abi b have "abi = Str (strftime_YmdHMS t)"
      by simp
    then have "dict_get config ''build_id'' = Inr (Str (strftime_YmdHMS t))"
      by (simp add: config dict_get_def)
    with t timestamp_digits [OF t] show ?thesis
      by (intro exI conjI)
  qed
qed

theorem firefox_build_id_form_witness:
  "generate_navigator example_device (PyStr ''win'') (PyStr ''firefox'') PyNone PyNone []
     = Inr ([(''os_id'', Str ''win''), (''navigator_id'', Str ''firefox''),
             (''platform'', Str ''Windows NT 5.1''), (''oscpu'', Str ''Windows NT 5.1''),
             (''build_version'', Str ''0.9''), (''build_id'', Str ''20040628000000''),
             (''app_version'', Str ''5.0 (Windows)''), (''app_name'', Str ''Netscape''),
             (''app_code_name'', Str ''Mozilla''), (''product'', Str ''Gecko''),
             (''product_sub'', Str ''20100101''), (''vendor'', Str ''''),
             (''vendor_sub'', Str ''''),
             (''user_agent'',
              Str ''Mozilla/5.0 (Windows NT 5.1; rv:0.9) Gecko/20100101 Firefox/0.9'')], [])
   \<and> length ''20040628000000'' = 14 \<and> list_all is_digit ''20040628000000''"
proof -
  have run: "generate_navigator example_device (PyStr ''win'') (PyStr ''firefox'') PyNone
      PyNone []
     = Inr ([(''os_id'', Str ''win''), (''navigator_id'', Str ''firefox''),
             (''platform'', Str ''Windows NT 5.1''), (''oscpu'', Str ''Windows NT 5.1''),
             (''build_version'', Str ''0.9''), (''build_id'', Str ''20040628000000''),
             (''app_version'', Str ''5.0 (Windows)''), (''app_name'', Str ''Netscape''),
             (''app_code_name'', Str ''Mozilla''), (''product'', Str ''Gecko''),
             (''product_sub'', Str ''20100101''), (''vendor'', Str ''''),
             (''vendor_sub'', Str ''''),
             (''user_agent'',
              Str ''Mozilla/5.0 (Windows NT 5.1; rv:0.9) Gecko/20100101 Firefox/0.9'')], [])"
    by (simp add: run_defs table_defs get_firefox_build_first)
  define cfg where "cfg =
      [(''os_id'', Str ''win''), (''navigator_id'', Str ''firefox''),
       (''platform'', Str ''Windows NT 5.1''), (''oscpu'', Str ''Windows NT 5.1''),
       (''build_version'', Str ''0.9''), (''build_id'', Str ''20040628000000''),
       (''app_version'', Str ''5.0 (Windows)''), (''app_name'', Str ''Netscape''),
       (''app_code_name'', Str ''Mozilla''), (''product'', Str ''Gecko''),
       (''product_sub'', Str ''20100101''), (''vendor'', Str ''''),
       (''vendor_sub'', Str ''''),
       (''user_agent'',
        Str ''Mozilla/5.0 (Windows NT 5.1; rv:0.9) Gecko/20100101 Firefox/0.9'')]"
  have nav: "dict_get cfg ''navigator_id'' = Inr (Str ''firefox'')"
    by (simp add: cfg_def dict_get_def)
  from firefox_build_id_form [of "[]" example_device "PyStr ''win''" "PyStr ''firefox''"
      PyNone PyNone, THEN conjunct2, rule_format, OF conjI [OF run [folded cfg_def] nav]]
  obtain t where b: "dict_get cfg ''build_id'' = Inr (Str (strftime_YmdHMS t))"
    and l: "length (strftime_YmdHMS t) = 14" and d: "list_all is_digit (strftime_YmdHMS t)"
    by (elim exE conjE)
  from b have e: "strftime_YmdHMS t = ''20040628000000''"
    by (simp add: cfg_def dict_get_def)
  from run l [unfolded e] d [unfolded e] show ?thesis
    by (intro conjI)
qed

text \<open>
  C2, as amended. Every run of the Firefox build selector picks an entry of the table, and
  the timestamp of the build id is the release date of that entry plus a whole number of
  seconds between 0 and \<open>max (w - 1) 100000\<close>, where \<open>w\<close> is the number of seconds from
  that release date to the release date of the next entry of the table, or to one day later
  for the last entry.
\<close>

theorem firefox_build_time:
  "\<exists>idx v date_from date_to offset t g'.
     idx < length FIREFOX_VERSION \<and> FIREFOX_VERSION ! idx = (v, date_from)
     \<and> next_release idx = Inr date_to
     \<and> 0 \<le> offset \<and> offset \<le> max (total_seconds_between date_to date_from - 1) 100000
     \<and> add_seconds date_from offset = Inr t
     \<and> get_firefox_build g = Inr ((v, strftime_YmdHMS t), g')"
proof -
  obtain idx v date_from date_to offset t where
    "idx < length FIREFOX_VERSION" "FIREFOX_VERSION ! idx = (v, date_from)"
    "next_release idx = Inr date_to" "0 \<le> offset"
    "offset \<le> max (total_seconds_between date_to date_from - 1) 100000"
    "add_seconds date_from offset = Inr t"
    "get_firefox_build g = Inr ((v, strftime_YmdHMS t), snd (next_draw (snd (next_draw g))))"
    by (rule get_firefox_build_run [of g]) blast
  then show ?thesis
    by (intro exI conjI)
qed

theorem firefox_build_time_witness:
  "get_firefox_build [430, 100000] = Inr ((''84.0.2'', ''20210107034640''), [])
   \<and> (\<exists>idx v date_from date_to offset t g'.
         idx < length FIREFOX_VERSION \<and> FIREFOX_VERSION ! idx = (v, date_from)
         \<and> next_release idx = Inr date_to
         \<and> 0 \<le> offset \<and> offset \<le> max (total_seconds_between date_to date_from - 1) 100000
         \<and> add_seconds date_from offset = Inr t
         \<and> get_firefox_build [430, 100000] = Inr ((v, strftime_YmdHMS t), g'))"
  using get_firefox_build_last firefox_build_time [of "[430, 100000]"]
  by (intro conjI)

text \<open>
  The claim as it was stated fails on the last entry of the table, version 84.0.2 of
  6 January 2021: with the offset 100000 the build id is 7 January 2021, 03:46:40, which is
  more than one day after the release date.
\<close>

theorem firefox_window_counterexample:
  "get_firefox_build [430, 100000] = Inr ((''84.0.2'', ''20210107034640''), [])
   \<and> FIREFOX_VERSION ! 430 = (''84.0.2'', datetime3 2021 1 6)
   \<and> next_release 430 = Inr (datetime3 2021 1 7)
   \<and> \<not> within_release_window 430 ''20210107034640''"
proof -
  have n: "next_release 430 = Inr (datetime3 2021 1 7)"
    by (simp add: next_release_def firefox_length firefox_last add_one_day_last)
  have "\<not> within_release_window 430 ''20210107034640''"
    by (simp add: within_release_window_def n firefox_last decode_YmdHMS_def digits_value_def
          digit_value_def dt_le_def dt_less_def datetime3_def)
  with get_firefox_build_last firefox_last n show ?thesis
    by (intro conjI)
qed


section \<open>Firefox on an Android tablet\<close>

lemma contains_prefix:
  assumes "prefix sub s"
  shows "contains s sub"
  using assms by (cases s) simp_all

lemma contains_appendI: "contains (a @ sub @ b) sub"
proof (induction a)
  case Nil
  show ?case
    by (rule contains_prefix) simp
next
  case (Cons x a)
  then show ?case by simp
qed

text \<open>
  C3, as amended. For every state of the random source and every device catalog,
  \<^verbatim>\<open>generate_navigator_js(os="android", navigator="firefox", device_type="tablet")\<close>
  returns a record whose \<^verbatim>\<open>userAgent\<close> starts with \<^verbatim>\<open>Mozilla/5.0 (Android\<close> and
  contains \<^verbatim>\<open>; Tablet\<close>, and whose \<^verbatim>\<open>platform\<close> is \<^verbatim>\<open>Linux armv7l\<close> or
  \<^verbatim>\<open>Linux armv8l\<close>.
\<close>

theorem android_firefox_tablet_js:
  "\<exists>js g' ua p.
     generate_navigator_js dev (PyStr ''android'') (PyStr ''firefox'') PyNone (PyStr ''tablet'') g
       = Inr (js, g')
     \<and> dict_get js ''userAgent'' = Inr (Str ua)
     \<and> prefix ''Mozilla/5.0 (Android'' ua \<and> contains ua ''; Tablet''
     \<and> dict_get js ''platform'' = Inr (Str p)
     \<and> (p = ''Linux armv7l'' \<or> p = ''Linux armv8l'')"
proof -
  have r: "rejection ''device_type'' (keys DEVICE_TYPE_OS) (PyStr ''tablet'') = None"
    "rejection ''os'' (keys OS_NAVIGATOR) (os_in_force (PyStr ''android'') PyNone) = None"
    "rejection ''navigator'' (keys NAVIGATOR_OS) (PyStr ''firefox'') = None"
    by (simp_all add: rejection_def values_of_def os_in_force_def)
  define g1 where "g1 = snd (next_draw g)"
  have p: "pick_config_ids (PyStr ''tablet'') (os_in_force (PyStr ''android'') PyNone)
             (PyStr ''firefox'') g = Inr ((''tablet'', ''android'', ''firefox''), g1)"
    using pick_config_ids_eq [OF r, of g]
    by (simp add: os_in_force_def candidates_def dev_type_choices_of_def os_choices_of_def
          nav_choices_of_def selected_def values_of_def compatible_iff Let_def g1_def)
  from build_system_components_android_firefox [of "''tablet''" dev g1]
  obtain pv cpu g2 where pre: "prefix ''Android'' pv"
    and cpu: "cpu = ''armv7l'' \<or> cpu = ''armv8l''"
    and s: "build_system_components dev ''tablet'' ''android'' ''firefox'' g1 =
        Inr ([(''platform_version'', Str pv), (''ua_platform'', Str (pv @ ''; Tablet'')),
              (''platform'', Str (''Linux '' @ cpu)), (''oscpu'', Str (''Linux '' @ cpu))],
             g2)"
    by auto
  let ?system = "[(''platform_version'', Str pv), (''ua_platform'', Str (pv @ ''; Tablet'')),
              (''platform'', Str (''Linux '' @ cpu)), (''oscpu'', Str (''Linux '' @ cpu))]"
  obtain v build_id where
    a: "build_app_components ''android'' ''firefox'' g2 =
           Inr ([(''name'', Str ''Netscape''), (''product_sub'', Str ''20100101''),
                 (''vendor'', Str ''''), (''build_version'', Str v),
                 (''build_id'', Str build_id),
                 (''geckotrail'',
                    Str (if ''android'' \<in> set [''win'', ''linux'', ''mac''] then ''20100101''
                         else v))],
                snd (next_draw (snd (next_draw g2))))"
    by (rule build_app_components_firefox [of "''android''" g2])
  let ?app = "[(''name'', Str ''Netscape''), (''product_sub'', Str ''20100101''),
                 (''vendor'', Str ''''), (''build_version'', Str v),
                 (''build_id'', Str build_id),
                 (''geckotrail'',
                    Str (if ''android'' \<in> set [''win'', ''linux'', ''mac''] then ''20100101''
                         else v))]"
  let ?ua = "(''Mozilla/5.0 ('' @ pv) @ ''; Tablet'' @ (''; rv:'' @ v @ '') Gecko/'' @ v
      @ '' Firefox/'' @ v)"
  have f: "format_template
        [Lit ''Mozilla/5.0 ('', SystemItem ''ua_platform'', Lit ''; rv:'',
          AppItem ''build_version'', Lit '') Gecko/'', AppItem ''geckotrail'',
          Lit '' Firefox/'', AppItem ''build_version''] ?system ?app = Inr ?ua"
    by (simp add: dict_get_def)
  have av: "build_navigator_app_version ''android'' ''firefox'' (Str pv) ?ua
      = Inr (''5.0 ('' @ pv @ '')'')"
    by (simp add: build_navigator_app_version_def)
  have d: "dict_get ?system ''platform_version'' = Inr (Str pv)"
    "dict_get ?system ''platform'' = Inr (Str (''Linux '' @ cpu))"
    "dict_get ?system ''oscpu'' = Inr (Str (''Linux '' @ cpu))"
    "dict_get ?app ''build_version'' = Inr (Str v)"
    "dict_get ?app ''build_id'' = Inr (Str build_id)"
    "dict_get ?app ''name'' = Inr (Str ''Netscape'')"
    "dict_get ?app ''product_sub'' = Inr (Str ''20100101'')"
    "dict_get ?app ''vendor'' = Inr (Str '''')"
    by (simp_all add: dict_get_def)
  note run = generate_navigator_assemble [OF p s a choose_ua_template_firefox f d(1) av
      d(2) d(3) d(4) d(5) d(6) d(7) d(8)]
  have js: "generate_navigator_js dev (PyStr ''android'') (PyStr ''firefox'') PyNone
      (PyStr ''tablet'') g =
    Inr ([(''appCodeName'', Str ''Mozilla''), (''appName'', Str ''Netscape''),
          (''appVersion'', Str (''5.0 ('' @ pv @ '')'')),
          (''platform'', Str (''Linux '' @ cpu)), (''userAgent'', Str ?ua),
          (''oscpu'', Str (''Linux '' @ cpu)), (''product'', Str ''Gecko''),
          (''productSub'', Str ''20100101''), (''vendor'', Str ''''),
          (''vendorSub'', Str ''''), (''buildID'', Str build_id)],
         snd (next_draw (snd (next_draw g2))))"
    unfolding generate_navigator_js_def bind_gen_def run by (simp add: dict_get_def)
  from pre obtain rest where pv: "pv = ''Android'' @ rest"
    by (auto simp: prefix_def)
  have "prefix ''Mozilla/5.0 (Android'' ?ua"
    by (simp add: pv)
  moreover have "contains ?ua ''; Tablet''"
    by (rule contains_appendI)
  moreover from cpu have "''Linux '' @ cpu = ''Linux armv7l'' \<or> ''Linux '' @ cpu = ''Linux armv8l''"
    by auto
  moreover have "dict_get
      [(''appCodeName'', Str ''Mozilla''), (''appName'', Str ''Netscape''),
          (''appVersion'', Str (''5.0 ('' @ pv @ '')'')),
          (''platform'', Str (''Linux '' @ cpu)), (''userAgent'', Str ?ua),
          (''oscpu'', Str (''Linux '' @ cpu)), (''product'', Str ''Gecko''),
          (''productSub'', Str ''20100101''), (''vendor'', Str ''''),
          (''vendorSub'', Str ''''), (''buildID'', Str build_id)] ''userAgent''
      = Inr (Str ?ua)"
    "dict_get
      [(''appCodeName'', Str ''Mozilla''), (''appName'', Str ''Netscape''),
          (''appVersion'', Str (''5.0 ('' @ pv @ '')'')),
          (''platform'', Str (''Linux '' @ cpu)), (''userAgent'', Str ?ua),
          (''oscpu'', Str (''Linux '' @ cpu)), (''product'', Str ''Gecko''),
          (''productSub'', Str ''20100101''), (''vendor'', Str ''''),
          (''vendorSub'', Str ''''), (''buildID'', Str build_id)] ''platform''
      = Inr (Str (''Linux '' @ cpu))"
    by (simp_all add: dict_get_def)
  ultimately show ?thesis
    using js by (intro exI conjI)
qed

theorem android_firefox_tablet_js_witness:
  "\<exists>js g' ua p.
     generate_navigator_js example_device (PyStr ''android'') (PyStr ''firefox'') PyNone
       (PyStr ''tablet'') [4, 9, 1, 200, 77] = Inr (js, g')
     \<and> dict_get js ''userAgent'' = Inr (Str ua)
     \<and> prefix ''Mozilla/5.0 (Android'' ua \<and> contains ua ''; Tablet''
     \<and> dict_get js ''platform'' = Inr (Str p)
     \<and> (p = ''Linux armv7l'' \<or> p = ''Linux armv8l'')"
  by (rule android_firefox_tablet_js [of example_device "[4, 9, 1, 200, 77]"])

text \<open>
  The claim as it was stated fails: the \<^verbatim>\<open>platform\<close> of the record is the
  \<^verbatim>\<open>oscpu\<close> string, which has no \<^verbatim>\<open>; Tablet\<close> in it; that token is part of
  \<^verbatim>\<open>ua_platform\<close>, which goes into the header only.
\<close>

theorem android_firefox_tablet_counterexample:
  "generate_navigator_js example_device (PyStr ''android'') (PyStr ''firefox'') PyNone
     (PyStr ''tablet'') []
     = Inr ([(''appCodeName'', Str ''Mozilla''), (''appName'', Str ''Netscape''),
             (''appVersion'', Str ''5.0 (Android 4.4)''),
             (''platform'', Str ''Linux armv7l''),
             (''userAgent'',
              Str ''Mozilla/5.0 (Android 4.4; Tablet; rv:0.9) Gecko/0.9 Firefox/0.9''),
             (''oscpu'', Str ''Linux armv7l''), (''product'', Str ''Gecko''),
             (''productSub'', Str ''20100101''), (''vendor'', Str ''''),
             (''vendorSub'', Str ''''), (''buildID'', Str ''20040628000000'')], [])
   \<and> \<not> contains ''Linux armv7l'' ''; Tablet''"
  by (simp add: run_defs table_defs get_firefox_build_first)


end
